theory Spec2Isabelle
  imports Complex_Main "HOL-Library.AList" "HOL-Library.Word"
begin

section \<open>Engine types shared by the widgets and the map actor\<close>

text \<open>
  The C++ type \<^verbatim>\<open>float\<close> is read as \<^typ>\<open>real\<close> wherever only finite values and
  comparisons matter (zoom, world coordinates, volume).  The challenge card divides by a
  value that can be zero, so it gets a float type of its own with the IEEE special
  values (section on \<^verbatim>\<open>UChallengeCardWidget\<close>).

  Engine objects (actors, assets, widget classes, timers) are referred to by natural
  numbers; a pointer that may be \<^verbatim>\<open>nullptr\<close> is an \<^typ>\<open>'a option\<close>.
\<close>

type_synonym asset = nat
type_synonym actor_ref = nat
type_synonym widget_ref = nat
type_synonym FDateTime = int

record FVector2D =
  X :: real
  Y :: real

record FVector =
  X :: real
  Y :: real
  Z :: real

text \<open>
  \<^verbatim>\<open>FMath::Clamp(X, Min, Max)\<close> of the engine:
  \<^verbatim>\<open>return X < Min ? Min : X < Max ? X : Max;\<close>
\<close>

definition FMath_Clamp :: "real \<Rightarrow> real \<Rightarrow> real \<Rightarrow> real" where
  "FMath_Clamp x lo hi = (if x < lo then lo else if x < hi then x else hi)"

subsection \<open>Strings\<close>

text \<open>
  An \<^verbatim>\<open>FString\<close> is a \<^typ>\<open>string\<close>.  \<^verbatim>\<open>FString::ToLower\<close> lowers the ASCII letters.
  \<^verbatim>\<open>FString::operator==\<close> and \<^verbatim>\<open>operator!=\<close> ignore case (\<open>FString_eq\<close>), also against
  a literal, and so does \<^verbatim>\<open>FString::EndsWith\<close> unless told otherwise; \<^verbatim>\<open>EndsWith\<close> is
  false for an empty suffix.
\<close>

definition ToLower_char :: "char \<Rightarrow> char" where
  "ToLower_char c =
     (case map_of (zip ''ABCDEFGHIJKLMNOPQRSTUVWXYZ'' ''abcdefghijklmnopqrstuvwxyz'') c of
        Some l \<Rightarrow> l
      | None \<Rightarrow> c)"

definition ToLower :: "string \<Rightarrow> string" where
  "ToLower s = map ToLower_char s"

definition FString_eq :: "string \<Rightarrow> string \<Rightarrow> bool" where
  "FString_eq a b = (ToLower a = ToLower b)"

definition EndsWith :: "string \<Rightarrow> string \<Rightarrow> bool" where
  "EndsWith s InSuffix =
     (InSuffix \<noteq> [] \<and> length InSuffix \<le> length s \<and>
      ToLower (drop (length s - length InSuffix) s) = ToLower InSuffix)"

subsection \<open>Crashes\<close>

text \<open>
  What the program does when it dereferences a null pointer, indexes out of range, or
  calls through a reference that is not an object of the world.  A function that can do
  so returns \<open>Inl\<close> of the crash or \<open>Inr\<close> of its result; \<open>returned\<close> is the result, if any;
  \<open>for_each\<close> is a loop that stops at the first crash.
\<close>

datatype crash = NullDereference | IndexOutOfRange | WildPointer

definition returned :: "crash + 'a \<Rightarrow> 'a option" where
  "returned r = (case r of Inl e \<Rightarrow> None | Inr x \<Rightarrow> Some x)"

fun for_each :: "('a \<Rightarrow> 's \<Rightarrow> crash + 's) \<Rightarrow> 'a list \<Rightarrow> 's \<Rightarrow> crash + 's" where
  "for_each body [] s = Inr s"
| "for_each body (i # is) s =
     (case body i s of Inl e \<Rightarrow> Inl e | Inr s1 \<Rightarrow> for_each body is s1)"

subsection \<open>Maps\<close>

text \<open>
  \<^verbatim>\<open>TMap<FString, V>\<close> is an association list with at most one entry per key, keys being
  compared as \<^verbatim>\<open>FString\<close>s are, ignoring case.  \<^verbatim>\<open>Add\<close> replaces the entry of a key that
  is present (the stored key included) and appends otherwise; \<^verbatim>\<open>FindRef\<close> gives \<^const>\<open>None\<close>
  for the null pointer; \<^verbatim>\<open>Empty\<close> is the empty list.
\<close>

type_synonym 'v TMap = "(string \<times> 'v) list"

fun TMap_Add :: "string \<Rightarrow> 'v \<Rightarrow> 'v TMap \<Rightarrow> 'v TMap" where
  "TMap_Add k v [] = [(k, v)]"
| "TMap_Add k v (p # m) =
     (if FString_eq (fst p) k then (k, v) # m else p # TMap_Add k v m)"

fun FindRef :: "'v TMap \<Rightarrow> string \<Rightarrow> 'v option" where
  "FindRef [] k = None"
| "FindRef (p # m) k = (if FString_eq (fst p) k then Some (snd p) else FindRef m k)"

definition TMap_Keys :: "'v TMap \<Rightarrow> string set" where
  "TMap_Keys m = fst ` set m"

section \<open>The map actor (MapView.h, MapView.cpp)\<close>

subsection \<open>Data\<close>

record FVenueData =
  Id :: string
  Name :: string
  Sports :: "string list"
  Coordinates :: FVector2D
  Description :: string
  Images :: "string list"
  bIsIndoor :: bool

record FPlayerData =
  Id :: string
  Name :: string
  Coordinates :: FVector2D
  AvatarUrl :: string
  Sport :: string
  Status :: string
  LastActive :: string
  VenueId :: string

record FEventData =
  Id :: string
  EventType :: string
  VenueId :: string
  Title :: string
  Status :: string
  StartTime :: FDateTime
  Description :: string

record FHighlightData =
  Id :: string
  PlayerId :: string
  HighlightType :: string
  Description :: string
  ScoreImpact :: real
  ConfidenceScore :: real
  Timestamp :: FDateTime
  Coordinates :: FVector2D

datatype EComponentMobility = Static | Stationary | Movable

text \<open>
  A spawned \<^verbatim>\<open>AStaticMeshActor\<close>: where it stands, its mobility, the mesh and the parent
  of the dynamic material in slot 0, its tags, and whether \<^verbatim>\<open>Destroy()\<close> has been called
  on it.
\<close>

record AStaticMeshActor =
  Location :: FVector
  Mobility :: EComponentMobility
  StaticMesh :: "asset option"
  Material :: "asset option"
  Tags :: "string list"
  bPendingKill :: bool

text \<open>A tooltip component: its widget class, the actor it is attached to, its visibility.\<close>

record UWidgetComponent =
  WidgetClass :: asset
  AttachedTo :: actor_ref
  bVisible :: bool

text \<open>
  The world the actor lives in.  It holds every actor it has spawned, in the order of
  spawning; a reference is the position of its actor, so the next actor gets the reference
  \<open>NextActor\<close>, and a reference from \<open>NextActor\<close> on is wild.  \<^verbatim>\<open>SpawnActor\<close> may return
  null; whether the \<open>n\<close>-th call of the world's history succeeds is decided by the engine
  (\<open>CanSpawn\<close>).  Timers are handles handed out by the timer manager.
\<close>

record UWorld =
  ActorList :: "AStaticMeshActor list"
  SpawnCalls :: nat
  CanSpawn :: "nat \<Rightarrow> bool"
  ActiveTimers :: "nat set"
  NextTimer :: nat

definition NextActor :: "UWorld \<Rightarrow> actor_ref" where
  "NextActor w = length (ActorList w)"

text \<open>The actor behind a reference, if the reference is one of the world's.\<close>

definition Actors :: "UWorld \<Rightarrow> actor_ref \<Rightarrow> AStaticMeshActor option" where
  "Actors w a = (if a < length (ActorList w) then Some (ActorList w ! a) else None)"

text \<open>The actors on which \<^verbatim>\<open>Destroy()\<close> has been called.\<close>

definition Destroyed :: "UWorld \<Rightarrow> actor_ref set" where
  "Destroyed w = {a. a < length (ActorList w) \<and> bPendingKill (ActorList w ! a)}"

record AMapView =
  MapCameraLocation :: FVector
  MinZoom :: real
  MaxZoom :: real
  ZoomSpeed :: real
  PanSpeed :: real
  RotationSpeed :: real
  CurrentZoom :: real
  MapCenter :: FVector2D
  Venues :: "FVenueData list"
  Players :: "FPlayerData list"
  Events :: "FEventData list"
  ActiveHighlights :: "FHighlightData list"
  DefaultVenueMarker :: "asset option"
  IndoorVenueMaterial :: "asset option"
  OutdoorVenueMaterial :: "asset option"
  PlayerMarkerMesh :: "asset option"
  EventMarkerMesh :: "asset option"
  ActivePlayerMaterial :: "asset option"
  InactivePlayerMaterial :: "asset option"
  LiveEventMaterial :: "asset option"
  UpcomingEventMaterial :: "asset option"
  TooltipWidgetClass :: "asset option"
  PulseCurve :: "asset option"
  FadeCurve :: "asset option"
  VenueMarkers :: "actor_ref TMap"
  PlayerMarkers :: "actor_ref TMap"
  EventMarkers :: "actor_ref TMap"
  MarkerTooltips :: "UWidgetComponent TMap"
  AnimationTimers :: "nat TMap"
  HighlightMarkers :: "nat TMap"
  World :: UWorld

subsection \<open>Constructor\<close>

text \<open>
  \<^verbatim>\<open>AMapView::AMapView()\<close> in a given world: the camera 1000 units above the root, the
  zoom defaults, no data, no markers, and every asset property still null.
\<close>

definition AMapView_ctor :: "UWorld \<Rightarrow> AMapView" where
  "AMapView_ctor w =
     \<lparr> MapCameraLocation = \<lparr> FVector.X = 0, Y = 0, Z = 1000 \<rparr>,
       MinZoom = 500, MaxZoom = 5000, ZoomSpeed = 100, PanSpeed = 1, RotationSpeed = 1,
       CurrentZoom = 1000,
       MapCenter = \<lparr> FVector2D.X = 0, Y = 0 \<rparr>,
       Venues = [], Players = [], Events = [], ActiveHighlights = [],
       DefaultVenueMarker = None, IndoorVenueMaterial = None, OutdoorVenueMaterial = None,
       PlayerMarkerMesh = None, EventMarkerMesh = None,
       ActivePlayerMaterial = None, InactivePlayerMaterial = None,
       LiveEventMaterial = None, UpcomingEventMaterial = None,
       TooltipWidgetClass = None, PulseCurve = None, FadeCurve = None,
       VenueMarkers = [], PlayerMarkers = [], EventMarkers = [],
       MarkerTooltips = [], AnimationTimers = [], HighlightMarkers = [],
       World = w \<rparr>"

definition empty_world :: UWorld where
  "empty_world =
     \<lparr> ActorList = [], SpawnCalls = 0, CanSpawn = (\<lambda>_. True),
       ActiveTimers = {}, NextTimer = 0 \<rparr>"

subsection \<open>Camera zoom\<close>

definition ZoomIn :: "real \<Rightarrow> AMapView \<Rightarrow> AMapView" where
  "ZoomIn Delta s =
     (let NewZoom = FMath_Clamp (CurrentZoom s - Delta * ZoomSpeed s) (MinZoom s) (MaxZoom s);
          s1 = s\<lparr> CurrentZoom := NewZoom \<rparr>;
          CameraLocation = (MapCameraLocation s1)\<lparr> Z := CurrentZoom s1 \<rparr>
      in s1\<lparr> MapCameraLocation := CameraLocation \<rparr>)"

definition ZoomOut :: "real \<Rightarrow> AMapView \<Rightarrow> AMapView" where
  "ZoomOut Delta s = ZoomIn (- Delta) s"

text \<open>A finite sequence of zoom calls, run from left to right.\<close>

datatype zoom_call = CallZoomIn real | CallZoomOut real

fun zoom_step :: "zoom_call \<Rightarrow> AMapView \<Rightarrow> AMapView" where
  "zoom_step (CallZoomIn d) s = ZoomIn d s"
| "zoom_step (CallZoomOut d) s = ZoomOut d s"

fun zoom_run :: "zoom_call list \<Rightarrow> AMapView \<Rightarrow> AMapView" where
  "zoom_run [] s = s"
| "zoom_run (c # cs) s = zoom_run cs (zoom_step c s)"

subsection \<open>World operations\<close>

text \<open>
  \<^verbatim>\<open>GetWorld()->SpawnActor<AStaticMeshActor>(..., Location, ...)\<close>: null when the
  engine refuses this call, otherwise a fresh actor at \<open>Location\<close> with nothing set.
\<close>

definition SpawnActor :: "FVector \<Rightarrow> UWorld \<Rightarrow> actor_ref option \<times> UWorld" where
  "SpawnActor loc w =
     (if CanSpawn w (SpawnCalls w)
      then (Some (NextActor w),
            w\<lparr> ActorList := ActorList w @
                   [\<lparr> Location = loc, Mobility = Static, StaticMesh = None, Material = None,
                      Tags = [], bPendingKill = False \<rparr>],
               SpawnCalls := Suc (SpawnCalls w) \<rparr>)
      else (None, w\<lparr> SpawnCalls := Suc (SpawnCalls w) \<rparr>))"

text \<open>
  A method call on the actor behind a reference changes that actor only.  It is used
  below on the reference \<^verbatim>\<open>SpawnActor\<close> has just returned.
\<close>

definition modify_actor ::
  "actor_ref \<Rightarrow> (AStaticMeshActor \<Rightarrow> AStaticMeshActor) \<Rightarrow> UWorld \<Rightarrow> UWorld" where
  "modify_actor a f w =
     (case Actors w a of
        None \<Rightarrow> w
      | Some act \<Rightarrow> w\<lparr> ActorList := (ActorList w)[a := f act] \<rparr>)"

text \<open>
  A method call through a reference that was stored in a marker map: the reference has to
  be one of the world's.
\<close>

definition call_actor ::
  "actor_ref \<Rightarrow> (AStaticMeshActor \<Rightarrow> AStaticMeshActor) \<Rightarrow> UWorld \<Rightarrow> crash + UWorld" where
  "call_actor a f w =
     (case Actors w a of
        None \<Rightarrow> Inl WildPointer
      | Some act \<Rightarrow> Inr (w\<lparr> ActorList := (ActorList w)[a := f act] \<rparr>))"

definition Destroy :: "actor_ref \<Rightarrow> UWorld \<Rightarrow> crash + UWorld" where
  "Destroy a w = call_actor a (\<lambda>act. act\<lparr> bPendingKill := True \<rparr>) w"

definition SetActorLocation :: "actor_ref \<Rightarrow> FVector \<Rightarrow> UWorld \<Rightarrow> crash + UWorld" where
  "SetActorLocation a loc w = call_actor a (\<lambda>act. act\<lparr> Location := loc \<rparr>) w"

definition SetMobility :: "actor_ref \<Rightarrow> EComponentMobility \<Rightarrow> UWorld \<Rightarrow> UWorld" where
  "SetMobility a m w = modify_actor a (\<lambda>act. act\<lparr> Mobility := m \<rparr>) w"

definition SetStaticMesh :: "actor_ref \<Rightarrow> asset option \<Rightarrow> UWorld \<Rightarrow> UWorld" where
  "SetStaticMesh a mesh w = modify_actor a (\<lambda>act. act\<lparr> StaticMesh := mesh \<rparr>) w"

text \<open>
  \<^verbatim>\<open>if (MaterialToUse) { ... SetMaterial(0, UMaterialInstanceDynamic::Create(MaterialToUse, this)); }\<close>
\<close>

definition ApplyMaterial :: "actor_ref \<Rightarrow> asset option \<Rightarrow> UWorld \<Rightarrow> UWorld" where
  "ApplyMaterial a MaterialToUse w =
     (case MaterialToUse of
        None \<Rightarrow> w
      | Some m \<Rightarrow> modify_actor a (\<lambda>act. act\<lparr> Material := Some m \<rparr>) w)"

definition AddTag :: "actor_ref \<Rightarrow> string \<Rightarrow> UWorld \<Rightarrow> UWorld" where
  "AddTag a t w = modify_actor a (\<lambda>act. act\<lparr> Tags := Tags act @ [t] \<rparr>) w"

text \<open>
  \<^verbatim>\<open>FTimerHandle& Timer = AnimationTimers.FindOrAdd(MarkerId); ClearTimer(Timer); SetTimer(Timer, ...)\<close>:
  the handle stored under the marker (if any) is cleared and a new one is stored.
\<close>

definition RestartTimer :: "string \<Rightarrow> AMapView \<Rightarrow> AMapView" where
  "RestartTimer MarkerId s =
     (let w = World s;
          w1 = (case FindRef (AnimationTimers s) MarkerId of
                  None \<Rightarrow> w
                | Some h \<Rightarrow> w\<lparr> ActiveTimers := ActiveTimers w - {h} \<rparr>);
          h' = NextTimer w1;
          w2 = w1\<lparr> ActiveTimers := insert h' (ActiveTimers w1), NextTimer := Suc h' \<rparr>
      in s\<lparr> AnimationTimers := TMap_Add MarkerId h' (AnimationTimers s), World := w2 \<rparr>)"

definition StartPulseAnimation :: "string \<Rightarrow> AMapView \<Rightarrow> AMapView" where
  "StartPulseAnimation MarkerId s =
     (case PulseCurve s of None \<Rightarrow> s | Some _ \<Rightarrow> RestartTimer MarkerId s)"

definition StartFadeAnimation :: "string \<Rightarrow> AMapView \<Rightarrow> AMapView" where
  "StartFadeAnimation MarkerId s =
     (case FadeCurve s of None \<Rightarrow> s | Some _ \<Rightarrow> RestartTimer MarkerId s)"

subsection \<open>Projection\<close>

definition DegreesToRadians :: "real \<Rightarrow> real" where
  "DegreesToRadians d = d * (pi / 180)"

definition LatLongToWorldLocation :: "FVector2D \<Rightarrow> FVector" where
  "LatLongToWorldLocation c =
     (let WorldScale = 100;
          x = FVector2D.X c * WorldScale;
          y = ln (tan (DegreesToRadians (FVector2D.Y c) / 2 + pi / 4)) * WorldScale
      in \<lparr> FVector.X = x, Y = y, Z = 0 \<rparr>)"

subsection \<open>Venue markers\<close>

text \<open>
  The \<^verbatim>\<open>if (Marker.Value)\<close> of the clearing loops has no counterpart: the marker maps
  hold references, and a reference is never null.
\<close>

definition DestroyMarkers :: "actor_ref TMap \<Rightarrow> UWorld \<Rightarrow> crash + UWorld" where
  "DestroyMarkers m w = for_each (\<lambda>Marker. Destroy (snd Marker)) m w"

text \<open>The body of the loop of \<^verbatim>\<open>SpawnVenueMarkers\<close>, for one venue.\<close>

definition SpawnVenueMarker :: "FVenueData \<Rightarrow> AMapView \<Rightarrow> AMapView" where
  "SpawnVenueMarker Venue s =
     (let Location = LatLongToWorldLocation (FVenueData.Coordinates Venue);
          (MarkerActor, w) = SpawnActor Location (World s)
      in case MarkerActor of
           None \<Rightarrow> s\<lparr> World := w \<rparr>
         | Some a \<Rightarrow>
             (let w1 = SetStaticMesh a (DefaultVenueMarker s) (SetMobility a Movable w);
                  MaterialToUse = (if bIsIndoor Venue then IndoorVenueMaterial s
                                   else OutdoorVenueMaterial s);
                  w2 = ApplyMaterial a MaterialToUse w1;
                  s1 = s\<lparr> VenueMarkers := TMap_Add (FVenueData.Id Venue) a (VenueMarkers s) \<rparr>
              in s1\<lparr> World := AddTag a (FVenueData.Id Venue) w2 \<rparr>))"

definition SpawnVenueMarkers :: "AMapView \<Rightarrow> AMapView" where
  "SpawnVenueMarkers s =
     (case DefaultVenueMarker s of
        None \<Rightarrow> s
      | Some _ \<Rightarrow> fold SpawnVenueMarker (Venues s) s)"

definition UpdateVenues :: "FVenueData list \<Rightarrow> AMapView \<Rightarrow> crash + AMapView" where
  "UpdateVenues NewVenues s =
     (case DestroyMarkers (VenueMarkers s) (World s) of
        Inl e \<Rightarrow> Inl e
      | Inr w \<Rightarrow>
          (let s1 = s\<lparr> World := w \<rparr>;
               s2 = s1\<lparr> VenueMarkers := [] \<rparr>;
               s3 = s2\<lparr> Venues := NewVenues \<rparr>
           in Inr (SpawnVenueMarkers s3)))"

subsection \<open>Player markers\<close>

definition AddTooltip :: "string \<Rightarrow> actor_ref \<Rightarrow> AMapView \<Rightarrow> AMapView" where
  "AddTooltip MarkerId a s =
     (case TooltipWidgetClass s of
        None \<Rightarrow> s
      | Some c \<Rightarrow>
          s\<lparr> MarkerTooltips :=
               TMap_Add MarkerId \<lparr> WidgetClass = c, AttachedTo = a, bVisible = False \<rparr>
                 (MarkerTooltips s) \<rparr>)"

definition SpawnPlayerMarker :: "FPlayerData \<Rightarrow> AMapView \<Rightarrow> AMapView" where
  "SpawnPlayerMarker Player s =
     (let Location = LatLongToWorldLocation (FPlayerData.Coordinates Player);
          (MarkerActor, w) = SpawnActor Location (World s)
      in case MarkerActor of
           None \<Rightarrow> s\<lparr> World := w \<rparr>
         | Some a \<Rightarrow>
             (let w1 = SetStaticMesh a (PlayerMarkerMesh s) (SetMobility a Movable w);
                  MaterialToUse = (if FString_eq (FPlayerData.Status Player) ''active''
                                   then ActivePlayerMaterial s else InactivePlayerMaterial s);
                  w2 = ApplyMaterial a MaterialToUse w1;
                  s1 = AddTooltip (FPlayerData.Id Player) a (s\<lparr> World := w2 \<rparr>);
                  s2 = s1\<lparr> PlayerMarkers := TMap_Add (FPlayerData.Id Player) a (PlayerMarkers s1) \<rparr>;
                  s3 = s2\<lparr> World := AddTag a (FPlayerData.Id Player) (World s2) \<rparr>
              in if \<not> FString_eq (FPlayerData.Status Player) ''active''
                 then StartFadeAnimation (FPlayerData.Id Player) s3 else s3))"

definition SpawnPlayerMarkers :: "AMapView \<Rightarrow> AMapView" where
  "SpawnPlayerMarkers s =
     (case PlayerMarkerMesh s of
        None \<Rightarrow> s
      | Some _ \<Rightarrow> fold SpawnPlayerMarker (Players s) s)"

definition UpdatePlayers :: "FPlayerData list \<Rightarrow> AMapView \<Rightarrow> crash + AMapView" where
  "UpdatePlayers NewPlayers s =
     (case DestroyMarkers (PlayerMarkers s) (World s) of
        Inl e \<Rightarrow> Inl e
      | Inr w \<Rightarrow>
          (let s1 = s\<lparr> World := w \<rparr>;
               s2 = s1\<lparr> PlayerMarkers := [] \<rparr>;
               s3 = s2\<lparr> Players := NewPlayers \<rparr>
           in Inr (SpawnPlayerMarkers s3)))"

text \<open>
  \<^verbatim>\<open>UpdatePlayerLocation\<close>: the loop over \<^verbatim>\<open>Players\<close> with its \<^verbatim>\<open>break\<close>.  \<open>before\<close>
  are the players already passed, the list argument those still to visit; \<open>pid\<close> is
  the parameter \<^verbatim>\<open>PlayerId\<close>.
\<close>

fun UpdatePlayerLocation_loop ::
  "string \<Rightarrow> FVector2D \<Rightarrow> FPlayerData list \<Rightarrow> FPlayerData list \<Rightarrow> AMapView \<Rightarrow>
   crash + AMapView" where
  "UpdatePlayerLocation_loop pid NewLocation before [] s = Inr s"
| "UpdatePlayerLocation_loop pid NewLocation before (Player # rest) s =
     (if FString_eq (FPlayerData.Id Player) pid
      then (let s1 = s\<lparr> Players :=
                         before @ Player\<lparr> FPlayerData.Coordinates := NewLocation \<rparr> # rest \<rparr>
            in case FindRef (PlayerMarkers s1) pid of
                 None \<Rightarrow> Inr s1
               | Some Marker \<Rightarrow>
                   (let WorldLocation = LatLongToWorldLocation NewLocation
                    in case SetActorLocation Marker WorldLocation (World s1) of
                         Inl e \<Rightarrow> Inl e
                       | Inr w \<Rightarrow> Inr (s1\<lparr> World := w \<rparr>)))
      else UpdatePlayerLocation_loop pid NewLocation (before @ [Player]) rest s)"

definition UpdatePlayerLocation :: "string \<Rightarrow> FVector2D \<Rightarrow> AMapView \<Rightarrow> crash + AMapView" where
  "UpdatePlayerLocation pid NewLocation s =
     UpdatePlayerLocation_loop pid NewLocation [] (Players s) s"

subsection \<open>Event markers\<close>

text \<open>
  \<^verbatim>\<open>SpawnEventMarkers\<close> declares \<^verbatim>\<open>FVector2D VenueCoords;\<close> inside its loop and
  assigns it only when a venue with the event's \<^verbatim>\<open>VenueId\<close> is found.  The default
  constructor of \<^verbatim>\<open>FVector2D\<close> initialises nothing, so when the search fails the
  variable holds whatever the stack held.  The model makes that content an input:
  \<open>uninit i\<close> is what \<^verbatim>\<open>VenueCoords\<close> holds at its declaration in iteration \<open>i\<close>.
\<close>

fun FindVenueCoords :: "FVector2D \<Rightarrow> string \<Rightarrow> FVenueData list \<Rightarrow> FVector2D" where
  "FindVenueCoords VenueCoords vid [] = VenueCoords"
| "FindVenueCoords VenueCoords vid (Venue # rest) =
     (if FString_eq (FVenueData.Id Venue) vid then FVenueData.Coordinates Venue
      else FindVenueCoords VenueCoords vid rest)"

definition EventMarkerLocation :: "FVector2D \<Rightarrow> FEventData \<Rightarrow> FVenueData list \<Rightarrow> FVector" where
  "EventMarkerLocation uninit0 Event vs =
     (let VenueCoords = FindVenueCoords uninit0 (FEventData.VenueId Event) vs;
          Location = LatLongToWorldLocation VenueCoords
      in Location\<lparr> Z := Z Location + 100 \<rparr>)"

definition SpawnEventMarker :: "FVector2D \<Rightarrow> FEventData \<Rightarrow> AMapView \<Rightarrow> AMapView" where
  "SpawnEventMarker uninit0 Event s =
     (let Location = EventMarkerLocation uninit0 Event (Venues s);
          (MarkerActor, w) = SpawnActor Location (World s)
      in case MarkerActor of
           None \<Rightarrow> s\<lparr> World := w \<rparr>
         | Some a \<Rightarrow>
             (let w1 = SetStaticMesh a (EventMarkerMesh s) (SetMobility a Movable w);
                  MaterialToUse = (if FString_eq (FEventData.Status Event) ''active''
                                   then LiveEventMaterial s else UpcomingEventMaterial s);
                  w2 = ApplyMaterial a MaterialToUse w1;
                  s1 = AddTooltip (FEventData.Id Event) a (s\<lparr> World := w2 \<rparr>);
                  s2 = s1\<lparr> EventMarkers := TMap_Add (FEventData.Id Event) a (EventMarkers s1) \<rparr>;
                  s3 = s2\<lparr> World := AddTag a (FEventData.Id Event) (World s2) \<rparr>
              in if FString_eq (FEventData.Status Event) ''active''
                 then StartPulseAnimation (FEventData.Id Event) s3 else s3))"

definition SpawnEventMarkers :: "(nat \<Rightarrow> FVector2D) \<Rightarrow> AMapView \<Rightarrow> AMapView" where
  "SpawnEventMarkers uninit s =
     (case EventMarkerMesh s of
        None \<Rightarrow> s
      | Some _ \<Rightarrow>
          fold (\<lambda>(i, Event). SpawnEventMarker (uninit i) Event) (enumerate 0 (Events s)) s)"

definition UpdateEvents ::
  "(nat \<Rightarrow> FVector2D) \<Rightarrow> FEventData list \<Rightarrow> AMapView \<Rightarrow> crash + AMapView" where
  "UpdateEvents uninit NewEvents s =
     (case DestroyMarkers (EventMarkers s) (World s) of
        Inl e \<Rightarrow> Inl e
      | Inr w \<Rightarrow>
          (let s1 = s\<lparr> World := w \<rparr>;
               s2 = s1\<lparr> EventMarkers := [] \<rparr>;
               s3 = s2\<lparr> Events := NewEvents \<rparr>
           in Inr (SpawnEventMarkers uninit s3)))"

subsection \<open>A concrete map\<close>

definition demo_world :: UWorld where
  "demo_world =
     \<lparr> ActorList = replicate 3 \<lparr> Location = \<lparr> FVector.X = 0, Y = 0, Z = 0 \<rparr>,
                                  Mobility = Movable, StaticMesh = None, Material = None,
                                  Tags = [], bPendingKill = False \<rparr>,
       SpawnCalls = 3, CanSpawn = (\<lambda>_. True), ActiveTimers = {}, NextTimer = 0 \<rparr>"

definition demo_venue :: "string \<Rightarrow> real \<Rightarrow> FVenueData" where
  "demo_venue i x =
     \<lparr> FVenueData.Id = i, Name = ''Arena'', Sports = [], Coordinates = \<lparr> FVector2D.X = x, Y = 0 \<rparr>,
       Description = [], Images = [], bIsIndoor = True \<rparr>"

definition demo_player :: "string \<Rightarrow> FPlayerData" where
  "demo_player i =
     \<lparr> FPlayerData.Id = i, Name = ''Ann'', Coordinates = \<lparr> FVector2D.X = 2, Y = 0 \<rparr>,
       AvatarUrl = [], Sport = [], Status = ''active'', LastActive = [], VenueId = ''vA'' \<rparr>"

definition demo_event :: "string \<Rightarrow> string \<Rightarrow> FEventData" where
  "demo_event i v =
     \<lparr> FEventData.Id = i, EventType = [], VenueId = v, Title = [], Status = ''upcoming'',
       StartTime = 0, Description = [] \<rparr>"

definition demo_map :: AMapView where
  "demo_map =
     (AMapView_ctor demo_world)
       \<lparr> Venues := [demo_venue ''vA'' 1], Players := [demo_player ''p0''],
         Events := [demo_event ''e0'' ''vA''],
         DefaultVenueMarker := Some 10, PlayerMarkerMesh := Some 11, EventMarkerMesh := Some 12,
         VenueMarkers := [(''vA'', 0)], PlayerMarkers := [(''p0'', 1)],
         EventMarkers := [(''e0'', 2)] \<rparr>"

text \<open>Two contents the stack may have where \<^verbatim>\<open>VenueCoords\<close> is declared.\<close>

definition stack_one :: "nat \<Rightarrow> FVector2D" where
  "stack_one i = \<lparr> FVector2D.X = 1, Y = 0 \<rparr>"

definition stack_two :: "nat \<Rightarrow> FVector2D" where
  "stack_two i = \<lparr> FVector2D.X = 2, Y = 0 \<rparr>"

text \<open>Two venues whose \<^verbatim>\<open>Id\<close>s differ in case only, and a place to move a player to.\<close>

definition case_venues :: "FVenueData list" where
  "case_venues = [demo_venue ''vB'' 1, demo_venue ''VB'' 2]"

definition far_east :: FVector2D where
  "far_east = \<lparr> FVector2D.X = 5, Y = 0 \<rparr>"

section \<open>The coaching flow (CoachingFlowWidget.h, CoachingFlowWidget.cpp)\<close>

datatype ESlateVisibility =
  Visible | Collapsed | Hidden | HitTestInvisible | SelfHitTestInvisible

datatype ECoachingFlowState =
  Initial
| PerformanceReview
| WeaknessIdentification
| DrillRecommendation
| WorkoutPlan
| MealPlan
| LocationSuggestion
| ProgressSummary

text \<open>\<^verbatim>\<open>static_cast<int32>(CurrentState)\<close>: the position in the declaration.\<close>

fun state_index :: "ECoachingFlowState \<Rightarrow> nat" where
  "state_index Initial = 0"
| "state_index PerformanceReview = 1"
| "state_index WeaknessIdentification = 2"
| "state_index DrillRecommendation = 3"
| "state_index WorkoutPlan = 4"
| "state_index MealPlan = 5"
| "state_index LocationSuggestion = 6"
| "state_index ProgressSummary = 7"

record FCoachingMessage =
  SenderName :: string
  MessageText :: string
  MediaURL :: string
  bIsCoach :: bool
  Timestamp :: FDateTime

text \<open>The default constructor; \<open>now\<close> is what \<^verbatim>\<open>FDateTime::Now()\<close> returns.\<close>

definition FCoachingMessage_ctor :: "FDateTime \<Rightarrow> FCoachingMessage" where
  "FCoachingMessage_ctor now =
     \<lparr> SenderName = [], MessageText = [], MediaURL = [], bIsCoach = False, Timestamp = now \<rparr>"

text \<open>
  What the widget does to the outside, in the order it does it: delegate broadcasts,
  calls on its bound child widgets, and the data handed to \<^verbatim>\<open>FFileHelper::SaveStringToFile\<close>
  (the messages and the state index that are serialised into \<^verbatim>\<open>CoachingFlow.json\<close>).
  The second argument of \<^verbatim>\<open>LoadImage\<close> is a new GUID and is not recorded.
\<close>

datatype coaching_effect =
  OnFlowStateChanged_Broadcast ECoachingFlowState
| OnMessageReceived_Broadcast FCoachingMessage
| MessageScrollBox_ScrollToEnd
| MediaPlayer_SetVisibility ESlateVisibility
| ImageDisplay_SetVisibility ESlateVisibility
| MediaPlayer_LoadMedia string string string
| ImageDisplay_LoadImage string
| MessageInputBox_SetText string
| SaveStringToFile "FCoachingMessage list" nat

text \<open>
  The widget.  The \<^verbatim>\<open>BindWidget\<close> pointers are present or null; \<open>Effects\<close> is the log
  of what the widget did.
\<close>

record UCoachingFlowWidget =
  MessageScrollBox :: "widget_ref option"
  MessageContainer :: "widget_ref option"
  MessageInputBox :: "widget_ref option"
  SendMessageButton :: "widget_ref option"
  VoiceInputButton :: "widget_ref option"
  MediaPlayer :: "widget_ref option"
  ImageDisplay :: "widget_ref option"
  CurrentState :: ECoachingFlowState
  MessageHistory :: "FCoachingMessage list"
  bIsVoiceInputActive :: bool
  Effects :: "coaching_effect list"

definition emit :: "coaching_effect \<Rightarrow> UCoachingFlowWidget \<Rightarrow> UCoachingFlowWidget" where
  "emit e s = s\<lparr> Effects := Effects s @ [e] \<rparr>"

text \<open>
  \<^verbatim>\<open>DisplayMedia\<close> tests one of the two child pointers and then calls through both, so
  it dereferences null when exactly the tested one is bound.
\<close>

definition DisplayMedia :: "string \<Rightarrow> bool \<Rightarrow> UCoachingFlowWidget \<Rightarrow> crash + UCoachingFlowWidget" where
  "DisplayMedia URL bIsVideo s =
     (if bIsVideo \<and> MediaPlayer s \<noteq> None then
        (if ImageDisplay s = None then Inl NullDereference
         else Inr (emit (MediaPlayer_LoadMedia URL [] [])
                    (emit (MediaPlayer_SetVisibility Visible)
                      (emit (ImageDisplay_SetVisibility Collapsed) s))))
      else if \<not> bIsVideo \<and> ImageDisplay s \<noteq> None then
        (if MediaPlayer s = None then Inl NullDereference
         else Inr (emit (ImageDisplay_LoadImage URL)
                    (emit (ImageDisplay_SetVisibility Visible)
                      (emit (MediaPlayer_SetVisibility Collapsed) s))))
      else Inr s)"

definition AddMessageToUI :: "FCoachingMessage \<Rightarrow> UCoachingFlowWidget \<Rightarrow> crash + UCoachingFlowWidget" where
  "AddMessageToUI Message s =
     (let s1 = s\<lparr> MessageHistory := MessageHistory s @ [Message] \<rparr>;
          s2 = emit (OnMessageReceived_Broadcast Message) s1
      in case (if MediaURL Message \<noteq> []
               then DisplayMedia (MediaURL Message) (EndsWith (MediaURL Message) ''.mp4'') s2
               else Inr s2) of
           Inl e \<Rightarrow> Inl e
         | Inr s3 \<Rightarrow>
             Inr (if MessageScrollBox s3 \<noteq> None then emit MessageScrollBox_ScrollToEnd s3 else s3))"

definition UpdateFlowState :: "ECoachingFlowState \<Rightarrow> UCoachingFlowWidget \<Rightarrow> UCoachingFlowWidget" where
  "UpdateFlowState NewState s =
     emit (OnFlowStateChanged_Broadcast NewState) (s\<lparr> CurrentState := NewState \<rparr>)"

definition SaveConversationState :: "UCoachingFlowWidget \<Rightarrow> UCoachingFlowWidget" where
  "SaveConversationState s =
     emit (SaveStringToFile (MessageHistory s) (state_index (CurrentState s))) s"

definition StartCoachingFlow :: "FDateTime \<Rightarrow> UCoachingFlowWidget \<Rightarrow> crash + UCoachingFlowWidget" where
  "StartCoachingFlow now s =
     (let s1 = s\<lparr> MessageHistory := [] \<rparr>;
          s2 = s1\<lparr> CurrentState := Initial \<rparr>;
          WelcomeMessage = (FCoachingMessage_ctor now)
            \<lparr> SenderName := ''Coach AI'',
              MessageText := ''Welcome to your personalized coaching session! Let's start by reviewing your recent performance. How have your last few games been?'',
              bIsCoach := True \<rparr>
      in case AddMessageToUI WelcomeMessage s2 of
           Inl e \<Rightarrow> Inl e
         | Inr s3 \<Rightarrow> Inr (UpdateFlowState PerformanceReview s3))"

text \<open>
  The \<^verbatim>\<open>switch\<close> of \<^verbatim>\<open>ProcessUserInput\<close>: the response filled in and the state after
  the branch.  The last equation is the \<^verbatim>\<open>default\<close> branch.
\<close>

fun ProcessUserInput_switch ::
  "ECoachingFlowState \<Rightarrow> FCoachingMessage \<Rightarrow> UCoachingFlowWidget \<Rightarrow>
   FCoachingMessage \<times> UCoachingFlowWidget" where
  "ProcessUserInput_switch PerformanceReview Response s =
     (Response\<lparr> MessageText := ''I understand. Based on your performance data and what you've shared, let's identify areas where we can improve. What specific aspects of your game do you feel need work?'' \<rparr>,
      UpdateFlowState WeaknessIdentification s)"
| "ProcessUserInput_switch WeaknessIdentification Response s =
     (Response\<lparr> MessageText := ''Thank you for sharing. I'll recommend some specific drills tailored to address these areas. Would you like to see them now?'',
                MediaURL := ''https://sportbeacon.cdn/drills/overview.mp4'' \<rparr>,
      UpdateFlowState DrillRecommendation s)"
| "ProcessUserInput_switch DrillRecommendation Response s =
     (Response\<lparr> MessageText := ''Great! Now let's create a comprehensive workout plan to incorporate these drills. How many days per week can you commit to training?'' \<rparr>,
      UpdateFlowState WorkoutPlan s)"
| "ProcessUserInput_switch WorkoutPlan Response s =
     (Response\<lparr> MessageText := ''Perfect. To support your training, let's discuss nutrition. Would you like to see a customized meal plan?'' \<rparr>,
      UpdateFlowState MealPlan s)"
| "ProcessUserInput_switch MealPlan Response s =
     (Response\<lparr> MessageText := ''I've found some nearby facilities where you can practice these drills. Would you like to see the locations?'' \<rparr>,
      UpdateFlowState LocationSuggestion s)"
| "ProcessUserInput_switch LocationSuggestion Response s =
     (Response\<lparr> MessageText := ''Excellent! Here's a summary of your progress and the next steps. Keep up the great work!'' \<rparr>,
      UpdateFlowState ProgressSummary s)"
| "ProcessUserInput_switch _ Response s =
     (Response\<lparr> MessageText := ''Is there anything specific you'd like to focus on in your training?'' \<rparr>,
      s)"

definition ProcessUserInput ::
  "FDateTime \<Rightarrow> string \<Rightarrow> UCoachingFlowWidget \<Rightarrow> crash + UCoachingFlowWidget" where
  "ProcessUserInput now Input s =
     (let Response0 = (FCoachingMessage_ctor now)\<lparr> SenderName := ''Coach AI'', bIsCoach := True \<rparr>;
          (Response, s1) = ProcessUserInput_switch (CurrentState s) Response0 s
      in case AddMessageToUI Response s1 of
           Inl e \<Rightarrow> Inl e
         | Inr s2 \<Rightarrow> Inr (SaveConversationState s2))"

text \<open>
  \<^verbatim>\<open>SendMessage\<close>, the caller of \<^verbatim>\<open>ProcessUserInput\<close>; the two messages are constructed
  at the times \<open>now1\<close> and \<open>now2\<close>.
\<close>

definition SendMessage ::
  "FDateTime \<Rightarrow> FDateTime \<Rightarrow> string \<Rightarrow> UCoachingFlowWidget \<Rightarrow> crash + UCoachingFlowWidget" where
  "SendMessage now1 now2 Message s =
     (if Message = [] then Inr s
      else
        (let UserMessage = (FCoachingMessage_ctor now1)
               \<lparr> SenderName := ''Player'', MessageText := Message, bIsCoach := False \<rparr>
         in case AddMessageToUI UserMessage s of
              Inl e \<Rightarrow> Inl e
            | Inr s1 \<Rightarrow>
                (case ProcessUserInput now2 Message s1 of
                   Inl e \<Rightarrow> Inl e
                 | Inr s2 \<Rightarrow>
                     Inr (if MessageInputBox s2 \<noteq> None then emit (MessageInputBox_SetText []) s2
                          else s2))))"


text \<open>The \<^verbatim>\<open>OnFlowStateChanged\<close> broadcasts among a list of effects.\<close>

fun flow_broadcasts :: "coaching_effect list \<Rightarrow> ECoachingFlowState list" where
  "flow_broadcasts [] = []"
| "flow_broadcasts (OnFlowStateChanged_Broadcast st # es) = st # flow_broadcasts es"
| "flow_broadcasts (_ # es) = flow_broadcasts es"


section \<open>Voice input (VoiceInputManager.h, VoiceInputManager.cpp)\<close>

text \<open>
  \<^verbatim>\<open>GConfig\<close>, when the engine has set it up: the strings stored under a section and a
  key.
\<close>

type_synonym FConfig = "((string \<times> string) \<times> string) list"

record UAudioComponent =
  bAutoDestroy :: bool
  bAutoActivate :: bool

record UAudioCaptureComponent =
  bAutoDestroy :: bool
  SampleRate :: int
  NumChannels :: int
  bCapturing :: bool

text \<open>
  A web socket as the manager sees it: where it connects to and what \<^verbatim>\<open>IsConnected()\<close>
  answers.  The connection is made by the engine after \<^verbatim>\<open>Connect()\<close> has returned.
\<close>

record FWebSocket =
  Url :: string
  bConnected :: bool

text \<open>The JSON objects sent: \<^verbatim>\<open>{"type": "end"}\<close> and \<^verbatim>\<open>{"type": "set_language", "language": ...}\<close>.\<close>

datatype ws_message = EndMessage | SetLanguageMessage string

datatype voice_effect =
  OnVoiceInputError_Broadcast string
| WebSocket_Close
| WebSocket_Connect string
| WebSocket_Send ws_message
| CaptureComponent_Start
| CaptureComponent_Stop

record UVoiceInputManager =
  bIsRecording :: bool
  CurrentLanguage :: string
  AudioBuffer :: "8 word list"
  AudioComponent :: "UAudioComponent option"
  CaptureComponent :: "UAudioCaptureComponent option"
  WebSocket :: "FWebSocket option"
  VoiceEffects :: "voice_effect list"

definition vemit :: "voice_effect \<Rightarrow> UVoiceInputManager \<Rightarrow> UVoiceInputManager" where
  "vemit e s = s\<lparr> VoiceEffects := VoiceEffects s @ [e] \<rparr>"

definition UVoiceInputManager_ctor :: UVoiceInputManager where
  "UVoiceInputManager_ctor =
     \<lparr> bIsRecording = False, CurrentLanguage = ''en-US'', AudioBuffer = [],
       AudioComponent = None, CaptureComponent = None, WebSocket = None,
       VoiceEffects = [] \<rparr>"

definition InitializeAudioCapture :: "UVoiceInputManager \<Rightarrow> UVoiceInputManager" where
  "InitializeAudioCapture s =
     (let s1 = (if AudioComponent s = None
                then s\<lparr> AudioComponent := Some \<lparr> UAudioComponent.bAutoDestroy = False, bAutoActivate = True \<rparr> \<rparr>
                else s)
      in if CaptureComponent s1 = None
         then s1\<lparr> CaptureComponent :=
                   Some \<lparr> bAutoDestroy = False, SampleRate = 16000, NumChannels = 1,
                          bCapturing = False \<rparr> \<rparr>
         else s1)"

definition ValidateAudioSetup :: "UVoiceInputManager \<Rightarrow> bool" where
  "ValidateAudioSetup s =
     (if CaptureComponent s = None \<or> AudioComponent s = None then False else True)"

definition CleanupWebSocket :: "UVoiceInputManager \<Rightarrow> UVoiceInputManager" where
  "CleanupWebSocket s =
     (case WebSocket s of
        None \<Rightarrow> s
      | Some ws \<Rightarrow>
          (let s1 = (if bConnected ws then vemit WebSocket_Close s else s)
           in s1\<lparr> WebSocket := None \<rparr>))"

text \<open>
  \<^verbatim>\<open>InitializeWebSocket\<close> calls through \<^verbatim>\<open>GConfig\<close> without the test that
  \<^verbatim>\<open>LoadConfiguration\<close> makes.  The handlers it installs run when the engine delivers
  socket events, after the call.
\<close>

definition InitializeWebSocket :: "FConfig option \<Rightarrow> UVoiceInputManager \<Rightarrow> crash + UVoiceInputManager" where
  "InitializeWebSocket GConfig s =
     (let s1 = (if WebSocket s \<noteq> None then CleanupWebSocket s else s)
      in case GConfig of
           None \<Rightarrow> Inl NullDereference
         | Some cfg \<Rightarrow>
             (let WSUrl = (case map_of cfg (''VoiceInput'', ''WebSocketURL'') of
                             Some u \<Rightarrow> u
                           | None \<Rightarrow> ''ws://localhost:3001/speech-to-text'');
                  s2 = s1\<lparr> WebSocket := Some \<lparr> Url = WSUrl, bConnected = False \<rparr> \<rparr>
              in Inr (vemit (WebSocket_Connect WSUrl) s2)))"

definition StartRecording :: "FConfig option \<Rightarrow> UVoiceInputManager \<Rightarrow> crash + UVoiceInputManager" where
  "StartRecording GConfig s =
     (if bIsRecording s then Inr s
      else if \<not> ValidateAudioSetup s
      then Inr (vemit (OnVoiceInputError_Broadcast ''Failed to initialize audio capture'') s)
      else
        (case InitializeWebSocket GConfig s of
           Inl e \<Rightarrow> Inl e
         | Inr s1 \<Rightarrow>
             (case CaptureComponent s1 of
                None \<Rightarrow> Inr s1
              | Some c \<Rightarrow>
                  (let s2 = s1\<lparr> bIsRecording := True \<rparr>;
                       s3 = s2\<lparr> AudioBuffer := [] \<rparr>
                   in Inr (vemit CaptureComponent_Start
                            (s3\<lparr> CaptureComponent := Some (c\<lparr> bCapturing := True \<rparr>) \<rparr>))))))"

definition StopRecording :: "UVoiceInputManager \<Rightarrow> UVoiceInputManager" where
  "StopRecording s =
     (if \<not> bIsRecording s then s
      else
        (let s1 = (case CaptureComponent s of
                     None \<Rightarrow> s
                   | Some c \<Rightarrow>
                       vemit CaptureComponent_Stop
                         (s\<lparr> CaptureComponent := Some (c\<lparr> bCapturing := False \<rparr>) \<rparr>));
             s2 = s1\<lparr> bIsRecording := False \<rparr>
         in case WebSocket s2 of
              None \<Rightarrow> s2
            | Some ws \<Rightarrow> if bConnected ws then vemit (WebSocket_Send EndMessage) s2 else s2))"

text \<open>A manager whose audio components exist, with a stale buffer.\<close>

definition voice_ready :: UVoiceInputManager where
  "voice_ready = (InitializeAudioCapture UVoiceInputManager_ctor)\<lparr> AudioBuffer := [1, 2, 3] \<rparr>"

section \<open>Media playback (MediaPlayerWidget.h, MediaPlayerWidget.cpp)\<close>

record UMediaSoundComponent =
  VolumeMultiplier :: real

datatype media_effect =
  MediaPlayer_Play
| MediaPlayer_Pause
| MediaPlayer_OpenUrl string
| PlayPauseButton_SetIsEnabled bool
| MuteButton_SetIsEnabled bool
| TitleText_SetText string
| CaptionText_SetText string
| VideoDisplay_SetBrushFromTexture nat

record UMediaPlayerWidget =
  VideoDisplay :: "widget_ref option"
  ProgressSlider :: "widget_ref option"
  PlayPauseButton :: "widget_ref option"
  MuteButton :: "widget_ref option"
  TimeText :: "widget_ref option"
  TitleText :: "widget_ref option"
  CaptionText :: "widget_ref option"
  MediaPlayer :: "nat option"
  MediaTexture :: "nat option"
  SoundComponent :: "UMediaSoundComponent option"
  bIsPlaying :: bool
  bIsMuted :: bool
  Duration :: real
  MediaEffects :: "media_effect list"

definition memit :: "media_effect \<Rightarrow> UMediaPlayerWidget \<Rightarrow> UMediaPlayerWidget" where
  "memit e s = s\<lparr> MediaEffects := MediaEffects s @ [e] \<rparr>"

text \<open>The constructor, with the child widgets \<open>bound\<close> as the widget tree supplies them.\<close>

definition UMediaPlayerWidget_ctor :: "widget_ref option \<Rightarrow> UMediaPlayerWidget" where
  "UMediaPlayerWidget_ctor bound =
     \<lparr> VideoDisplay = bound, ProgressSlider = bound, PlayPauseButton = bound,
       MuteButton = bound, TimeText = bound, TitleText = bound, CaptionText = bound,
       MediaPlayer = None, MediaTexture = None, SoundComponent = None,
       bIsPlaying = False, bIsMuted = False, Duration = 0, MediaEffects = [] \<rparr>"

text \<open>
  \<^verbatim>\<open>InitializeMediaPlayer\<close> creates the player, the texture and the sound component;
  \<open>player\<close> and \<open>texture\<close> are the new objects and \<open>volume\<close> is the volume multiplier a new
  \<^verbatim>\<open>UMediaSoundComponent\<close> has.
\<close>

definition InitializeMediaPlayer :: "nat \<Rightarrow> nat \<Rightarrow> real \<Rightarrow> UMediaPlayerWidget \<Rightarrow> UMediaPlayerWidget" where
  "InitializeMediaPlayer player texture volume s =
     (let s1 = s\<lparr> MediaPlayer := Some player \<rparr>;
          s2 = s1\<lparr> MediaTexture := Some texture \<rparr>;
          s3 = s2\<lparr> SoundComponent := Some \<lparr> VolumeMultiplier = volume \<rparr> \<rparr>
      in if VideoDisplay s3 \<noteq> None then memit (VideoDisplay_SetBrushFromTexture texture) s3 else s3)"

definition UpdatePlayPauseButton :: "UMediaPlayerWidget \<Rightarrow> UMediaPlayerWidget" where
  "UpdatePlayPauseButton s =
     (if PlayPauseButton s \<noteq> None then memit (PlayPauseButton_SetIsEnabled True) s else s)"

definition UpdateMuteButton :: "UMediaPlayerWidget \<Rightarrow> UMediaPlayerWidget" where
  "UpdateMuteButton s =
     (if MuteButton s \<noteq> None then memit (MuteButton_SetIsEnabled True) s else s)"

definition Play :: "UMediaPlayerWidget \<Rightarrow> UMediaPlayerWidget" where
  "Play s =
     (if MediaPlayer s \<noteq> None
      then UpdatePlayPauseButton ((memit MediaPlayer_Play s)\<lparr> bIsPlaying := True \<rparr>)
      else s)"

definition Pause :: "UMediaPlayerWidget \<Rightarrow> UMediaPlayerWidget" where
  "Pause s =
     (if MediaPlayer s \<noteq> None
      then UpdatePlayPauseButton ((memit MediaPlayer_Pause s)\<lparr> bIsPlaying := False \<rparr>)
      else s)"

definition TogglePlayPause :: "UMediaPlayerWidget \<Rightarrow> UMediaPlayerWidget" where
  "TogglePlayPause s = (if bIsPlaying s then Pause s else Play s)"

definition ToggleMute :: "UMediaPlayerWidget \<Rightarrow> UMediaPlayerWidget" where
  "ToggleMute s =
     (case SoundComponent s of
        None \<Rightarrow> s
      | Some c \<Rightarrow>
          (let s1 = s\<lparr> bIsMuted := \<not> bIsMuted s \<rparr>;
               s2 = s1\<lparr> SoundComponent :=
                          Some (c\<lparr> VolumeMultiplier := (if bIsMuted s1 then 0 else 1) \<rparr>) \<rparr>
           in UpdateMuteButton s2))"

definition LoadMedia :: "string \<Rightarrow> string \<Rightarrow> string \<Rightarrow> UMediaPlayerWidget \<Rightarrow> UMediaPlayerWidget" where
  "LoadMedia URL TitleArg CaptionArg s =
     (if MediaPlayer s = None then s
      else
        (let s1 = (if TitleText s \<noteq> None then memit (TitleText_SetText TitleArg) s else s);
             s2 = (if CaptionText s1 \<noteq> None then memit (CaptionText_SetText CaptionArg) s1 else s1)
         in memit (MediaPlayer_OpenUrl URL) s2))"

text \<open>A widget after \<^verbatim>\<open>NativeConstruct\<close>, a new sound component playing at full volume.\<close>

definition media_ready :: UMediaPlayerWidget where
  "media_ready = InitializeMediaPlayer 0 1 1 (UMediaPlayerWidget_ctor (Some 0))"

section \<open>The timeline feed (TimelineFeedWidget.h, TimelineFeedWidget.cpp, BadgeRewardWidget.h)\<close>

record FLinearColor =
  R :: real
  G :: real
  B :: real
  A :: real

record FBadgeData =
  BadgeID :: string
  Name :: string
  Description :: string
  Icon :: "asset option"
  EarnedDate :: string
  BadgeColor :: FLinearColor

record FFeedEntry =
  Title :: string
  Subtitle :: string
  Icon :: "asset option"
  Timestamp :: FDateTime
  EntryType :: string
  BadgeData :: FBadgeData

record UScrollBox =
  Children :: "widget_ref list"

datatype feed_effect =
  BadgeWidget_DisplayEarnedBadge widget_ref FBadgeData
| EntryWidget_SetupEntry widget_ref string string "asset option" FDateTime
| FeedScrollBox_ScrollToEnd_NextTick
| OnNewEntryAdded FFeedEntry

text \<open>\<^verbatim>\<open>MaxEntries\<close> is an \<^verbatim>\<open>int32\<close>; the only arithmetic on it is one subtraction.\<close>

record UTimelineFeedWidget =
  FeedScrollBox :: "UScrollBox option"
  DefaultFeedEntryClass :: "asset option"
  BadgeEntryClass :: "asset option"
  MaxEntries :: int
  FeedEntries :: "widget_ref list"
  FeedEffects :: "feed_effect list"

definition femit :: "feed_effect \<Rightarrow> UTimelineFeedWidget \<Rightarrow> UTimelineFeedWidget" where
  "femit e s = s\<lparr> FeedEffects := FeedEffects s @ [e] \<rparr>"

definition UTimelineFeedWidget_ctor ::
  "UScrollBox option \<Rightarrow> asset option \<Rightarrow> asset option \<Rightarrow> UTimelineFeedWidget" where
  "UTimelineFeedWidget_ctor box entryClass badgeClass =
     \<lparr> FeedScrollBox = box, DefaultFeedEntryClass = entryClass, BadgeEntryClass = badgeClass,
       MaxEntries = 50, FeedEntries = [], FeedEffects = [] \<rparr>"

text \<open>
  \<^verbatim>\<open>CreateFeedEntryWidget\<close>.  \<open>NewWidget\<close> is what \<^verbatim>\<open>CreateWidget\<close> returns (it can be
  null) and \<open>bSetupFunc\<close> says whether the new widget has a function \<^verbatim>\<open>SetupEntry\<close>.  A
  badge widget is reached through \<^verbatim>\<open>Cast\<close>, which lets null through; any other widget
  is dereferenced at once.
\<close>

definition CreateFeedEntryWidget ::
  "FFeedEntry \<Rightarrow> widget_ref option \<Rightarrow> bool \<Rightarrow> UTimelineFeedWidget \<Rightarrow>
   crash + (widget_ref option \<times> UTimelineFeedWidget)" where
  "CreateFeedEntryWidget Entry NewWidget bSetupFunc s =
     (let WidgetClass = (if FString_eq (EntryType Entry) ''badge'' then BadgeEntryClass s
                         else DefaultFeedEntryClass s)
      in case WidgetClass of
           None \<Rightarrow> Inr (None, s)
         | Some _ \<Rightarrow>
             (if FString_eq (EntryType Entry) ''badge''
              then (case NewWidget of
                      None \<Rightarrow> Inr (None, s)
                    | Some w \<Rightarrow> Inr (Some w, femit (BadgeWidget_DisplayEarnedBadge w (BadgeData Entry)) s))
              else (case NewWidget of
                      None \<Rightarrow> Inl NullDereference
                    | Some w \<Rightarrow>
                        Inr (Some w,
                             if bSetupFunc
                             then femit (EntryWidget_SetupEntry w (Title Entry) (Subtitle Entry)
                                           (FFeedEntry.Icon Entry) (FFeedEntry.Timestamp Entry)) s
                             else s))))"

text \<open>\<^verbatim>\<open>FeedEntries[i]->RemoveFromParent()\<close>, with the range check of \<^verbatim>\<open>TArray::operator[]\<close>.\<close>

definition RemoveFromParent_at :: "nat \<Rightarrow> UTimelineFeedWidget \<Rightarrow> crash + UTimelineFeedWidget" where
  "RemoveFromParent_at i s =
     (if i < length (FeedEntries s)
      then Inr (s\<lparr> FeedScrollBox :=
                     map_option (\<lambda>box. box\<lparr> Children := removeAll (FeedEntries s ! i) (Children box) \<rparr>)
                       (FeedScrollBox s) \<rparr>)
      else Inl IndexOutOfRange)"

text \<open>\<^verbatim>\<open>FeedEntries.RemoveAt(0, Count)\<close>, with its range check.\<close>

definition RemoveAt_front :: "nat \<Rightarrow> UTimelineFeedWidget \<Rightarrow> crash + UTimelineFeedWidget" where
  "RemoveAt_front n s =
     (if n \<le> length (FeedEntries s)
      then Inr (s\<lparr> FeedEntries := drop n (FeedEntries s) \<rparr>)
      else Inl IndexOutOfRange)"

definition TrimOldEntries :: "UTimelineFeedWidget \<Rightarrow> crash + UTimelineFeedWidget" where
  "TrimOldEntries s =
     (if int (length (FeedEntries s)) > MaxEntries s
      then (let NumToRemove = int (length (FeedEntries s)) - MaxEntries s
            in case for_each RemoveFromParent_at [0 ..< nat NumToRemove] s of
                 Inl e \<Rightarrow> Inl e
               | Inr s1 \<Rightarrow> RemoveAt_front (nat NumToRemove) s1)
      else Inr s)"

definition ScrollToLatest :: "UTimelineFeedWidget \<Rightarrow> UTimelineFeedWidget" where
  "ScrollToLatest s =
     (if FeedScrollBox s \<noteq> None then femit FeedScrollBox_ScrollToEnd_NextTick s else s)"

definition AddFeedEntry ::
  "FFeedEntry \<Rightarrow> widget_ref option \<Rightarrow> bool \<Rightarrow> UTimelineFeedWidget \<Rightarrow> crash + UTimelineFeedWidget" where
  "AddFeedEntry Entry NewWidget bSetupFunc s =
     (case FeedScrollBox s of
        None \<Rightarrow> Inr s
      | Some _ \<Rightarrow>
          (case CreateFeedEntryWidget Entry NewWidget bSetupFunc s of
             Inl e \<Rightarrow> Inl e
           | Inr (None, s1) \<Rightarrow> Inr s1
           | Inr (Some EntryWidget, s1) \<Rightarrow>
               (let s2 = s1\<lparr> FeedScrollBox :=
                              map_option (\<lambda>box. box\<lparr> Children := Children box @ [EntryWidget] \<rparr>)
                                (FeedScrollBox s1) \<rparr>;
                    s3 = s2\<lparr> FeedEntries := FeedEntries s2 @ [EntryWidget] \<rparr>
                in case TrimOldEntries s3 of
                     Inl e \<Rightarrow> Inl e
                   | Inr s4 \<Rightarrow> Inr (femit (OnNewEntryAdded Entry) (ScrollToLatest s4)))))"

definition AddBadgeEntry ::
  "FBadgeData \<Rightarrow> FDateTime \<Rightarrow> widget_ref option \<Rightarrow> bool \<Rightarrow> UTimelineFeedWidget \<Rightarrow>
   crash + UTimelineFeedWidget" where
  "AddBadgeEntry Badge now NewWidget bSetupFunc s =
     (if BadgeEntryClass s = None then Inr s
      else
        (let Entry = \<lparr> Title = FBadgeData.Name Badge, Subtitle = FBadgeData.Description Badge,
                       Icon = FBadgeData.Icon Badge, Timestamp = now, EntryType = ''badge'',
                       BadgeData = Badge \<rparr>
         in AddFeedEntry Entry NewWidget bSetupFunc s))"

definition ClearFeed :: "UTimelineFeedWidget \<Rightarrow> UTimelineFeedWidget" where
  "ClearFeed s =
     (case FeedScrollBox s of
        None \<Rightarrow> s
      | Some box \<Rightarrow>
          (let s1 = s\<lparr> FeedScrollBox := Some (box\<lparr> Children := [] \<rparr>) \<rparr>
           in s1\<lparr> FeedEntries := [] \<rparr>))"

text \<open>
  A finite sequence of calls on the feed, each with what the engine answers during it;
  the run stops at the first crash.
\<close>

datatype feed_call =
  CallAddFeedEntry FFeedEntry "widget_ref option" bool
| CallAddBadgeEntry FBadgeData FDateTime "widget_ref option" bool
| CallClearFeed

fun feed_step :: "feed_call \<Rightarrow> UTimelineFeedWidget \<Rightarrow> crash + UTimelineFeedWidget" where
  "feed_step (CallAddFeedEntry Entry NewWidget bSetupFunc) s = AddFeedEntry Entry NewWidget bSetupFunc s"
| "feed_step (CallAddBadgeEntry Badge now NewWidget bSetupFunc) s =
     AddBadgeEntry Badge now NewWidget bSetupFunc s"
| "feed_step CallClearFeed s = Inr (ClearFeed s)"

definition feed_run :: "feed_call list \<Rightarrow> UTimelineFeedWidget \<Rightarrow> crash + UTimelineFeedWidget" where
  "feed_run cs s = for_each feed_step cs s"

text \<open>A call during which \<^verbatim>\<open>CreateWidget\<close> does not return null.\<close>

fun creates_widget :: "feed_call \<Rightarrow> bool" where
  "creates_widget (CallAddFeedEntry Entry NewWidget bSetupFunc) = (NewWidget \<noteq> None)"
| "creates_widget (CallAddBadgeEntry Badge now NewWidget bSetupFunc) = (NewWidget \<noteq> None)"
| "creates_widget CallClearFeed = True"

text \<open>A feed with room for two entries, and entries to put into it.\<close>

definition small_feed :: UTimelineFeedWidget where
  "small_feed =
     (UTimelineFeedWidget_ctor (Some \<lparr> Children = [] \<rparr>) (Some 20) (Some 21))\<lparr> MaxEntries := 2 \<rparr>"

definition demo_badge :: FBadgeData where
  "demo_badge =
     \<lparr> BadgeID = ''b1'', Name = ''Sharpshooter'', Description = ''Ten in a row'', Icon = None,
       EarnedDate = ''today'', BadgeColor = \<lparr> R = 1, G = 1, B = 0, A = 1 \<rparr> \<rparr>"

definition demo_entry :: FFeedEntry where
  "demo_entry =
     \<lparr> Title = ''Game won'', Subtitle = ''21 : 15'', Icon = None, Timestamp = 0,
       EntryType = ''stat'', BadgeData = demo_badge \<rparr>"


text \<open>The same feed with a negative bound.\<close>

definition negative_feed :: UTimelineFeedWidget where
  "negative_feed = small_feed\<lparr> MaxEntries := - 1 \<rparr>"
section \<open>The challenge card (ChallengeCardWidget.h, ChallengeCardWidget.cpp, PlayerProfileWidget.h)\<close>

text \<open>
  \<^verbatim>\<open>UpdateProgressDisplay\<close> divides a \<^verbatim>\<open>float\<close> by an \<^verbatim>\<open>int32\<close> that can be zero, so
  what matters here is what IEEE 754 does at the edges.  A float is a finite value, an
  infinity or a NaN; a finite value is represented by the real it denotes, and arithmetic
  on finite values is exact (rounding is left out: it is monotone and leaves 0 and 1
  fixed, so it cannot move a quotient across the bounds of the clamp).  Every zero
  divisor below comes from an \<^verbatim>\<open>int32\<close> and is therefore \<open>+0\<close>.
\<close>

datatype ieee_float = Finite real | PlusInfinity | MinusInfinity | NaN

text \<open>The comparison \<^verbatim>\<open><\<close>: false as soon as a NaN is involved.\<close>

fun float_less :: "ieee_float \<Rightarrow> ieee_float \<Rightarrow> bool" where
  "float_less NaN _ = False"
| "float_less _ NaN = False"
| "float_less (Finite x) (Finite y) = (x < y)"
| "float_less (Finite x) PlusInfinity = True"
| "float_less (Finite x) MinusInfinity = False"
| "float_less MinusInfinity MinusInfinity = False"
| "float_less MinusInfinity _ = True"
| "float_less PlusInfinity _ = False"

text \<open>The division \<^verbatim>\<open>/\<close>, the divisor's zero being \<open>+0\<close>.\<close>

fun float_div :: "ieee_float \<Rightarrow> ieee_float \<Rightarrow> ieee_float" where
  "float_div NaN _ = NaN"
| "float_div _ NaN = NaN"
| "float_div (Finite x) (Finite y) =
     (if y \<noteq> 0 then Finite (x / y)
      else if x = 0 then NaN
      else if 0 < x then PlusInfinity else MinusInfinity)"
| "float_div (Finite x) PlusInfinity = Finite 0"
| "float_div (Finite x) MinusInfinity = Finite 0"
| "float_div PlusInfinity (Finite y) = (if 0 \<le> y then PlusInfinity else MinusInfinity)"
| "float_div MinusInfinity (Finite y) = (if 0 \<le> y then MinusInfinity else PlusInfinity)"
| "float_div PlusInfinity _ = NaN"
| "float_div MinusInfinity _ = NaN"

text \<open>The conversion of an \<^verbatim>\<open>int32\<close> to \<^verbatim>\<open>float\<close>.\<close>

definition float_of_int32 :: "32 word \<Rightarrow> ieee_float" where
  "float_of_int32 n = Finite (real_of_int (sint n))"

text \<open>
  \<^verbatim>\<open>FMath::Clamp\<close> on floats, by the same definition as above:
  \<^verbatim>\<open>return X < Min ? Min : X < Max ? X : Max;\<close>
\<close>

definition FMath_Clamp_float :: "ieee_float \<Rightarrow> ieee_float \<Rightarrow> ieee_float \<Rightarrow> ieee_float" where
  "FMath_Clamp_float x lo hi = (if float_less x lo then lo else if float_less x hi then x else hi)"

text \<open>
  \<^verbatim>\<open>FMath::RoundToInt\<close>: the floor of \<open>x + 0.5\<close> when that is an \<^verbatim>\<open>int32\<close>; the
  conversion of anything else is not specified.
\<close>

fun RoundToInt :: "ieee_float \<Rightarrow> int option" where
  "RoundToInt (Finite x) =
     (let r = \<lfloor>x + 1 / 2\<rfloor> in if - (2 ^ 31) \<le> r \<and> r < 2 ^ 31 then Some r else None)"
| "RoundToInt _ = None"

record FChallengeData =
  Id :: string
  Title :: string
  Description :: string
  Difficulty :: string
  Target :: "32 word"
  CurrentProgress :: "32 word"
  XPReward :: "32 word"
  Category :: string

text \<open>
  What the card does to the outside.  The two formatted texts are recorded by the numbers
  that go into \<^verbatim>\<open>"+%d XP"\<close> and \<^verbatim>\<open>"%d/%d"\<close>.
\<close>

datatype challenge_effect =
  Card_TitleText_SetText string
| Card_DescriptionText_SetText string
| Card_XPRewardText_SetText int
| ProgressBar_SetPercent ieee_float
| Card_ProgressText_SetText "int option" int
| DifficultyBorder_SetBrushColor FLinearColor
| CategoryIcon_SetBrushFromTexture asset
| OnChallengeProgressed_Broadcast ieee_float

record UChallengeCardWidget =
  TitleText :: "widget_ref option"
  DescriptionText :: "widget_ref option"
  ProgressText :: "widget_ref option"
  ProgressBar :: "widget_ref option"
  XPRewardText :: "widget_ref option"
  CategoryIcon :: "widget_ref option"
  DifficultyBorder :: "widget_ref option"
  ChallengeId :: string
  TargetProgress :: "32 word"
  CategoryIcons :: "asset TMap"
  DifficultyColors :: "FLinearColor TMap"
  ChallengeEffects :: "challenge_effect list"

definition cemit :: "challenge_effect \<Rightarrow> UChallengeCardWidget \<Rightarrow> UChallengeCardWidget" where
  "cemit e s = s\<lparr> ChallengeEffects := ChallengeEffects s @ [e] \<rparr>"

text \<open>
  The class has no constructor of its own: the object starts zeroed, with the child
  widgets \<open>bound\<close> as the widget tree supplies them.
\<close>

definition UChallengeCardWidget_ctor :: "widget_ref option \<Rightarrow> UChallengeCardWidget" where
  "UChallengeCardWidget_ctor bound =
     \<lparr> TitleText = bound, DescriptionText = bound, ProgressText = bound, ProgressBar = bound,
       XPRewardText = bound, CategoryIcon = bound, DifficultyBorder = bound,
       ChallengeId = [], TargetProgress = 0, CategoryIcons = [], DifficultyColors = [],
       ChallengeEffects = [] \<rparr>"

text \<open>
  \<^verbatim>\<open>InitializeVisuals\<close>; \<open>finder\<close> is what \<^verbatim>\<open>ConstructorHelpers::FObjectFinder\<close> finds
  for the icon of a category.
\<close>

definition InitializeVisuals :: "(string \<Rightarrow> asset option) \<Rightarrow> UChallengeCardWidget \<Rightarrow> UChallengeCardWidget" where
  "InitializeVisuals finder s =
     (let colors =
            TMap_Add ''elite'' \<lparr> R = 1 / 2, G = 0, B = 1, A = 1 \<rparr>
              (TMap_Add ''hard'' \<lparr> R = 1, G = 1 / 5, B = 1 / 5, A = 1 \<rparr>
                (TMap_Add ''medium'' \<lparr> R = 1, G = 7 / 10, B = 0, A = 1 \<rparr>
                  (TMap_Add ''easy'' \<lparr> R = 1 / 5, G = 4 / 5, B = 1 / 5, A = 1 \<rparr>
                    (DifficultyColors s))));
          add_icon = (\<lambda>name m. case finder name of None \<Rightarrow> m | Some icon \<Rightarrow> TMap_Add name icon m);
          icons = fold add_icon
                    [''shooting'', ''conditioning'', ''strength'', ''skills'', ''teamwork'',
                     ''consistency'']
                    (CategoryIcons s)
      in s\<lparr> DifficultyColors := colors, CategoryIcons := icons \<rparr>)"

definition UpdateProgressDisplay :: "ieee_float \<Rightarrow> UChallengeCardWidget \<Rightarrow> UChallengeCardWidget" where
  "UpdateProgressDisplay Progress s =
     (let s1 = (if ProgressBar s \<noteq> None
                then (let ProgressRatio =
                            FMath_Clamp_float
                              (float_div Progress (float_of_int32 (TargetProgress s)))
                              (Finite 0) (Finite 1)
                      in cemit (ProgressBar_SetPercent ProgressRatio) s)
                else s)
      in if ProgressText s1 \<noteq> None
         then cemit (Card_ProgressText_SetText (RoundToInt Progress) (sint (TargetProgress s1))) s1
         else s1)"

definition UpdateProgress :: "ieee_float \<Rightarrow> UChallengeCardWidget \<Rightarrow> UChallengeCardWidget" where
  "UpdateProgress NewProgress s =
     cemit (OnChallengeProgressed_Broadcast NewProgress) (UpdateProgressDisplay NewProgress s)"

definition SetDifficultyColor :: "string \<Rightarrow> UChallengeCardWidget \<Rightarrow> UChallengeCardWidget" where
  "SetDifficultyColor DifficultyArg s =
     (if DifficultyBorder s \<noteq> None
      then (case FindRef (DifficultyColors s) (ToLower DifficultyArg) of
              None \<Rightarrow> s
            | Some Color \<Rightarrow>
                (let BorderColor = Color\<lparr> A := 3 / 10 \<rparr>
                 in cemit (DifficultyBorder_SetBrushColor BorderColor) s))
      else s)"

definition SetCategoryIcon :: "string \<Rightarrow> UChallengeCardWidget \<Rightarrow> UChallengeCardWidget" where
  "SetCategoryIcon CategoryArg s =
     (if CategoryIcon s \<noteq> None
      then (case FindRef (CategoryIcons s) (ToLower CategoryArg) of
              None \<Rightarrow> s
            | Some IconFound \<Rightarrow> cemit (CategoryIcon_SetBrushFromTexture IconFound) s)
      else s)"

definition SetupChallenge :: "FChallengeData \<Rightarrow> UChallengeCardWidget \<Rightarrow> UChallengeCardWidget" where
  "SetupChallenge ChallengeData s =
     (let s1 = s\<lparr> ChallengeId := FChallengeData.Id ChallengeData \<rparr>;
          s2 = s1\<lparr> TargetProgress := Target ChallengeData \<rparr>;
          s3 = (if UChallengeCardWidget.TitleText s2 \<noteq> None
                then cemit (Card_TitleText_SetText (FChallengeData.Title ChallengeData)) s2 else s2);
          s4 = (if DescriptionText s3 \<noteq> None
                then cemit (Card_DescriptionText_SetText (FChallengeData.Description ChallengeData)) s3
                else s3);
          s5 = (if XPRewardText s4 \<noteq> None
                then cemit (Card_XPRewardText_SetText (sint (XPReward ChallengeData))) s4 else s4);
          s6 = SetDifficultyColor (Difficulty ChallengeData) s5;
          s7 = SetCategoryIcon (Category ChallengeData) s6
      in UpdateProgress (float_of_int32 (CurrentProgress ChallengeData)) s7)"

text \<open>The arguments of the \<^verbatim>\<open>SetPercent\<close> calls among a list of effects.\<close>

fun percents :: "challenge_effect list \<Rightarrow> ieee_float list" where
  "percents [] = []"
| "percents (ProgressBar_SetPercent v # es) = v # percents es"
| "percents (_ # es) = percents es"

text \<open>A float lies in \<open>[0, 1]\<close>.\<close>

fun in_unit_interval :: "ieee_float \<Rightarrow> bool" where
  "in_unit_interval (Finite x) = (0 \<le> x \<and> x \<le> 1)"
| "in_unit_interval _ = False"

text \<open>A challenge whose target is zero.\<close>

definition zero_target_challenge :: FChallengeData where
  "zero_target_challenge =
     \<lparr> Id = ''c1'', Title = ''Free throws'', Description = ''Make them'', Difficulty = ''Hard'',
       Target = 0, CurrentProgress = 3, XPReward = 50, Category = ''shooting'' \<rparr>"

section \<open>Properties of the map actor\<close>

subsection \<open>Zoom stays clamped\<close>

lemma FMath_Clamp_range:
  "lo \<le> hi \<Longrightarrow> lo \<le> FMath_Clamp x lo hi \<and> FMath_Clamp x lo hi \<le> hi"
  by (simp add: FMath_Clamp_def)

lemma ZoomIn_limits [simp]:
  "MinZoom (ZoomIn d s) = MinZoom s" "MaxZoom (ZoomIn d s) = MaxZoom s"
  by (simp_all add: ZoomIn_def Let_def)

lemma ZoomIn_CurrentZoom:
  "CurrentZoom (ZoomIn d s) =
     FMath_Clamp (CurrentZoom s - d * ZoomSpeed s) (MinZoom s) (MaxZoom s)"
  by (simp add: ZoomIn_def Let_def)

lemma zoom_step_limits [simp]:
  "MinZoom (zoom_step c s) = MinZoom s" "MaxZoom (zoom_step c s) = MaxZoom s"
  by (cases c; simp add: ZoomOut_def)+

lemma zoom_step_clamped:
  assumes "MinZoom s \<le> MaxZoom s"
  shows "MinZoom s \<le> CurrentZoom (zoom_step c s) \<and> CurrentZoom (zoom_step c s) \<le> MaxZoom s"
  using FMath_Clamp_range [OF assms]
  by (cases c) (simp_all add: ZoomOut_def ZoomIn_CurrentZoom)

lemma zoom_run_limits [simp]:
  "MinZoom (zoom_run cs s) = MinZoom s" "MaxZoom (zoom_run cs s) = MaxZoom s"
  by (induction cs arbitrary: s; simp)+

lemma zoom_run_clamped:
  "MinZoom s \<le> CurrentZoom s \<Longrightarrow> CurrentZoom s \<le> MaxZoom s \<Longrightarrow>
   MinZoom s \<le> CurrentZoom (zoom_run cs s) \<and> CurrentZoom (zoom_run cs s) \<le> MaxZoom s"
proof (induction cs arbitrary: s)
  case Nil
  then show ?case by simp
next
  case (Cons c cs)
  from Cons.prems have le: "MinZoom s \<le> MaxZoom s" by linarith
  have "MinZoom (zoom_step c s) \<le> CurrentZoom (zoom_run cs (zoom_step c s)) \<and>
        CurrentZoom (zoom_run cs (zoom_step c s)) \<le> MaxZoom (zoom_step c s)"
    using zoom_step_clamped [OF le, of c] by (intro Cons.IH) simp_all
  then show ?case by simp
qed

text \<open>
  C8.  If the zoom starts inside \<open>[MinZoom, MaxZoom]\<close> (the constructor's 500, 5000 and
  1000 do), then after any finite sequence of \<^verbatim>\<open>ZoomIn\<close> and \<^verbatim>\<open>ZoomOut\<close> calls with
  arbitrary deltas the limits are what they were and the zoom is still inside them; and
  \<^verbatim>\<open>ZoomOut(Delta)\<close> leaves exactly the state that \<^verbatim>\<open>ZoomIn(-Delta)\<close> leaves.
\<close>

theorem zoom_always_clamped:
  assumes "MinZoom s \<le> CurrentZoom s" and "CurrentZoom s \<le> MaxZoom s"
  shows "MinZoom (zoom_run cs s) = MinZoom s \<and> MaxZoom (zoom_run cs s) = MaxZoom s \<and>
         MinZoom s \<le> CurrentZoom (zoom_run cs s) \<and> CurrentZoom (zoom_run cs s) \<le> MaxZoom s \<and>
         ZoomOut Delta s = ZoomIn (- Delta) s"
  using zoom_run_clamped [OF assms, of cs] by (simp add: ZoomOut_def)

theorem zoom_always_clamped_witness:
  "MinZoom (AMapView_ctor empty_world) = 500 \<and> MaxZoom (AMapView_ctor empty_world) = 5000 \<and>
   CurrentZoom (AMapView_ctor empty_world) = 1000 \<and>
   CurrentZoom (zoom_run [CallZoomIn 2, CallZoomOut 100, CallZoomIn 70]
                  (AMapView_ctor empty_world)) = 500 \<and>
   CurrentZoom (ZoomOut 3 (AMapView_ctor empty_world)) =
     CurrentZoom (ZoomIn (- 3) (AMapView_ctor empty_world))"
  using zoom_always_clamped [of "AMapView_ctor empty_world"
          "[CallZoomIn 2, CallZoomOut 100, CallZoomIn 70]" 3]
  by (simp add: AMapView_ctor_def ZoomOut_def ZoomIn_def FMath_Clamp_def Let_def)

subsection \<open>Marker lifecycle\<close>

subsection \<open>Marker lifecycle\<close>

lemma TMap_Add_fresh:
  "ToLower k \<notin> ToLower ` TMap_Keys m \<Longrightarrow> TMap_Add k v m = m @ [(k, v)]"
  by (induction m) (auto simp: TMap_Keys_def FString_eq_def)

lemma TMap_Keys_Add: "TMap_Keys (TMap_Add k v m) \<subseteq> insert k (TMap_Keys m)"
  by (induction m) (auto simp: TMap_Keys_def)

lemma TMap_Keys_zip: "length ks = length vs \<Longrightarrow> TMap_Keys (zip ks vs) = set ks"
  by (metis TMap_Keys_def map_fst_zip set_map)

lemma modify_actor_fields [simp]:
  "SpawnCalls (modify_actor a f w) = SpawnCalls w"
  "CanSpawn (modify_actor a f w) = CanSpawn w"
  "ActiveTimers (modify_actor a f w) = ActiveTimers w"
  "NextTimer (modify_actor a f w) = NextTimer w"
  "length (ActorList (modify_actor a f w)) = length (ActorList w)"
  by (simp_all add: modify_actor_def Actors_def)

lemma modify_actor_last:
  "modify_actor (length xs) f (w\<lparr> ActorList := xs @ [x] \<rparr>) = w\<lparr> ActorList := xs @ [f x] \<rparr>"
  by (simp add: modify_actor_def Actors_def)

lemma modify_actor_prefix:
  "length xs \<le> a \<Longrightarrow> ActorList w = xs @ ys \<Longrightarrow> \<exists>zs. ActorList (modify_actor a f w) = xs @ zs"
  by (auto simp: modify_actor_def Actors_def list_update_append)

lemma SpawnActor_cases:
  "SpawnActor loc w = (r, w') \<Longrightarrow>
     CanSpawn w' = CanSpawn w \<and> SpawnCalls w' = Suc (SpawnCalls w) \<and>
     (if CanSpawn w (SpawnCalls w)
      then r = Some (NextActor w) \<and>
           w' = w\<lparr> ActorList := ActorList w @
                      [\<lparr> Location = loc, Mobility = Static, StaticMesh = None, Material = None,
                         Tags = [], bPendingKill = False \<rparr>],
                    SpawnCalls := Suc (SpawnCalls w) \<rparr>
      else r = None \<and> ActorList w' = ActorList w)"
  by (auto simp: SpawnActor_def split: if_splits)

lemma Destroyed_mono:
  "ActorList w' = ActorList w @ extra \<Longrightarrow> Destroyed w \<subseteq> Destroyed w'"
  by (auto simp: Destroyed_def nth_append)

lemma RestartTimer_fields [simp]:
  "ActorList (World (RestartTimer k s)) = ActorList (World s)"
  "SpawnCalls (World (RestartTimer k s)) = SpawnCalls (World s)"
  "CanSpawn (World (RestartTimer k s)) = CanSpawn (World s)"
  "VenueMarkers (RestartTimer k s) = VenueMarkers s"
  "PlayerMarkers (RestartTimer k s) = PlayerMarkers s"
  "EventMarkers (RestartTimer k s) = EventMarkers s"
  "Venues (RestartTimer k s) = Venues s"
  "Players (RestartTimer k s) = Players s"
  "Events (RestartTimer k s) = Events s"
  "PlayerMarkerMesh (RestartTimer k s) = PlayerMarkerMesh s"
  "EventMarkerMesh (RestartTimer k s) = EventMarkerMesh s"
  "ActivePlayerMaterial (RestartTimer k s) = ActivePlayerMaterial s"
  "InactivePlayerMaterial (RestartTimer k s) = InactivePlayerMaterial s"
  "LiveEventMaterial (RestartTimer k s) = LiveEventMaterial s"
  "UpcomingEventMaterial (RestartTimer k s) = UpcomingEventMaterial s"
  by (simp_all add: RestartTimer_def Let_def split: option.split)

lemma StartFadeAnimation_fields [simp]:
  "ActorList (World (StartFadeAnimation k s)) = ActorList (World s)"
  "SpawnCalls (World (StartFadeAnimation k s)) = SpawnCalls (World s)"
  "CanSpawn (World (StartFadeAnimation k s)) = CanSpawn (World s)"
  "PlayerMarkers (StartFadeAnimation k s) = PlayerMarkers s"
  "Players (StartFadeAnimation k s) = Players s"
  "PlayerMarkerMesh (StartFadeAnimation k s) = PlayerMarkerMesh s"
  "ActivePlayerMaterial (StartFadeAnimation k s) = ActivePlayerMaterial s"
  "InactivePlayerMaterial (StartFadeAnimation k s) = InactivePlayerMaterial s"
  by (simp_all add: StartFadeAnimation_def split: option.split)

lemma StartPulseAnimation_fields [simp]:
  "ActorList (World (StartPulseAnimation k s)) = ActorList (World s)"
  "SpawnCalls (World (StartPulseAnimation k s)) = SpawnCalls (World s)"
  "CanSpawn (World (StartPulseAnimation k s)) = CanSpawn (World s)"
  "EventMarkers (StartPulseAnimation k s) = EventMarkers s"
  "Events (StartPulseAnimation k s) = Events s"
  "Venues (StartPulseAnimation k s) = Venues s"
  "EventMarkerMesh (StartPulseAnimation k s) = EventMarkerMesh s"
  "LiveEventMaterial (StartPulseAnimation k s) = LiveEventMaterial s"
  "UpcomingEventMaterial (StartPulseAnimation k s) = UpcomingEventMaterial s"
  by (simp_all add: StartPulseAnimation_def split: option.split)

lemma AddTooltip_fields [simp]:
  "World (AddTooltip k a s) = World s"
  "PlayerMarkers (AddTooltip k a s) = PlayerMarkers s"
  "EventMarkers (AddTooltip k a s) = EventMarkers s"
  "Players (AddTooltip k a s) = Players s"
  "Events (AddTooltip k a s) = Events s"
  "Venues (AddTooltip k a s) = Venues s"
  "PlayerMarkerMesh (AddTooltip k a s) = PlayerMarkerMesh s"
  "EventMarkerMesh (AddTooltip k a s) = EventMarkerMesh s"
  "ActivePlayerMaterial (AddTooltip k a s) = ActivePlayerMaterial s"
  "InactivePlayerMaterial (AddTooltip k a s) = InactivePlayerMaterial s"
  "LiveEventMaterial (AddTooltip k a s) = LiveEventMaterial s"
  "UpcomingEventMaterial (AddTooltip k a s) = UpcomingEventMaterial s"
  by (simp_all add: AddTooltip_def split: option.split)

lemma modify_actor_last':
  "ActorList w = xs @ [x] \<Longrightarrow> modify_actor (length xs) f w = w\<lparr> ActorList := xs @ [f x] \<rparr>"
  by (simp add: modify_actor_def Actors_def)

text \<open>What the actor ends up as after the calls a spawn loop makes on it.\<close>

lemma dress_new_actor:
  assumes "ActorList w = xs @ [\<lparr> Location = loc, Mobility = Static, StaticMesh = None,
                                 Material = None, Tags = [], bPendingKill = False \<rparr>]"
  shows "AddTag (length xs) t
           (ApplyMaterial (length xs) mat
             (SetStaticMesh (length xs) mesh (SetMobility (length xs) Movable w))) =
         w\<lparr> ActorList := xs @ [\<lparr> Location = loc, Mobility = Movable, StaticMesh = mesh,
                                  Material = mat, Tags = [t], bPendingKill = False \<rparr>] \<rparr>"
  using assms
  by (cases mat)
     (simp_all add: AddTag_def ApplyMaterial_def SetStaticMesh_def SetMobility_def
        modify_actor_last')

lemma SpawnVenueMarker_spawned:
  assumes "CanSpawn (World s) (SpawnCalls (World s))"
  shows "SpawnVenueMarker v s =
           s\<lparr> VenueMarkers := TMap_Add (FVenueData.Id v) (NextActor (World s)) (VenueMarkers s),
              World := (World s)
                \<lparr> ActorList := ActorList (World s) @
                     [\<lparr> Location = LatLongToWorldLocation (FVenueData.Coordinates v),
                        Mobility = Movable, StaticMesh = DefaultVenueMarker s,
                        Material = (if bIsIndoor v then IndoorVenueMaterial s
                                    else OutdoorVenueMaterial s),
                        Tags = [FVenueData.Id v], bPendingKill = False \<rparr>],
                   SpawnCalls := Suc (SpawnCalls (World s)) \<rparr> \<rparr>"
  using assms
  by (simp add: SpawnVenueMarker_def SpawnActor_def NextActor_def Let_def dress_new_actor)

lemma SpawnVenueMarker_any:
  "CanSpawn (World (SpawnVenueMarker v s)) = CanSpawn (World s) \<and>
   Venues (SpawnVenueMarker v s) = Venues s \<and>
   TMap_Keys (VenueMarkers (SpawnVenueMarker v s)) \<subseteq>
     insert (FVenueData.Id v) (TMap_Keys (VenueMarkers s)) \<and>
   (\<exists>extra. ActorList (World (SpawnVenueMarker v s)) = ActorList (World s) @ extra)"
proof (cases "CanSpawn (World s) (SpawnCalls (World s))")
  case True
  show ?thesis
    using TMap_Keys_Add [of "FVenueData.Id v" "NextActor (World s)" "VenueMarkers s"]
    by (simp add: SpawnVenueMarker_spawned [OF True])
next
  case False
  then show ?thesis
    by (auto simp: SpawnVenueMarker_def SpawnActor_def Let_def)
qed

lemma SpawnPlayerMarker_spawned:
  assumes "CanSpawn (World s) (SpawnCalls (World s))"
  shows "PlayerMarkers (SpawnPlayerMarker v s) =
           TMap_Add (FPlayerData.Id v) (NextActor (World s)) (PlayerMarkers s) \<and>
         ActorList (World (SpawnPlayerMarker v s)) =
           ActorList (World s) @
             [\<lparr> Location = LatLongToWorldLocation (FPlayerData.Coordinates v),
                Mobility = Movable, StaticMesh = PlayerMarkerMesh s,
                Material = (if FString_eq (FPlayerData.Status v) ''active''
                            then ActivePlayerMaterial s else InactivePlayerMaterial s),
                Tags = [FPlayerData.Id v], bPendingKill = False \<rparr>]"
  using assms
  by (simp add: SpawnPlayerMarker_def SpawnActor_def NextActor_def Let_def dress_new_actor)

lemma SpawnPlayerMarker_any:
  "CanSpawn (World (SpawnPlayerMarker v s)) = CanSpawn (World s) \<and>
   Players (SpawnPlayerMarker v s) = Players s \<and>
   PlayerMarkerMesh (SpawnPlayerMarker v s) = PlayerMarkerMesh s \<and>
   ActivePlayerMaterial (SpawnPlayerMarker v s) = ActivePlayerMaterial s \<and>
   InactivePlayerMaterial (SpawnPlayerMarker v s) = InactivePlayerMaterial s \<and>
   TMap_Keys (PlayerMarkers (SpawnPlayerMarker v s)) \<subseteq>
     insert (FPlayerData.Id v) (TMap_Keys (PlayerMarkers s)) \<and>
   (\<exists>extra. ActorList (World (SpawnPlayerMarker v s)) = ActorList (World s) @ extra)"
proof (cases "CanSpawn (World s) (SpawnCalls (World s))")
  case True
  show ?thesis
    using TMap_Keys_Add [of "FPlayerData.Id v" "NextActor (World s)" "PlayerMarkers s"]
      SpawnPlayerMarker_spawned [OF True, of v]
      True
    by (simp add: SpawnPlayerMarker_def SpawnActor_def NextActor_def Let_def dress_new_actor)
next
  case False
  then show ?thesis
    by (auto simp: SpawnPlayerMarker_def SpawnActor_def Let_def)
qed

lemma SpawnEventMarker_spawned:
  assumes "CanSpawn (World s) (SpawnCalls (World s))"
  shows "EventMarkers (SpawnEventMarker u v s) =
           TMap_Add (FEventData.Id v) (NextActor (World s)) (EventMarkers s) \<and>
         ActorList (World (SpawnEventMarker u v s)) =
           ActorList (World s) @
             [\<lparr> Location = EventMarkerLocation u v (Venues s),
                Mobility = Movable, StaticMesh = EventMarkerMesh s,
                Material = (if FString_eq (FEventData.Status v) ''active''
                            then LiveEventMaterial s else UpcomingEventMaterial s),
                Tags = [FEventData.Id v], bPendingKill = False \<rparr>]"
  using assms
  by (simp add: SpawnEventMarker_def SpawnActor_def NextActor_def Let_def dress_new_actor)

lemma SpawnEventMarker_any:
  "CanSpawn (World (SpawnEventMarker u v s)) = CanSpawn (World s) \<and>
   Events (SpawnEventMarker u v s) = Events s \<and>
   Venues (SpawnEventMarker u v s) = Venues s \<and>
   EventMarkerMesh (SpawnEventMarker u v s) = EventMarkerMesh s \<and>
   LiveEventMaterial (SpawnEventMarker u v s) = LiveEventMaterial s \<and>
   UpcomingEventMaterial (SpawnEventMarker u v s) = UpcomingEventMaterial s \<and>
   TMap_Keys (EventMarkers (SpawnEventMarker u v s)) \<subseteq>
     insert (FEventData.Id v) (TMap_Keys (EventMarkers s)) \<and>
   (\<exists>extra. ActorList (World (SpawnEventMarker u v s)) = ActorList (World s) @ extra)"
proof (cases "CanSpawn (World s) (SpawnCalls (World s))")
  case True
  show ?thesis
    using TMap_Keys_Add [of "FEventData.Id v" "NextActor (World s)" "EventMarkers s"]
      SpawnEventMarker_spawned [OF True, of u v]
      True
    by (simp add: SpawnEventMarker_def SpawnActor_def NextActor_def Let_def dress_new_actor)
next
  case False
  then show ?thesis
    by (auto simp: SpawnEventMarker_def SpawnActor_def Let_def)
qed

lemma fold_spawn:
  assumes step: "\<And>x s. P s \<Longrightarrow> CanSpawn (World s) (SpawnCalls (World s)) \<Longrightarrow>
                   markers (f x s) = TMap_Add (key x) (NextActor (World s)) (markers s) \<and>
                   ActorList (World (f x s)) = ActorList (World s) @ [mk x] \<and> P (f x s)"
      and keep: "\<And>x s. CanSpawn (World (f x s)) = CanSpawn (World s)"
      and inv: "P s"
      and ok: "\<forall>n. CanSpawn (World s) n"
      and dist: "distinct (map (\<lambda>x. ToLower (key x)) xs)"
      and new: "(\<lambda>x. ToLower (key x)) ` set xs \<inter> ToLower ` TMap_Keys (markers s) = {}"
  shows "markers (fold f xs s) =
           markers s @ zip (map key xs) [NextActor (World s) ..< NextActor (World s) + length xs] \<and>
         ActorList (World (fold f xs s)) = ActorList (World s) @ map mk xs"
  using inv ok dist new
proof (induction xs arbitrary: s)
  case Nil
  then show ?case by simp
next
  case (Cons x xs)
  let ?s1 = "f x s"
  let ?n = "NextActor (World s)"
  from Cons.prems(2) have now: "CanSpawn (World s) (SpawnCalls (World s))" by blast
  note st = step [OF Cons.prems(1) now, of x]
  from Cons.prems(4) have fresh: "ToLower (key x) \<notin> ToLower ` TMap_Keys (markers s)" by auto
  have m1: "markers ?s1 = markers s @ [(key x, ?n)]"
    using st fresh by (simp add: TMap_Add_fresh)
  have a1: "ActorList (World ?s1) = ActorList (World s) @ [mk x]" using st by simp
  have n1: "NextActor (World ?s1) = Suc ?n" by (simp add: NextActor_def a1)
  have inv1: "P ?s1" using st by simp
  have ok1: "\<forall>n. CanSpawn (World ?s1) n"
    using Cons.prems(2) by (simp add: keep)
  have dist1: "distinct (map (\<lambda>x. ToLower (key x)) xs)"
    using Cons.prems(3) by simp
  have new1: "(\<lambda>x. ToLower (key x)) ` set xs \<inter> ToLower ` TMap_Keys (markers ?s1) = {}"
    using Cons.prems(3,4) by (auto simp: m1 TMap_Keys_def)
  have ih: "markers (fold f xs ?s1) =
          markers ?s1 @ zip (map key xs) [NextActor (World ?s1) ..< NextActor (World ?s1) + length xs] \<and>
        ActorList (World (fold f xs ?s1)) = ActorList (World ?s1) @ map mk xs"
    by (rule Cons.IH [OF inv1 ok1 dist1 new1])
  have upt: "[?n ..< ?n + length (x # xs)] = ?n # [Suc ?n ..< Suc ?n + length xs]"
    by (subst upt_rec) simp
  from ih show ?case
    by (simp only: fold_simps m1 n1 a1 upt list.map zip_Cons_Cons append_assoc append_Cons
          append_Nil comp_def)
qed

lemma fold_keeps:
  "(\<And>x s. g (f x s) = g s) \<Longrightarrow> g (fold f xs s) = g s"
  by (induction xs arbitrary: s) simp_all

lemma fold_spawn_keys:
  assumes "\<And>x s. TMap_Keys (markers (f x s)) \<subseteq> insert (key x) (TMap_Keys (markers s))"
  shows "TMap_Keys (markers (fold f xs s)) \<subseteq> TMap_Keys (markers s) \<union> key ` set xs"
proof (induction xs arbitrary: s)
  case Nil
  then show ?case by simp
next
  case (Cons x xs)
  have "TMap_Keys (markers (fold f xs (f x s))) \<subseteq> TMap_Keys (markers (f x s)) \<union> key ` set xs"
    by (rule Cons.IH)
  with assms [of x s] show ?case by auto
qed

lemma fold_spawn_prefix:
  assumes "\<And>x s. \<exists>extra. ActorList (World (f x s)) = ActorList (World s) @ extra"
  shows "\<exists>extra. ActorList (World (fold f xs s)) = ActorList (World s) @ extra"
proof (induction xs arbitrary: s)
  case Nil
  then show ?case by simp
next
  case (Cons x xs)
  from assms [of x s] obtain e1 where "ActorList (World (f x s)) = ActorList (World s) @ e1" ..
  moreover from Cons.IH [of "f x s"] obtain e2 where
    "ActorList (World (fold f xs (f x s))) = ActorList (World (f x s)) @ e2" ..
  ultimately show ?case by simp
qed

text \<open>The clearing loop.\<close>

lemma Destroy_Inr:
  "a < NextActor w \<Longrightarrow>
   Destroy a w = Inr (w\<lparr> ActorList := (ActorList w)[a := (ActorList w ! a)\<lparr> bPendingKill := True \<rparr>] \<rparr>)"
  by (simp add: Destroy_def call_actor_def Actors_def NextActor_def)

lemma Destroy_Inl: "\<not> a < NextActor w \<Longrightarrow> Destroy a w = Inl WildPointer"
  by (simp add: Destroy_def call_actor_def Actors_def NextActor_def)

lemma DestroyMarkers_returns:
  "\<forall>a \<in> snd ` set m. a < NextActor w \<Longrightarrow> \<exists>w'. DestroyMarkers m w = Inr w'"
  unfolding DestroyMarkers_def
proof (induction m arbitrary: w)
  case Nil
  then show ?case by simp
next
  case (Cons p m)
  let ?w1 = "w\<lparr> ActorList := (ActorList w)[snd p := (ActorList w ! snd p)\<lparr> bPendingKill := True \<rparr>] \<rparr>"
  from Cons.prems have d: "Destroy (snd p) w = Inr ?w1" by (simp add: Destroy_Inr)
  from Cons.prems have "\<forall>a \<in> snd ` set m. a < NextActor ?w1" by (simp add: NextActor_def)
  from Cons.IH [OF this] show ?case by (simp add: d)
qed

lemma DestroyMarkers_Inr:
  "DestroyMarkers m w = Inr w' \<Longrightarrow>
     (\<forall>a \<in> snd ` set m. a < NextActor w) \<and>
     snd ` set m \<subseteq> Destroyed w' \<and> Destroyed w \<subseteq> Destroyed w' \<and>
     NextActor w' = NextActor w \<and> CanSpawn w' = CanSpawn w \<and> SpawnCalls w' = SpawnCalls w"
  unfolding DestroyMarkers_def
proof (induction m arbitrary: w)
  case Nil
  then show ?case by simp
next
  case (Cons p m)
  let ?w1 = "w\<lparr> ActorList := (ActorList w)[snd p := (ActorList w ! snd p)\<lparr> bPendingKill := True \<rparr>] \<rparr>"
  from Cons.prems have valid: "snd p < NextActor w"
    by (cases "snd p < NextActor w") (simp_all add: Destroy_Inl)
  then have d: "Destroy (snd p) w = Inr ?w1" by (rule Destroy_Inr)
  with Cons.prems have rest: "for_each (\<lambda>Marker. Destroy (snd Marker)) m ?w1 = Inr w'" by simp
  note ih = Cons.IH [OF rest]
  have here: "snd p \<in> Destroyed ?w1" "Destroyed w \<subseteq> Destroyed ?w1" "NextActor ?w1 = NextActor w"
    using valid by (auto simp: Destroyed_def NextActor_def nth_list_update)
  from ih here valid show ?case by auto
qed

lemma UpdateVenues_returns:
  assumes "\<forall>a \<in> snd ` set (VenueMarkers s). a < NextActor (World s)"
  shows "\<exists>s'. UpdateVenues N s = Inr s'"
  using DestroyMarkers_returns [OF assms] by (auto simp: UpdateVenues_def)

lemma UpdateVenues_Inr:
  assumes r: "UpdateVenues N s = Inr s'"
  shows "(\<forall>a \<in> snd ` set (VenueMarkers s). a < NextActor (World s)) \<and>
         snd ` set (VenueMarkers s) \<subseteq> Destroyed (World s') \<and> Venues s' = N \<and>
         TMap_Keys (VenueMarkers s') \<subseteq> FVenueData.Id ` set N \<and>
         (DefaultVenueMarker s \<noteq> None \<and> (\<forall>n. CanSpawn (World s) n) \<and>
          distinct (map (\<lambda>Venue. ToLower (FVenueData.Id Venue)) N) \<longrightarrow>
            VenueMarkers s' =
              zip (map FVenueData.Id N) [NextActor (World s) ..< NextActor (World s) + length N] \<and>
            drop (NextActor (World s)) (ActorList (World s')) =
              map (\<lambda>Venue. \<lparr> Location = LatLongToWorldLocation (FVenueData.Coordinates Venue),
                              Mobility = Movable, StaticMesh = DefaultVenueMarker s,
                              Material = (if bIsIndoor Venue then IndoorVenueMaterial s
                                          else OutdoorVenueMaterial s),
                              Tags = [FVenueData.Id Venue], bPendingKill = False \<rparr>) N)"
proof -
  from r obtain w1 where d: "DestroyMarkers (VenueMarkers s) (World s) = Inr w1"
    by (auto simp: UpdateVenues_def split: sum.splits)
  note dw = DestroyMarkers_Inr [OF d]
  let ?s3 = "s\<lparr> World := w1, VenueMarkers := [], Venues := N \<rparr>"
  from r d have s': "s' = SpawnVenueMarkers ?s3" by (simp add: UpdateVenues_def)
  let ?f = SpawnVenueMarker
  have pre: "\<exists>extra. ActorList (World (fold ?f N ?s3)) = ActorList (World ?s3) @ extra"
    by (rule fold_spawn_prefix) (simp add: SpawnVenueMarker_any)
  have keys: "TMap_Keys (VenueMarkers (fold ?f N ?s3)) \<subseteq>
                TMap_Keys (VenueMarkers ?s3) \<union> FVenueData.Id ` set N"
    by (rule fold_spawn_keys) (simp add: SpawnVenueMarker_any)
  have data: "Venues (fold ?f N ?s3) = Venues ?s3"
    by (rule fold_keeps) (simp add: SpawnVenueMarker_any)
  have destroyed: "snd ` set (VenueMarkers s) \<subseteq> Destroyed (World s')"
  proof (cases "DefaultVenueMarker s")
    case None
    with dw show ?thesis by (simp add: s' SpawnVenueMarkers_def)
  next
    case (Some mesh)
    from pre obtain extra where "ActorList (World (fold ?f N ?s3)) = ActorList w1 @ extra" by auto
    from Destroyed_mono [OF this] dw Some show ?thesis
      by (auto simp: s' SpawnVenueMarkers_def)
  qed
  have venues: "Venues s' = N"
    using data by (simp add: s' SpawnVenueMarkers_def split: option.split)
  have sub: "TMap_Keys (VenueMarkers s') \<subseteq> FVenueData.Id ` set N"
    using keys by (simp add: s' SpawnVenueMarkers_def TMap_Keys_def split: option.split)
  have spawned: "VenueMarkers s' =
              zip (map FVenueData.Id N) [NextActor (World s) ..< NextActor (World s) + length N] \<and>
            drop (NextActor (World s)) (ActorList (World s')) =
              map (\<lambda>Venue. \<lparr> Location = LatLongToWorldLocation (FVenueData.Coordinates Venue),
                              Mobility = Movable, StaticMesh = DefaultVenueMarker s,
                              Material = (if bIsIndoor Venue then IndoorVenueMaterial s
                                          else OutdoorVenueMaterial s),
                              Tags = [FVenueData.Id Venue], bPendingKill = False \<rparr>) N"
    if h: "DefaultVenueMarker s \<noteq> None \<and> (\<forall>n. CanSpawn (World s) n) \<and>
           distinct (map (\<lambda>Venue. ToLower (FVenueData.Id Venue)) N)"
  proof -
    let ?P = "\<lambda>t::AMapView. DefaultVenueMarker t = DefaultVenueMarker s \<and>
                   IndoorVenueMaterial t = IndoorVenueMaterial s \<and>
                   OutdoorVenueMaterial t = OutdoorVenueMaterial s"
    let ?mk = "\<lambda>Venue. \<lparr> Location = LatLongToWorldLocation (FVenueData.Coordinates Venue),
                         Mobility = Movable, StaticMesh = DefaultVenueMarker s,
                         Material = (if bIsIndoor Venue then IndoorVenueMaterial s
                                     else OutdoorVenueMaterial s),
                         Tags = [FVenueData.Id Venue], bPendingKill = False \<rparr>"
    have "VenueMarkers (fold ?f N ?s3) =
            VenueMarkers ?s3 @ zip (map FVenueData.Id N)
              [NextActor (World ?s3) ..< NextActor (World ?s3) + length N] \<and>
          ActorList (World (fold ?f N ?s3)) = ActorList (World ?s3) @ map ?mk N"
    proof (rule fold_spawn [where P = ?P])
      fix x and t :: AMapView
      assume "?P t" and "CanSpawn (World t) (SpawnCalls (World t))"
      then show "VenueMarkers (?f x t) = TMap_Add (FVenueData.Id x) (NextActor (World t)) (VenueMarkers t) \<and>
                 ActorList (World (?f x t)) = ActorList (World t) @ [?mk x] \<and> ?P (?f x t)"
        by (simp add: SpawnVenueMarker_spawned)
    next
      fix x and t :: AMapView
      show "CanSpawn (World (?f x t)) = CanSpawn (World t)" by (simp add: SpawnVenueMarker_any)
    next
      show "?P ?s3" by simp
      show "\<forall>n. CanSpawn (World ?s3) n" using h dw by simp
      show "distinct (map (\<lambda>x. ToLower (FVenueData.Id x)) N)" using h by simp
      show "(\<lambda>x. ToLower (FVenueData.Id x)) ` set N \<inter> ToLower ` TMap_Keys (VenueMarkers ?s3) = {}"
        by (simp add: TMap_Keys_def)
    qed
    moreover from h obtain mesh where "DefaultVenueMarker s = Some mesh" by auto
    moreover have "length (ActorList w1) = NextActor (World s)"
      using dw by (simp add: NextActor_def)
    ultimately show ?thesis
      using dw by (simp add: s' SpawnVenueMarkers_def)
  qed
  from dw destroyed venues sub spawned show ?thesis by blast
qed

lemma UpdatePlayers_returns:
  assumes "\<forall>a \<in> snd ` set (PlayerMarkers s). a < NextActor (World s)"
  shows "\<exists>s'. UpdatePlayers N s = Inr s'"
  using DestroyMarkers_returns [OF assms] by (auto simp: UpdatePlayers_def)

lemma UpdatePlayers_Inr:
  assumes r: "UpdatePlayers N s = Inr s'"
  shows "(\<forall>a \<in> snd ` set (PlayerMarkers s). a < NextActor (World s)) \<and>
         snd ` set (PlayerMarkers s) \<subseteq> Destroyed (World s') \<and> Players s' = N \<and>
         TMap_Keys (PlayerMarkers s') \<subseteq> FPlayerData.Id ` set N \<and>
         (PlayerMarkerMesh s \<noteq> None \<and> (\<forall>n. CanSpawn (World s) n) \<and>
          distinct (map (\<lambda>Player. ToLower (FPlayerData.Id Player)) N) \<longrightarrow>
            PlayerMarkers s' =
              zip (map FPlayerData.Id N) [NextActor (World s) ..< NextActor (World s) + length N] \<and>
            drop (NextActor (World s)) (ActorList (World s')) =
              map (\<lambda>Player. \<lparr> Location = LatLongToWorldLocation (FPlayerData.Coordinates Player),
                               Mobility = Movable, StaticMesh = PlayerMarkerMesh s,
                               Material = (if FString_eq (FPlayerData.Status Player) ''active''
                                           then ActivePlayerMaterial s
                                           else InactivePlayerMaterial s),
                               Tags = [FPlayerData.Id Player], bPendingKill = False \<rparr>) N)"
proof -
  from r obtain w1 where d: "DestroyMarkers (PlayerMarkers s) (World s) = Inr w1"
    by (auto simp: UpdatePlayers_def split: sum.splits)
  note dw = DestroyMarkers_Inr [OF d]
  let ?s3 = "s\<lparr> World := w1, PlayerMarkers := [], Players := N \<rparr>"
  from r d have s': "s' = SpawnPlayerMarkers ?s3" by (simp add: UpdatePlayers_def)
  let ?f = SpawnPlayerMarker
  have pre: "\<exists>extra. ActorList (World (fold ?f N ?s3)) = ActorList (World ?s3) @ extra"
    by (rule fold_spawn_prefix) (simp add: SpawnPlayerMarker_any)
  have keys: "TMap_Keys (PlayerMarkers (fold ?f N ?s3)) \<subseteq>
                TMap_Keys (PlayerMarkers ?s3) \<union> FPlayerData.Id ` set N"
    by (rule fold_spawn_keys) (simp add: SpawnPlayerMarker_any)
  have data: "Players (fold ?f N ?s3) = Players ?s3"
    by (rule fold_keeps) (simp add: SpawnPlayerMarker_any)
  have destroyed: "snd ` set (PlayerMarkers s) \<subseteq> Destroyed (World s')"
  proof (cases "PlayerMarkerMesh s")
    case None
    with dw show ?thesis by (simp add: s' SpawnPlayerMarkers_def)
  next
    case (Some mesh)
    from pre obtain extra where "ActorList (World (fold ?f N ?s3)) = ActorList w1 @ extra" by auto
    from Destroyed_mono [OF this] dw Some show ?thesis
      by (auto simp: s' SpawnPlayerMarkers_def)
  qed
  have players: "Players s' = N"
    using data by (simp add: s' SpawnPlayerMarkers_def split: option.split)
  have sub: "TMap_Keys (PlayerMarkers s') \<subseteq> FPlayerData.Id ` set N"
    using keys by (simp add: s' SpawnPlayerMarkers_def TMap_Keys_def split: option.split)
  have spawned: "PlayerMarkers s' =
              zip (map FPlayerData.Id N) [NextActor (World s) ..< NextActor (World s) + length N] \<and>
            drop (NextActor (World s)) (ActorList (World s')) =
              map (\<lambda>Player. \<lparr> Location = LatLongToWorldLocation (FPlayerData.Coordinates Player),
                               Mobility = Movable, StaticMesh = PlayerMarkerMesh s,
                               Material = (if FString_eq (FPlayerData.Status Player) ''active''
                                           then ActivePlayerMaterial s
                                           else InactivePlayerMaterial s),
                               Tags = [FPlayerData.Id Player], bPendingKill = False \<rparr>) N"
    if h: "PlayerMarkerMesh s \<noteq> None \<and> (\<forall>n. CanSpawn (World s) n) \<and>
           distinct (map (\<lambda>Player. ToLower (FPlayerData.Id Player)) N)"
  proof -
    let ?P = "\<lambda>t::AMapView. PlayerMarkerMesh t = PlayerMarkerMesh s \<and>
                   ActivePlayerMaterial t = ActivePlayerMaterial s \<and>
                   InactivePlayerMaterial t = InactivePlayerMaterial s"
    let ?mk = "\<lambda>Player. \<lparr> Location = LatLongToWorldLocation (FPlayerData.Coordinates Player),
                          Mobility = Movable, StaticMesh = PlayerMarkerMesh s,
                          Material = (if FString_eq (FPlayerData.Status Player) ''active''
                                      then ActivePlayerMaterial s else InactivePlayerMaterial s),
                          Tags = [FPlayerData.Id Player], bPendingKill = False \<rparr>"
    have "PlayerMarkers (fold ?f N ?s3) =
            PlayerMarkers ?s3 @ zip (map FPlayerData.Id N)
              [NextActor (World ?s3) ..< NextActor (World ?s3) + length N] \<and>
          ActorList (World (fold ?f N ?s3)) = ActorList (World ?s3) @ map ?mk N"
    proof (rule fold_spawn [where P = ?P])
      fix x and t :: AMapView
      assume "?P t" and "CanSpawn (World t) (SpawnCalls (World t))"
      then show "PlayerMarkers (?f x t) = TMap_Add (FPlayerData.Id x) (NextActor (World t)) (PlayerMarkers t) \<and>
                 ActorList (World (?f x t)) = ActorList (World t) @ [?mk x] \<and> ?P (?f x t)"
        using SpawnPlayerMarker_any [of x t] by (simp add: SpawnPlayerMarker_spawned)
    next
      fix x and t :: AMapView
      show "CanSpawn (World (?f x t)) = CanSpawn (World t)" by (simp add: SpawnPlayerMarker_any)
    next
      show "?P ?s3" by simp
      show "\<forall>n. CanSpawn (World ?s3) n" using h dw by simp
      show "distinct (map (\<lambda>x. ToLower (FPlayerData.Id x)) N)" using h by simp
      show "(\<lambda>x. ToLower (FPlayerData.Id x)) ` set N \<inter> ToLower ` TMap_Keys (PlayerMarkers ?s3) = {}"
        by (simp add: TMap_Keys_def)
    qed
    moreover from h obtain mesh where "PlayerMarkerMesh s = Some mesh" by auto
    moreover have "length (ActorList w1) = NextActor (World s)"
      using dw by (simp add: NextActor_def)
    ultimately show ?thesis
      using dw by (simp add: s' SpawnPlayerMarkers_def)
  qed
  from dw destroyed players sub spawned show ?thesis by blast
qed

lemma UpdateEvents_returns:
  assumes "\<forall>a \<in> snd ` set (EventMarkers s). a < NextActor (World s)"
  shows "\<exists>s'. UpdateEvents uninit N s = Inr s'"
  using DestroyMarkers_returns [OF assms] by (auto simp: UpdateEvents_def)

lemma map_snd_enumerate_fun: "map (\<lambda>x. g (snd x)) (enumerate n xs) = map g xs"
  by (induction xs arbitrary: n) simp_all

lemma snd_set_enumerate: "snd ` set (enumerate n xs) = set xs"
  by (metis map_snd_enumerate set_map)

lemma UpdateEvents_Inr:
  assumes r: "UpdateEvents uninit N s = Inr s'"
  shows "(\<forall>a \<in> snd ` set (EventMarkers s). a < NextActor (World s)) \<and>
         snd ` set (EventMarkers s) \<subseteq> Destroyed (World s') \<and> Events s' = N \<and>
         TMap_Keys (EventMarkers s') \<subseteq> FEventData.Id ` set N \<and>
         (EventMarkerMesh s \<noteq> None \<and> (\<forall>n. CanSpawn (World s) n) \<and>
          distinct (map (\<lambda>Event. ToLower (FEventData.Id Event)) N) \<longrightarrow>
            EventMarkers s' =
              zip (map FEventData.Id N) [NextActor (World s) ..< NextActor (World s) + length N] \<and>
            drop (NextActor (World s)) (ActorList (World s')) =
              map (\<lambda>(i, Event). \<lparr> Location = EventMarkerLocation (uninit i) Event (Venues s),
                                   Mobility = Movable, StaticMesh = EventMarkerMesh s,
                                   Material = (if FString_eq (FEventData.Status Event) ''active''
                                               then LiveEventMaterial s
                                               else UpcomingEventMaterial s),
                                   Tags = [FEventData.Id Event], bPendingKill = False \<rparr>)
                  (enumerate 0 N))"
proof -
  from r obtain w1 where d: "DestroyMarkers (EventMarkers s) (World s) = Inr w1"
    by (auto simp: UpdateEvents_def split: sum.splits)
  note dw = DestroyMarkers_Inr [OF d]
  let ?s3 = "s\<lparr> World := w1, EventMarkers := [], Events := N \<rparr>"
  from r d have s': "s' = SpawnEventMarkers uninit ?s3" by (simp add: UpdateEvents_def)
  let ?f = "\<lambda>(i, Event). SpawnEventMarker (uninit i) Event"
  let ?key = "\<lambda>x :: nat \<times> FEventData. FEventData.Id (snd x)"
  let ?xs = "enumerate 0 N"
  have ids: "map ?key ?xs = map FEventData.Id N"
    by (rule map_snd_enumerate_fun)
  have idset: "?key ` set ?xs = FEventData.Id ` set N"
    by (simp add: snd_set_enumerate image_image [symmetric])
  have pre: "\<exists>extra. ActorList (World (fold ?f ?xs ?s3)) = ActorList (World ?s3) @ extra"
    by (rule fold_spawn_prefix) (simp add: SpawnEventMarker_any split: prod.split)
  have keys: "TMap_Keys (EventMarkers (fold ?f ?xs ?s3)) \<subseteq>
                TMap_Keys (EventMarkers ?s3) \<union> ?key ` set ?xs"
    by (rule fold_spawn_keys) (simp add: SpawnEventMarker_any split: prod.split)
  have data: "Events (fold ?f ?xs ?s3) = Events ?s3"
    by (rule fold_keeps) (simp add: SpawnEventMarker_any split: prod.split)
  have destroyed: "snd ` set (EventMarkers s) \<subseteq> Destroyed (World s')"
  proof (cases "EventMarkerMesh s")
    case None
    with dw show ?thesis by (simp add: s' SpawnEventMarkers_def)
  next
    case (Some mesh)
    from pre obtain extra where "ActorList (World (fold ?f ?xs ?s3)) = ActorList w1 @ extra" by auto
    from Destroyed_mono [OF this] dw Some show ?thesis
      by (auto simp: s' SpawnEventMarkers_def)
  qed
  have events: "Events s' = N"
    using data by (simp add: s' SpawnEventMarkers_def split: option.split)
  have sub: "TMap_Keys (EventMarkers s') \<subseteq> FEventData.Id ` set N"
    using keys idset by (simp add: s' SpawnEventMarkers_def TMap_Keys_def split: option.split)
  have spawned: "EventMarkers s' =
              zip (map FEventData.Id N) [NextActor (World s) ..< NextActor (World s) + length N] \<and>
            drop (NextActor (World s)) (ActorList (World s')) =
              map (\<lambda>(i, Event). \<lparr> Location = EventMarkerLocation (uninit i) Event (Venues s),
                                   Mobility = Movable, StaticMesh = EventMarkerMesh s,
                                   Material = (if FString_eq (FEventData.Status Event) ''active''
                                               then LiveEventMaterial s
                                               else UpcomingEventMaterial s),
                                   Tags = [FEventData.Id Event], bPendingKill = False \<rparr>)
                  (enumerate 0 N)"
    if h: "EventMarkerMesh s \<noteq> None \<and> (\<forall>n. CanSpawn (World s) n) \<and>
           distinct (map (\<lambda>Event. ToLower (FEventData.Id Event)) N)"
  proof -
    let ?P = "\<lambda>t::AMapView. EventMarkerMesh t = EventMarkerMesh s \<and>
                   LiveEventMaterial t = LiveEventMaterial s \<and>
                   UpcomingEventMaterial t = UpcomingEventMaterial s \<and> Venues t = Venues s"
    let ?mk = "\<lambda>(i, Event). \<lparr> Location = EventMarkerLocation (uninit i) Event (Venues s),
                              Mobility = Movable, StaticMesh = EventMarkerMesh s,
                              Material = (if FString_eq (FEventData.Status Event) ''active''
                                          then LiveEventMaterial s else UpcomingEventMaterial s),
                              Tags = [FEventData.Id Event], bPendingKill = False \<rparr>"
    have "EventMarkers (fold ?f ?xs ?s3) =
            EventMarkers ?s3 @ zip (map ?key ?xs)
              [NextActor (World ?s3) ..< NextActor (World ?s3) + length ?xs] \<and>
          ActorList (World (fold ?f ?xs ?s3)) = ActorList (World ?s3) @ map ?mk ?xs"
    proof (rule fold_spawn [where P = ?P])
      fix x :: "nat \<times> FEventData" and t :: AMapView
      assume "?P t" and "CanSpawn (World t) (SpawnCalls (World t))"
      then show "EventMarkers (?f x t) = TMap_Add (?key x) (NextActor (World t)) (EventMarkers t) \<and>
                 ActorList (World (?f x t)) = ActorList (World t) @ [?mk x] \<and> ?P (?f x t)"
        using SpawnEventMarker_any [of "uninit (fst x)" "snd x" t]
        by (cases x) (simp add: SpawnEventMarker_spawned)
    next
      fix x :: "nat \<times> FEventData" and t :: AMapView
      show "CanSpawn (World (?f x t)) = CanSpawn (World t)"
        by (cases x) (simp add: SpawnEventMarker_any)
    next
      show "?P ?s3" by simp
      show "\<forall>n. CanSpawn (World ?s3) n" using h dw by simp
      show "distinct (map (\<lambda>x. ToLower (?key x)) ?xs)"
        using h map_snd_enumerate_fun [of "\<lambda>Event. ToLower (FEventData.Id Event)" 0 N] by simp
      show "(\<lambda>x. ToLower (?key x)) ` set ?xs \<inter> ToLower ` TMap_Keys (EventMarkers ?s3) = {}"
        by (simp add: TMap_Keys_def)
    qed
    moreover from h obtain mesh where "EventMarkerMesh s = Some mesh" by auto
    moreover have "length (ActorList w1) = NextActor (World s)"
      using dw by (simp add: NextActor_def)
    ultimately show ?thesis
      using dw by (simp add: s' SpawnEventMarkers_def ids)
  qed
  from dw destroyed events sub spawned show ?thesis by blast
qed

lemma new_markers_fresh:
  assumes m: "markers' = zip ks [n ..< n + length xs]"
      and a: "drop n (ActorList w') = map mk xs"
      and alive: "\<And>x. \<not> bPendingKill (mk x)"
      and old: "\<forall>a \<in> old. a < n"
  shows "snd ` set markers' \<inter> (old \<union> Destroyed w') = {}"
proof -
  have "a \<notin> old \<union> Destroyed w'" if "a \<in> snd ` set markers'" for a
  proof -
    from that m have "a \<in> set [n ..< n + length xs]"
      by (auto dest: set_zip_rightD)
    then have range: "n \<le> a" "a < n + length xs" by simp_all
    from range(1) old have "a \<notin> old" by auto
    moreover have "a \<notin> Destroyed w'"
    proof
      assume "a \<in> Destroyed w'"
      then have len: "a < length (ActorList w')" and dead: "bPendingKill (ActorList w' ! a)"
        by (simp_all add: Destroyed_def)
      from range(1) len have "ActorList w' ! a = drop n (ActorList w') ! (a - n)" by simp
      also have "\<dots> = mk (xs ! (a - n))"
        using range by (simp add: a)
      finally show False using dead alive by simp
    qed
    ultimately show ?thesis by simp
  qed
  then show ?thesis by blast
qed

text \<open>
  C3.  The marker lifecycle is full replacement.  For \<^verbatim>\<open>UpdateVenues\<close>, \<^verbatim>\<open>UpdatePlayers\<close>
  and \<^verbatim>\<open>UpdateEvents\<close> alike.  The call returns when every marker stored in the map is an
  actor of the world.  When it returns, \<^verbatim>\<open>Destroy()\<close> has been called on every marker the
  map held before the call; the stored data array is the new array; the map was emptied,
  so every key it holds afterwards is an \<^verbatim>\<open>Id\<close> of the new array.  When moreover the marker
  mesh is set, every spawn succeeds and the new \<^verbatim>\<open>Id\<close>s are pairwise distinct \<^emph>\<open>ignoring
  case\<close> (the keys of a \<^verbatim>\<open>TMap<FString, ...>\<close> are compared so), the map holds exactly one
  marker per element, in order, keyed by the element's \<^verbatim>\<open>Id\<close>, so its key set is the set of
  the new \<^verbatim>\<open>Id\<close>s; the markers are the actors the call has spawned, one per element, each
  at the projected place of its element and carrying the mesh, the material and the tag
  the code gives it; and none of them is a marker the map held before or an actor that
  has been destroyed.
\<close>

theorem marker_lifecycle_full_replacement:
  "(((\<forall>a \<in> snd ` set (VenueMarkers s). a < NextActor (World s)) \<longrightarrow>
       (\<exists>s'. UpdateVenues NewVenues s = Inr s')) \<and>
    (\<forall>s'. UpdateVenues NewVenues s = Inr s' \<longrightarrow>
       snd ` set (VenueMarkers s) \<subseteq> Destroyed (World s') \<and>
       Venues s' = NewVenues \<and>
       TMap_Keys (VenueMarkers s') \<subseteq> FVenueData.Id ` set NewVenues \<and>
       (DefaultVenueMarker s \<noteq> None \<and> (\<forall>n. CanSpawn (World s) n) \<and>
        distinct (map (\<lambda>Venue. ToLower (FVenueData.Id Venue)) NewVenues) \<longrightarrow>
          VenueMarkers s' =
            zip (map FVenueData.Id NewVenues)
                [NextActor (World s) ..< NextActor (World s) + length NewVenues] \<and>
          TMap_Keys (VenueMarkers s') = FVenueData.Id ` set NewVenues \<and>
          drop (NextActor (World s)) (ActorList (World s')) =
            map (\<lambda>Venue. \<lparr> Location = LatLongToWorldLocation (FVenueData.Coordinates Venue),
                            Mobility = Movable, StaticMesh = DefaultVenueMarker s,
                            Material = (if bIsIndoor Venue then IndoorVenueMaterial s
                                        else OutdoorVenueMaterial s),
                            Tags = [FVenueData.Id Venue], bPendingKill = False \<rparr>) NewVenues \<and>
          snd ` set (VenueMarkers s') \<inter>
            (snd ` set (VenueMarkers s) \<union> Destroyed (World s')) = {}))) \<and>
   (((\<forall>a \<in> snd ` set (PlayerMarkers s). a < NextActor (World s)) \<longrightarrow>
       (\<exists>s'. UpdatePlayers NewPlayers s = Inr s')) \<and>
    (\<forall>s'. UpdatePlayers NewPlayers s = Inr s' \<longrightarrow>
       snd ` set (PlayerMarkers s) \<subseteq> Destroyed (World s') \<and>
       Players s' = NewPlayers \<and>
       TMap_Keys (PlayerMarkers s') \<subseteq> FPlayerData.Id ` set NewPlayers \<and>
       (PlayerMarkerMesh s \<noteq> None \<and> (\<forall>n. CanSpawn (World s) n) \<and>
        distinct (map (\<lambda>Player. ToLower (FPlayerData.Id Player)) NewPlayers) \<longrightarrow>
          PlayerMarkers s' =
            zip (map FPlayerData.Id NewPlayers)
                [NextActor (World s) ..< NextActor (World s) + length NewPlayers] \<and>
          TMap_Keys (PlayerMarkers s') = FPlayerData.Id ` set NewPlayers \<and>
          drop (NextActor (World s)) (ActorList (World s')) =
            map (\<lambda>Player. \<lparr> Location = LatLongToWorldLocation (FPlayerData.Coordinates Player),
                             Mobility = Movable, StaticMesh = PlayerMarkerMesh s,
                             Material = (if FString_eq (FPlayerData.Status Player) ''active''
                                         then ActivePlayerMaterial s
                                         else InactivePlayerMaterial s),
                             Tags = [FPlayerData.Id Player], bPendingKill = False \<rparr>) NewPlayers \<and>
          snd ` set (PlayerMarkers s') \<inter>
            (snd ` set (PlayerMarkers s) \<union> Destroyed (World s')) = {}))) \<and>
   (((\<forall>a \<in> snd ` set (EventMarkers s). a < NextActor (World s)) \<longrightarrow>
       (\<exists>s'. UpdateEvents uninit NewEvents s = Inr s')) \<and>
    (\<forall>s'. UpdateEvents uninit NewEvents s = Inr s' \<longrightarrow>
       snd ` set (EventMarkers s) \<subseteq> Destroyed (World s') \<and>
       Events s' = NewEvents \<and>
       TMap_Keys (EventMarkers s') \<subseteq> FEventData.Id ` set NewEvents \<and>
       (EventMarkerMesh s \<noteq> None \<and> (\<forall>n. CanSpawn (World s) n) \<and>
        distinct (map (\<lambda>Event. ToLower (FEventData.Id Event)) NewEvents) \<longrightarrow>
          EventMarkers s' =
            zip (map FEventData.Id NewEvents)
                [NextActor (World s) ..< NextActor (World s) + length NewEvents] \<and>
          TMap_Keys (EventMarkers s') = FEventData.Id ` set NewEvents \<and>
          drop (NextActor (World s)) (ActorList (World s')) =
            map (\<lambda>(i, Event). \<lparr> Location = EventMarkerLocation (uninit i) Event (Venues s),
                                 Mobility = Movable, StaticMesh = EventMarkerMesh s,
                                 Material = (if FString_eq (FEventData.Status Event) ''active''
                                             then LiveEventMaterial s
                                             else UpcomingEventMaterial s),
                                 Tags = [FEventData.Id Event], bPendingKill = False \<rparr>)
                (enumerate 0 NewEvents) \<and>
          snd ` set (EventMarkers s') \<inter>
            (snd ` set (EventMarkers s) \<union> Destroyed (World s')) = {})))"
proof (intro conjI)
  show "(\<forall>a \<in> snd ` set (VenueMarkers s). a < NextActor (World s)) \<longrightarrow>
          (\<exists>s'. UpdateVenues NewVenues s = Inr s')"
    using UpdateVenues_returns by blast
  show "(\<forall>a \<in> snd ` set (PlayerMarkers s). a < NextActor (World s)) \<longrightarrow>
          (\<exists>s'. UpdatePlayers NewPlayers s = Inr s')"
    using UpdatePlayers_returns by blast
  show "(\<forall>a \<in> snd ` set (EventMarkers s). a < NextActor (World s)) \<longrightarrow>
          (\<exists>s'. UpdateEvents uninit NewEvents s = Inr s')"
    using UpdateEvents_returns by blast
next
  show "\<forall>s'. UpdateVenues NewVenues s = Inr s' \<longrightarrow>
       snd ` set (VenueMarkers s) \<subseteq> Destroyed (World s') \<and>
       Venues s' = NewVenues \<and>
       TMap_Keys (VenueMarkers s') \<subseteq> FVenueData.Id ` set NewVenues \<and>
       (DefaultVenueMarker s \<noteq> None \<and> (\<forall>n. CanSpawn (World s) n) \<and>
        distinct (map (\<lambda>Venue. ToLower (FVenueData.Id Venue)) NewVenues) \<longrightarrow>
          VenueMarkers s' =
            zip (map FVenueData.Id NewVenues)
                [NextActor (World s) ..< NextActor (World s) + length NewVenues] \<and>
          TMap_Keys (VenueMarkers s') = FVenueData.Id ` set NewVenues \<and>
          drop (NextActor (World s)) (ActorList (World s')) =
            map (\<lambda>Venue. \<lparr> Location = LatLongToWorldLocation (FVenueData.Coordinates Venue),
                            Mobility = Movable, StaticMesh = DefaultVenueMarker s,
                            Material = (if bIsIndoor Venue then IndoorVenueMaterial s
                                        else OutdoorVenueMaterial s),
                            Tags = [FVenueData.Id Venue], bPendingKill = False \<rparr>) NewVenues \<and>
          snd ` set (VenueMarkers s') \<inter>
            (snd ` set (VenueMarkers s) \<union> Destroyed (World s')) = {})"
  proof (intro allI impI)
    fix s'
    assume r: "UpdateVenues NewVenues s = Inr s'"
    note u = UpdateVenues_Inr [OF r]
    let ?mk = "\<lambda>Venue. \<lparr> Location = LatLongToWorldLocation (FVenueData.Coordinates Venue),
                         Mobility = Movable, StaticMesh = DefaultVenueMarker s,
                         Material = (if bIsIndoor Venue then IndoorVenueMaterial s
                                     else OutdoorVenueMaterial s),
                         Tags = [FVenueData.Id Venue], bPendingKill = False \<rparr>"
    have "snd ` set (VenueMarkers s') \<inter> (snd ` set (VenueMarkers s) \<union> Destroyed (World s')) = {}"
      if "VenueMarkers s' =
            zip (map FVenueData.Id NewVenues)
                [NextActor (World s) ..< NextActor (World s) + length NewVenues]"
        and "drop (NextActor (World s)) (ActorList (World s')) = map ?mk NewVenues"
      using that u by (intro new_markers_fresh [where mk = ?mk and xs = NewVenues]) auto
    with u show "snd ` set (VenueMarkers s) \<subseteq> Destroyed (World s') \<and>
       Venues s' = NewVenues \<and>
       TMap_Keys (VenueMarkers s') \<subseteq> FVenueData.Id ` set NewVenues \<and>
       (DefaultVenueMarker s \<noteq> None \<and> (\<forall>n. CanSpawn (World s) n) \<and>
        distinct (map (\<lambda>Venue. ToLower (FVenueData.Id Venue)) NewVenues) \<longrightarrow>
          VenueMarkers s' =
            zip (map FVenueData.Id NewVenues)
                [NextActor (World s) ..< NextActor (World s) + length NewVenues] \<and>
          TMap_Keys (VenueMarkers s') = FVenueData.Id ` set NewVenues \<and>
          drop (NextActor (World s)) (ActorList (World s')) = map ?mk NewVenues \<and>
          snd ` set (VenueMarkers s') \<inter>
            (snd ` set (VenueMarkers s) \<union> Destroyed (World s')) = {})"
      by (simp add: TMap_Keys_zip)
  qed
next
  show "\<forall>s'. UpdatePlayers NewPlayers s = Inr s' \<longrightarrow>
       snd ` set (PlayerMarkers s) \<subseteq> Destroyed (World s') \<and>
       Players s' = NewPlayers \<and>
       TMap_Keys (PlayerMarkers s') \<subseteq> FPlayerData.Id ` set NewPlayers \<and>
       (PlayerMarkerMesh s \<noteq> None \<and> (\<forall>n. CanSpawn (World s) n) \<and>
        distinct (map (\<lambda>Player. ToLower (FPlayerData.Id Player)) NewPlayers) \<longrightarrow>
          PlayerMarkers s' =
            zip (map FPlayerData.Id NewPlayers)
                [NextActor (World s) ..< NextActor (World s) + length NewPlayers] \<and>
          TMap_Keys (PlayerMarkers s') = FPlayerData.Id ` set NewPlayers \<and>
          drop (NextActor (World s)) (ActorList (World s')) =
            map (\<lambda>Player. \<lparr> Location = LatLongToWorldLocation (FPlayerData.Coordinates Player),
                             Mobility = Movable, StaticMesh = PlayerMarkerMesh s,
                             Material = (if FString_eq (FPlayerData.Status Player) ''active''
                                         then ActivePlayerMaterial s
                                         else InactivePlayerMaterial s),
                             Tags = [FPlayerData.Id Player], bPendingKill = False \<rparr>) NewPlayers \<and>
          snd ` set (PlayerMarkers s') \<inter>
            (snd ` set (PlayerMarkers s) \<union> Destroyed (World s')) = {})"
  proof (intro allI impI)
    fix s'
    assume r: "UpdatePlayers NewPlayers s = Inr s'"
    note u = UpdatePlayers_Inr [OF r]
    let ?mk = "\<lambda>Player. \<lparr> Location = LatLongToWorldLocation (FPlayerData.Coordinates Player),
                          Mobility = Movable, StaticMesh = PlayerMarkerMesh s,
                          Material = (if FString_eq (FPlayerData.Status Player) ''active''
                                      then ActivePlayerMaterial s else InactivePlayerMaterial s),
                          Tags = [FPlayerData.Id Player], bPendingKill = False \<rparr>"
    have "snd ` set (PlayerMarkers s') \<inter> (snd ` set (PlayerMarkers s) \<union> Destroyed (World s')) = {}"
      if "PlayerMarkers s' =
            zip (map FPlayerData.Id NewPlayers)
                [NextActor (World s) ..< NextActor (World s) + length NewPlayers]"
        and "drop (NextActor (World s)) (ActorList (World s')) = map ?mk NewPlayers"
      using that u by (intro new_markers_fresh [where mk = ?mk and xs = NewPlayers]) auto
    with u show "snd ` set (PlayerMarkers s) \<subseteq> Destroyed (World s') \<and>
       Players s' = NewPlayers \<and>
       TMap_Keys (PlayerMarkers s') \<subseteq> FPlayerData.Id ` set NewPlayers \<and>
       (PlayerMarkerMesh s \<noteq> None \<and> (\<forall>n. CanSpawn (World s) n) \<and>
        distinct (map (\<lambda>Player. ToLower (FPlayerData.Id Player)) NewPlayers) \<longrightarrow>
          PlayerMarkers s' =
            zip (map FPlayerData.Id NewPlayers)
                [NextActor (World s) ..< NextActor (World s) + length NewPlayers] \<and>
          TMap_Keys (PlayerMarkers s') = FPlayerData.Id ` set NewPlayers \<and>
          drop (NextActor (World s)) (ActorList (World s')) = map ?mk NewPlayers \<and>
          snd ` set (PlayerMarkers s') \<inter>
            (snd ` set (PlayerMarkers s) \<union> Destroyed (World s')) = {})"
      by (simp add: TMap_Keys_zip)
  qed
next
  show "\<forall>s'. UpdateEvents uninit NewEvents s = Inr s' \<longrightarrow>
       snd ` set (EventMarkers s) \<subseteq> Destroyed (World s') \<and>
       Events s' = NewEvents \<and>
       TMap_Keys (EventMarkers s') \<subseteq> FEventData.Id ` set NewEvents \<and>
       (EventMarkerMesh s \<noteq> None \<and> (\<forall>n. CanSpawn (World s) n) \<and>
        distinct (map (\<lambda>Event. ToLower (FEventData.Id Event)) NewEvents) \<longrightarrow>
          EventMarkers s' =
            zip (map FEventData.Id NewEvents)
                [NextActor (World s) ..< NextActor (World s) + length NewEvents] \<and>
          TMap_Keys (EventMarkers s') = FEventData.Id ` set NewEvents \<and>
          drop (NextActor (World s)) (ActorList (World s')) =
            map (\<lambda>(i, Event). \<lparr> Location = EventMarkerLocation (uninit i) Event (Venues s),
                                 Mobility = Movable, StaticMesh = EventMarkerMesh s,
                                 Material = (if FString_eq (FEventData.Status Event) ''active''
                                             then LiveEventMaterial s
                                             else UpcomingEventMaterial s),
                                 Tags = [FEventData.Id Event], bPendingKill = False \<rparr>)
                (enumerate 0 NewEvents) \<and>
          snd ` set (EventMarkers s') \<inter>
            (snd ` set (EventMarkers s) \<union> Destroyed (World s')) = {})"
  proof (intro allI impI)
    fix s'
    assume r: "UpdateEvents uninit NewEvents s = Inr s'"
    note u = UpdateEvents_Inr [OF r]
    let ?mk = "\<lambda>(i, Event). \<lparr> Location = EventMarkerLocation (uninit i) Event (Venues s),
                              Mobility = Movable, StaticMesh = EventMarkerMesh s,
                              Material = (if FString_eq (FEventData.Status Event) ''active''
                                          then LiveEventMaterial s else UpcomingEventMaterial s),
                              Tags = [FEventData.Id Event], bPendingKill = False \<rparr>"
    have "snd ` set (EventMarkers s') \<inter> (snd ` set (EventMarkers s) \<union> Destroyed (World s')) = {}"
      if "EventMarkers s' =
            zip (map FEventData.Id NewEvents)
                [NextActor (World s) ..< NextActor (World s) + length NewEvents]"
        and "drop (NextActor (World s)) (ActorList (World s')) = map ?mk (enumerate 0 NewEvents)"
      using that u
      by (intro new_markers_fresh [where mk = ?mk and xs = "enumerate 0 NewEvents"])
         (auto split: prod.split)
    with u show "snd ` set (EventMarkers s) \<subseteq> Destroyed (World s') \<and>
       Events s' = NewEvents \<and>
       TMap_Keys (EventMarkers s') \<subseteq> FEventData.Id ` set NewEvents \<and>
       (EventMarkerMesh s \<noteq> None \<and> (\<forall>n. CanSpawn (World s) n) \<and>
        distinct (map (\<lambda>Event. ToLower (FEventData.Id Event)) NewEvents) \<longrightarrow>
          EventMarkers s' =
            zip (map FEventData.Id NewEvents)
                [NextActor (World s) ..< NextActor (World s) + length NewEvents] \<and>
          TMap_Keys (EventMarkers s') = FEventData.Id ` set NewEvents \<and>
          drop (NextActor (World s)) (ActorList (World s')) = map ?mk (enumerate 0 NewEvents) \<and>
          snd ` set (EventMarkers s') \<inter>
            (snd ` set (EventMarkers s) \<union> Destroyed (World s')) = {})"
      by (simp add: TMap_Keys_zip)
  qed
qed

lemma demo_facts:
  "DefaultVenueMarker demo_map = Some 10" "PlayerMarkerMesh demo_map = Some 11"
  "EventMarkerMesh demo_map = Some 12" "CanSpawn (World demo_map) = (\<lambda>_. True)"
  "NextActor (World demo_map) = 3"
  "VenueMarkers demo_map = [(''vA'', 0)]" "PlayerMarkers demo_map = [(''p0'', 1)]"
  "EventMarkers demo_map = [(''e0'', 2)]"
  by (simp_all add: demo_map_def AMapView_ctor_def demo_world_def NextActor_def)

lemma ToLower_simps [simp]:
  "ToLower [] = []" "ToLower (c # cs) = ToLower_char c # ToLower cs"
  by (simp_all add: ToLower_def)

text \<open>The three updates on the concrete map, each with two new elements.\<close>

theorem marker_lifecycle_full_replacement_witness:
  "map_option VenueMarkers
     (returned (UpdateVenues [demo_venue ''vB'' 1, demo_venue ''vC'' 2] demo_map)) =
     Some [(''vB'', 3), (''vC'', 4)] \<and>
   map_option PlayerMarkers
     (returned (UpdatePlayers [demo_player ''p1'', demo_player ''p2''] demo_map)) =
     Some [(''p1'', 3), (''p2'', 4)] \<and>
   map_option EventMarkers
     (returned (UpdateEvents stack_one [demo_event ''e1'' ''vA'', demo_event ''e2'' ''vZ'']
                  demo_map)) =
     Some [(''e1'', 3), (''e2'', 4)]"
proof -
  note t = marker_lifecycle_full_replacement [of demo_map
          "[demo_venue ''vB'' 1, demo_venue ''vC'' 2]"
          "[demo_player ''p1'', demo_player ''p2'']"
          stack_one "[demo_event ''e1'' ''vA'', demo_event ''e2'' ''vZ'']"]
  from t obtain v where v: "UpdateVenues [demo_venue ''vB'' 1, demo_venue ''vC'' 2] demo_map = Inr v"
    by (auto simp add: demo_facts)
  from t obtain p where p: "UpdatePlayers [demo_player ''p1'', demo_player ''p2''] demo_map = Inr p"
    by (auto simp add: demo_facts)
  from t obtain e where e: "UpdateEvents stack_one [demo_event ''e1'' ''vA'', demo_event ''e2'' ''vZ''] demo_map = Inr e"
    by (auto simp add: demo_facts)
  from t v have "VenueMarkers v = [(''vB'', 3), (''vC'', 4)]"
    by (simp add: demo_facts demo_venue_def ToLower_char_def upt_rec)
  moreover from t p have "PlayerMarkers p = [(''p1'', 3), (''p2'', 4)]"
    by (simp add: demo_facts demo_player_def ToLower_char_def upt_rec)
  moreover from t e have "EventMarkers e = [(''e1'', 3), (''e2'', 4)]"
    by (simp add: demo_facts demo_event_def ToLower_char_def upt_rec)
  ultimately show ?thesis by (simp add: v p e returned_def)
qed

text \<open>
  Pairwise distinct \<^verbatim>\<open>Id\<close>s are not enough: \<^verbatim>\<open>vB\<close> and \<^verbatim>\<open>VB\<close> are distinct strings and one
  key.  With the mesh set and both spawns succeeding the second \<^verbatim>\<open>Add\<close> replaces the pair
  of the first: the map ends with one marker, and the actor spawned for \<^verbatim>\<open>vB\<close> is in the
  world with no entry in the map.
\<close>

theorem marker_lifecycle_ids_differing_in_case:
  "distinct (map FVenueData.Id case_venues) \<and>
   DefaultVenueMarker demo_map \<noteq> None \<and>
   CanSpawn (World demo_map) 3 \<and> CanSpawn (World demo_map) 4 \<and>
   map_option VenueMarkers (returned (UpdateVenues case_venues demo_map)) = Some [(''VB'', 4)] \<and>
   TMap_Keys [(''VB'', 4 :: nat)] \<noteq> FVenueData.Id ` set case_venues"
  by (simp add: case_venues_def demo_venue_def demo_map_def AMapView_ctor_def demo_world_def
        UpdateVenues_def DestroyMarkers_def Destroy_def call_actor_def Actors_def
        SpawnVenueMarkers_def SpawnVenueMarker_def SpawnActor_def NextActor_def
        SetStaticMesh_def SetMobility_def ApplyMaterial_def AddTag_def modify_actor_def
        FString_eq_def ToLower_char_def TMap_Keys_def returned_def Let_def)
subsection \<open>Moving one player\<close>

lemma UpdatePlayerLocation_loop_no_match:
  "\<forall>p \<in> set ps. \<not> FString_eq (FPlayerData.Id p) pid \<Longrightarrow>
   UpdatePlayerLocation_loop pid loc before ps s = Inr s"
  by (induction ps arbitrary: before) simp_all

lemma UpdatePlayerLocation_loop_match:
  assumes "\<forall>q \<in> set pre. \<not> FString_eq (FPlayerData.Id q) pid"
      and "FString_eq (FPlayerData.Id p) pid"
  shows "UpdatePlayerLocation_loop pid loc before (pre @ p # post) s =
           (case FindRef (PlayerMarkers s) pid of
              None \<Rightarrow>
                Inr (s\<lparr> Players := before @ pre @ p\<lparr> FPlayerData.Coordinates := loc \<rparr> # post \<rparr>)
            | Some Marker \<Rightarrow>
                (case SetActorLocation Marker (LatLongToWorldLocation loc) (World s) of
                   Inl e \<Rightarrow> Inl e
                 | Inr w \<Rightarrow>
                     Inr (s\<lparr> Players := before @ pre @ p\<lparr> FPlayerData.Coordinates := loc \<rparr> # post,
                            World := w \<rparr>)))"
  using assms
  by (induction pre arbitrary: before) (simp_all add: Let_def split: option.split sum.split)

lemma SetActorLocation_Inr:
  "a < NextActor w \<Longrightarrow>
   SetActorLocation a loc w =
     Inr (w\<lparr> ActorList := (ActorList w)[a := (ActorList w ! a)\<lparr> Location := loc \<rparr>] \<rparr>)"
  by (simp add: SetActorLocation_def call_actor_def Actors_def NextActor_def)

lemma SetActorLocation_Inl:
  "\<not> a < NextActor w \<Longrightarrow> SetActorLocation a loc w = Inl WildPointer"
  by (simp add: SetActorLocation_def call_actor_def Actors_def NextActor_def)

lemma UpdatePlayerLocation_match:
  assumes "Players s = pre @ p # post"
      and "\<forall>q \<in> set pre. \<not> FString_eq (FPlayerData.Id q) pid"
      and "FString_eq (FPlayerData.Id p) pid"
  shows "UpdatePlayerLocation pid loc s =
           (case FindRef (PlayerMarkers s) pid of
              None \<Rightarrow> Inr (s\<lparr> Players := pre @ p\<lparr> FPlayerData.Coordinates := loc \<rparr> # post \<rparr>)
            | Some Marker \<Rightarrow>
                (if Marker < NextActor (World s)
                 then Inr (s\<lparr> Players := pre @ p\<lparr> FPlayerData.Coordinates := loc \<rparr> # post,
                             World := (World s)\<lparr> ActorList := (ActorList (World s))
                               [Marker := (ActorList (World s) ! Marker)
                                            \<lparr> Location := LatLongToWorldLocation loc \<rparr>] \<rparr> \<rparr>)
                 else Inl WildPointer))"
  using UpdatePlayerLocation_loop_match [OF assms(2,3), of loc "[]" post s]
  by (simp add: UpdatePlayerLocation_def assms(1) SetActorLocation_Inr SetActorLocation_Inl
        split: option.splits)

text \<open>
  C5.  \<^verbatim>\<open>UpdatePlayerLocation(PlayerId, NewLocation)\<close>, with \<^verbatim>\<open>Id\<close>s compared as
  \<^verbatim>\<open>Player.Id == PlayerId\<close> compares them: ignoring case.  When no stored player has the
  \<^verbatim>\<open>Id\<close>, the call returns and the whole state is what it was.  Otherwise let \<open>p\<close> be the
  first stored player with that \<^verbatim>\<open>Id\<close>.  The call returns exactly when the marker stored
  for the \<^verbatim>\<open>Id\<close>, if there is one, is an actor of the world.  When it returns, the state
  after the call differs from the state before in the \<^verbatim>\<open>Coordinates\<close> of \<open>p\<close> and in the
  actors of the world at most (so venues, events, highlights, every marker map and every
  other player are untouched); the world has the actors it had; an actor that is not the
  marker stored for that \<^verbatim>\<open>Id\<close> is unchanged; the marker stored for it has the new world
  location and is otherwise unchanged.
\<close>

theorem UpdatePlayerLocation_frame:
  "((\<forall>p \<in> set (Players s). \<not> FString_eq (FPlayerData.Id p) pid) \<longrightarrow>
      UpdatePlayerLocation pid loc s = Inr s) \<and>
   (Players s = pre @ p # post \<and> (\<forall>q \<in> set pre. \<not> FString_eq (FPlayerData.Id q) pid) \<and>
    FString_eq (FPlayerData.Id p) pid \<longrightarrow>
      ((\<exists>s'. UpdatePlayerLocation pid loc s = Inr s') \<longleftrightarrow>
         (\<forall>a. FindRef (PlayerMarkers s) pid = Some a \<longrightarrow> a < NextActor (World s))) \<and>
      (\<forall>s'. UpdatePlayerLocation pid loc s = Inr s' \<longrightarrow>
         s' = s\<lparr> Players := pre @ p\<lparr> FPlayerData.Coordinates := loc \<rparr> # post,
                 World := (World s)\<lparr> ActorList := ActorList (World s') \<rparr> \<rparr> \<and>
         NextActor (World s') = NextActor (World s) \<and>
         (\<forall>a. FindRef (PlayerMarkers s) pid \<noteq> Some a \<longrightarrow>
              Actors (World s') a = Actors (World s) a) \<and>
         (\<forall>a. FindRef (PlayerMarkers s) pid = Some a \<longrightarrow>
              Actors (World s') a =
                map_option (\<lambda>act. act\<lparr> Location := LatLongToWorldLocation loc \<rparr>)
                  (Actors (World s) a))))"
proof (intro conjI impI)
  assume "\<forall>p \<in> set (Players s). \<not> FString_eq (FPlayerData.Id p) pid"
  then show "UpdatePlayerLocation pid loc s = Inr s"
    by (simp add: UpdatePlayerLocation_def UpdatePlayerLocation_loop_no_match)
next
  assume h: "Players s = pre @ p # post \<and>
             (\<forall>q \<in> set pre. \<not> FString_eq (FPlayerData.Id q) pid) \<and>
             FString_eq (FPlayerData.Id p) pid"
  then have eq: "UpdatePlayerLocation pid loc s =
           (case FindRef (PlayerMarkers s) pid of
              None \<Rightarrow> Inr (s\<lparr> Players := pre @ p\<lparr> FPlayerData.Coordinates := loc \<rparr> # post \<rparr>)
            | Some Marker \<Rightarrow>
                (if Marker < NextActor (World s)
                 then Inr (s\<lparr> Players := pre @ p\<lparr> FPlayerData.Coordinates := loc \<rparr> # post,
                             World := (World s)\<lparr> ActorList := (ActorList (World s))
                               [Marker := (ActorList (World s) ! Marker)
                                            \<lparr> Location := LatLongToWorldLocation loc \<rparr>] \<rparr> \<rparr>)
                 else Inl WildPointer))"
    by (intro UpdatePlayerLocation_match) simp_all
  show "(\<exists>s'. UpdatePlayerLocation pid loc s = Inr s') \<longleftrightarrow>
         (\<forall>a. FindRef (PlayerMarkers s) pid = Some a \<longrightarrow> a < NextActor (World s))"
    by (cases "FindRef (PlayerMarkers s) pid") (simp_all add: eq)
  show "\<forall>s'. UpdatePlayerLocation pid loc s = Inr s' \<longrightarrow>
         s' = s\<lparr> Players := pre @ p\<lparr> FPlayerData.Coordinates := loc \<rparr> # post,
                 World := (World s)\<lparr> ActorList := ActorList (World s') \<rparr> \<rparr> \<and>
         NextActor (World s') = NextActor (World s) \<and>
         (\<forall>a. FindRef (PlayerMarkers s) pid \<noteq> Some a \<longrightarrow>
              Actors (World s') a = Actors (World s) a) \<and>
         (\<forall>a. FindRef (PlayerMarkers s) pid = Some a \<longrightarrow>
              Actors (World s') a =
                map_option (\<lambda>act. act\<lparr> Location := LatLongToWorldLocation loc \<rparr>)
                  (Actors (World s) a))"
  proof (cases "FindRef (PlayerMarkers s) pid")
    case None
    then show ?thesis by (auto simp add: eq)
  next
    case (Some m)
    show ?thesis
    proof (cases "m < NextActor (World s)")
      case True
      with Some show ?thesis
        by (auto simp add: eq Actors_def NextActor_def nth_list_update)
    next
      case False
      with Some show ?thesis by (simp add: eq)
    qed
  qed
qed

lemma demo_players:
  "Players demo_map = [] @ demo_player ''p0'' # []" "World demo_map = demo_world"
  by (simp_all add: demo_map_def AMapView_ctor_def)

text \<open>On the concrete map: an \<^verbatim>\<open>Id\<close> nobody has, and the \<^verbatim>\<open>Id\<close> of the stored player in capitals.\<close>

theorem UpdatePlayerLocation_frame_witness:
  "UpdatePlayerLocation ''nobody'' far_east demo_map = Inr demo_map \<and>
   (\<exists>s'. UpdatePlayerLocation ''P0'' far_east demo_map = Inr s' \<and>
         Players s' = [(demo_player ''p0'')\<lparr> FPlayerData.Coordinates := far_east \<rparr>] \<and>
         Actors (World s') 0 = Actors demo_world 0 \<and>
         map_option Location (Actors (World s') 1) = Some \<lparr> FVector.X = 500, Y = 0, Z = 0 \<rparr>)"
proof -
  have none: "\<forall>p \<in> set (Players demo_map). \<not> FString_eq (FPlayerData.Id p) ''nobody''"
    by (simp add: demo_players demo_player_def FString_eq_def)
  have first: "Players demo_map = [] @ demo_player ''p0'' # [] \<and>
               (\<forall>q \<in> set []. \<not> FString_eq (FPlayerData.Id q) ''P0'') \<and>
               FString_eq (FPlayerData.Id (demo_player ''p0'')) ''P0''"
    by (simp add: demo_players demo_player_def FString_eq_def ToLower_char_def)
  have marker: "FindRef (PlayerMarkers demo_map) ''P0'' = Some 1"
    by (simp add: demo_facts FString_eq_def ToLower_char_def)
  from UpdatePlayerLocation_frame [of demo_map "''nobody''" far_east "[]" "demo_player ''p0''" "[]"] none
  have unchanged: "UpdatePlayerLocation ''nobody'' far_east demo_map = Inr demo_map"
    by blast
  note t = UpdatePlayerLocation_frame [of demo_map "''P0''" far_east "[]" "demo_player ''p0''" "[]"]
  from t first marker obtain s' where r: "UpdatePlayerLocation ''P0'' far_east demo_map = Inr s'"
    by (auto simp add: demo_facts)
  from t first r
  have eq: "s' = demo_map\<lparr> Players := [] @ (demo_player ''p0'')\<lparr> FPlayerData.Coordinates := far_east \<rparr> # [],
                           World := (World demo_map)\<lparr> ActorList := ActorList (World s') \<rparr> \<rparr>"
    and others: "\<forall>a. FindRef (PlayerMarkers demo_map) ''P0'' \<noteq> Some a \<longrightarrow>
                   Actors (World s') a = Actors (World demo_map) a"
    and moved: "\<forall>a. FindRef (PlayerMarkers demo_map) ''P0'' = Some a \<longrightarrow>
                  Actors (World s') a =
                    map_option (\<lambda>act. act\<lparr> Location := LatLongToWorldLocation far_east \<rparr>)
                      (Actors (World demo_map) a)"
    by blast+
  have players: "Players s' = [(demo_player ''p0'')\<lparr> FPlayerData.Coordinates := far_east \<rparr>]"
    by (subst eq) simp
  have zero: "Actors (World s') 0 = Actors demo_world 0"
    using others marker by (simp add: demo_players)
  have one: "map_option Location (Actors (World s') 1) = Some \<lparr> FVector.X = 500, Y = 0, Z = 0 \<rparr>"
    using moved marker
    by (simp add: demo_players demo_world_def Actors_def far_east_def
          LatLongToWorldLocation_def DegreesToRadians_def tan_45)
  from unchanged r players zero one show ?thesis by blast
qed

text \<open>
  With \<^verbatim>\<open>Id\<close>s compared letter by letter the frame fails: no stored player has the \<^verbatim>\<open>Id\<close>
  \<^verbatim>\<open>P0\<close>, and the call with \<^verbatim>\<open>P0\<close> moves the stored player \<^verbatim>\<open>p0\<close>.
\<close>

theorem UpdatePlayerLocation_id_differing_in_case:
  "''P0'' \<notin> FPlayerData.Id ` set (Players demo_map) \<and>
   UpdatePlayerLocation ''P0'' far_east demo_map \<noteq> Inr demo_map \<and>
   map_option Players (returned (UpdatePlayerLocation ''P0'' far_east demo_map)) =
     Some [(demo_player ''p0'')\<lparr> FPlayerData.Coordinates := far_east \<rparr>]"
  by (simp add: demo_map_def AMapView_ctor_def demo_world_def demo_player_def far_east_def
        UpdatePlayerLocation_def SetActorLocation_def call_actor_def Actors_def
        FString_eq_def ToLower_char_def returned_def Let_def)
subsection \<open>Where an event marker is placed\<close>

lemma EventMarkerLocation_matched:
  assumes "\<forall>q \<in> set pre. \<not> FString_eq (FVenueData.Id q) (FEventData.VenueId Event)"
      and "FString_eq (FVenueData.Id v) (FEventData.VenueId Event)"
  shows "EventMarkerLocation uninit0 Event (pre @ v # post) =
           (LatLongToWorldLocation (FVenueData.Coordinates v))\<lparr> Z := 100 \<rparr>"
  using assms
  by (induction pre) (simp_all add: EventMarkerLocation_def LatLongToWorldLocation_def Let_def)

lemma EventMarkerLocation_unmatched:
  assumes "\<forall>q \<in> set vs. \<not> FString_eq (FVenueData.Id q) (FEventData.VenueId Event)"
  shows "EventMarkerLocation uninit0 Event vs = (LatLongToWorldLocation uninit0)\<lparr> Z := 100 \<rparr>"
  using assms
  by (induction vs) (simp_all add: EventMarkerLocation_def LatLongToWorldLocation_def Let_def)

text \<open>
  C4, at an event whose \<^verbatim>\<open>VenueId\<close> matches no stored venue.  The map holds the venue
  \<open>vA\<close> and the event \<open>e2\<close> at venue \<open>vZ\<close>.  \<^verbatim>\<open>SpawnEventMarkers\<close> spawns the marker of
  \<open>e2\<close> (actor 3) at the projection of whatever \<^verbatim>\<open>VenueCoords\<close> held when it was declared:
  at \<open>(100, 0, 100)\<close> when the stack held \<open>(1, 0)\<close> and at \<open>(200, 0, 100)\<close> when it held
  \<open>(2, 0)\<close>.  The placement is not determined by the stored venues and events.
\<close>

theorem SpawnEventMarkers_unmatched_venue:
  "map_option Location
     (Actors (World (SpawnEventMarkers stack_one
                       (demo_map\<lparr> Events := [demo_event ''e2'' ''vZ''] \<rparr>))) 3) =
     Some \<lparr> FVector.X = 100, Y = 0, Z = 100 \<rparr> \<and>
   map_option Location
     (Actors (World (SpawnEventMarkers stack_two
                       (demo_map\<lparr> Events := [demo_event ''e2'' ''vZ''] \<rparr>))) 3) =
     Some \<lparr> FVector.X = 200, Y = 0, Z = 100 \<rparr>"
  by (simp add: SpawnEventMarkers_def SpawnEventMarker_def EventMarkerLocation_def
        LatLongToWorldLocation_def DegreesToRadians_def tan_45 stack_one_def stack_two_def
        demo_map_def AMapView_ctor_def demo_world_def demo_event_def demo_venue_def
        SpawnActor_def SetMobility_def SetStaticMesh_def ApplyMaterial_def AddTag_def AddTooltip_def
        modify_actor_def Actors_def NextActor_def StartPulseAnimation_def FString_eq_def
        ToLower_char_def nth_append Let_def)

section \<open>Properties of the coaching flow\<close>

lemma emit_fields [simp]:
  "MessageHistory (emit e s) = MessageHistory s"
  "CurrentState (emit e s) = CurrentState s"
  "UCoachingFlowWidget.MediaPlayer (emit e s) = UCoachingFlowWidget.MediaPlayer s"
  "ImageDisplay (emit e s) = ImageDisplay s"
  "MessageScrollBox (emit e s) = MessageScrollBox s"
  "Effects (emit e s) = Effects s @ [e]"
  by (simp_all add: emit_def)

lemma flow_broadcasts_append [simp]:
  "flow_broadcasts (xs @ ys) = flow_broadcasts xs @ flow_broadcasts ys"
  by (induction xs rule: flow_broadcasts.induct) simp_all






lemma UpdateFlowState_fields [simp]:
  "CurrentState (UpdateFlowState st s) = st"
  "MessageHistory (UpdateFlowState st s) = MessageHistory s"
  "UCoachingFlowWidget.MediaPlayer (UpdateFlowState st s) = UCoachingFlowWidget.MediaPlayer s"
  "ImageDisplay (UpdateFlowState st s) = ImageDisplay s"
  "Effects (UpdateFlowState st s) = Effects s @ [OnFlowStateChanged_Broadcast st]"
  by (simp_all add: UpdateFlowState_def)

lemma SaveConversationState_fields [simp]:
  "CurrentState (SaveConversationState s) = CurrentState s"
  "MessageHistory (SaveConversationState s) = MessageHistory s"
  "flow_broadcasts (Effects (SaveConversationState s)) = flow_broadcasts (Effects s)"
  by (simp_all add: SaveConversationState_def)

text \<open>
  C2.  Whatever the state and the message history were, \<^verbatim>\<open>StartCoachingFlow\<close> returns,
  and afterwards the history is exactly one message, the welcome of Coach AI with
  \<^verbatim>\<open>bIsCoach\<close> set and an empty \<^verbatim>\<open>MediaURL\<close>, and the state is \<^verbatim>\<open>PerformanceReview\<close>, not
  the \<^verbatim>\<open>Initial\<close> assigned on the way.
\<close>

theorem StartCoachingFlow_resets:
  "\<exists>s' m. StartCoachingFlow now s = Inr s' \<and>
          MessageHistory s' = [m] \<and>
          SenderName m = ''Coach AI'' \<and> bIsCoach m \<and> MediaURL m = [] \<and>
          MessageText m = ''Welcome to your personalized coaching session! Let's start by reviewing your recent performance. How have your last few games been?'' \<and>
          CurrentState s' = PerformanceReview"
  by (simp add: StartCoachingFlow_def AddMessageToUI_def FCoachingMessage_ctor_def Let_def)






section \<open>Properties of voice input\<close>

lemma vemit_fields [simp]:
  "bIsRecording (vemit e s) = bIsRecording s"
  "AudioBuffer (vemit e s) = AudioBuffer s"
  "CaptureComponent (vemit e s) = CaptureComponent s"
  "AudioComponent (vemit e s) = AudioComponent s"
  "WebSocket (vemit e s) = WebSocket s"
  by (simp_all add: vemit_def)

lemma InitializeWebSocket_Inr:
  "InitializeWebSocket cfg s = Inr s1 \<Longrightarrow>
     CaptureComponent s1 = CaptureComponent s \<and> AudioComponent s1 = AudioComponent s"
  by (auto simp: InitializeWebSocket_def CleanupWebSocket_def Let_def
           split: option.splits if_splits)

lemma InitializeWebSocket_returns:
  "cfg \<noteq> None \<Longrightarrow> \<exists>s1. InitializeWebSocket cfg s = Inr s1"
  by (auto simp: InitializeWebSocket_def Let_def split: option.splits)

lemma StartRecording_started:
  assumes "\<not> bIsRecording s" and "ValidateAudioSetup s" and "StartRecording cfg s = Inr s'"
  shows "bIsRecording s' \<and> AudioBuffer s' = []"
proof -
  from assms(2) obtain c where c: "CaptureComponent s = Some c"
    by (cases "CaptureComponent s") (simp_all add: ValidateAudioSetup_def)
  from assms obtain s1 where i: "InitializeWebSocket cfg s = Inr s1"
    by (auto simp: StartRecording_def split: sum.splits)
  from InitializeWebSocket_Inr [OF i] c have "CaptureComponent s1 = Some c" by simp
  with assms i show ?thesis
    by (auto simp: StartRecording_def Let_def)
qed

lemma StartRecording_returns:
  assumes "cfg \<noteq> None"
  shows "\<exists>s'. StartRecording cfg s = Inr s'"
proof -
  from InitializeWebSocket_returns [OF assms] obtain s1 where "InitializeWebSocket cfg s = Inr s1"
    by blast
  then show ?thesis
    by (auto simp: StartRecording_def Let_def split: option.splits)
qed

text \<open>
  C6.  Starting and stopping the capture is guarded.  \<^verbatim>\<open>StartRecording\<close> while recording
  returns the state as it was.  \<^verbatim>\<open>StartRecording\<close> when the audio setup does not validate
  broadcasts \<^verbatim>\<open>OnVoiceInputError\<close> and changes nothing else, so \<^verbatim>\<open>bIsRecording\<close> is still
  false.  \<^verbatim>\<open>StopRecording\<close> while not recording returns the state as it was.  And a
  \<^verbatim>\<open>StartRecording\<close> that passes validation with a capture component present returns
  whenever \<^verbatim>\<open>GConfig\<close> is set, and whenever it returns \<^verbatim>\<open>bIsRecording\<close> is true and the
  audio buffer is empty.
\<close>

theorem recording_guarded:
  "(bIsRecording s \<longrightarrow> StartRecording cfg s = Inr s) \<and>
   (\<not> bIsRecording s \<and> \<not> ValidateAudioSetup s \<longrightarrow>
      StartRecording cfg s =
        Inr (s\<lparr> VoiceEffects := VoiceEffects s @
                   [OnVoiceInputError_Broadcast ''Failed to initialize audio capture''] \<rparr>)) \<and>
   (\<not> bIsRecording s \<longrightarrow> StopRecording s = s) \<and>
   (\<not> bIsRecording s \<and> ValidateAudioSetup s \<and> CaptureComponent s \<noteq> None \<longrightarrow>
      (cfg \<noteq> None \<longrightarrow> (\<exists>s'. StartRecording cfg s = Inr s')) \<and>
      (\<forall>s'. StartRecording cfg s = Inr s' \<longrightarrow> bIsRecording s' \<and> AudioBuffer s' = []))"
proof (intro conjI impI allI)
  assume "bIsRecording s"
  then show "StartRecording cfg s = Inr s" by (simp add: StartRecording_def)
next
  assume "\<not> bIsRecording s \<and> \<not> ValidateAudioSetup s"
  then show "StartRecording cfg s =
        Inr (s\<lparr> VoiceEffects := VoiceEffects s @
                   [OnVoiceInputError_Broadcast ''Failed to initialize audio capture''] \<rparr>)"
    by (simp add: StartRecording_def vemit_def)
next
  assume "\<not> bIsRecording s"
  then show "StopRecording s = s" by (simp add: StopRecording_def)
next
  assume "cfg \<noteq> None"
  then show "\<exists>s'. StartRecording cfg s = Inr s'" by (rule StartRecording_returns)
next
  fix s'
  assume "\<not> bIsRecording s \<and> ValidateAudioSetup s \<and> CaptureComponent s \<noteq> None"
    and "StartRecording cfg s = Inr s'"
  then show "bIsRecording s'" "AudioBuffer s' = []"
    using StartRecording_started [of s cfg s'] by simp_all
qed

lemma voice_ready_facts:
  "\<not> bIsRecording voice_ready" "ValidateAudioSetup voice_ready"
  "CaptureComponent voice_ready \<noteq> None" "\<not> bIsRecording UVoiceInputManager_ctor"
  "\<not> ValidateAudioSetup UVoiceInputManager_ctor"
  by (simp_all add: voice_ready_def InitializeAudioCapture_def UVoiceInputManager_ctor_def
        ValidateAudioSetup_def Let_def)

theorem recording_guarded_witness:
  "(\<exists>s'. StartRecording (Some []) voice_ready = Inr s' \<and> bIsRecording s' \<and> AudioBuffer s' = [] \<and>
         StartRecording (Some []) s' = Inr s') \<and>
   StartRecording None UVoiceInputManager_ctor =
     Inr (UVoiceInputManager_ctor
            \<lparr> VoiceEffects := [OnVoiceInputError_Broadcast ''Failed to initialize audio capture''] \<rparr>) \<and>
   StopRecording voice_ready = voice_ready"
proof -
  from recording_guarded [of voice_ready "Some []"] voice_ready_facts
  obtain s' where r: "StartRecording (Some []) voice_ready = Inr s'"
      and h: "bIsRecording s'" "AudioBuffer s' = []" and stop: "StopRecording voice_ready = voice_ready"
    by auto
  from recording_guarded [of s' "Some []"] h(1)
  have again: "StartRecording (Some []) s' = Inr s'" by blast
  from recording_guarded [of UVoiceInputManager_ctor None] voice_ready_facts
  have err: "StartRecording None UVoiceInputManager_ctor =
     Inr (UVoiceInputManager_ctor
            \<lparr> VoiceEffects := [OnVoiceInputError_Broadcast ''Failed to initialize audio capture''] \<rparr>)"
    by (simp add: UVoiceInputManager_ctor_def)
  from r h again err stop show ?thesis by blast
qed

section \<open>Properties of media playback\<close>

lemma memit_fields [simp]:
  "bIsPlaying (memit e s) = bIsPlaying s"
  "bIsMuted (memit e s) = bIsMuted s"
  "UMediaPlayerWidget.MediaPlayer (memit e s) = UMediaPlayerWidget.MediaPlayer s"
  "SoundComponent (memit e s) = SoundComponent s"
  by (simp_all add: memit_def)

lemma UpdateButton_fields [simp]:
  "bIsPlaying (UpdatePlayPauseButton s) = bIsPlaying s"
  "UMediaPlayerWidget.MediaPlayer (UpdatePlayPauseButton s) = UMediaPlayerWidget.MediaPlayer s"
  "bIsMuted (UpdateMuteButton s) = bIsMuted s"
  "SoundComponent (UpdateMuteButton s) = SoundComponent s"
  by (simp_all add: UpdatePlayPauseButton_def UpdateMuteButton_def)

lemma TogglePlayPause_fields:
  "UMediaPlayerWidget.MediaPlayer (TogglePlayPause s) = UMediaPlayerWidget.MediaPlayer s"
  "UMediaPlayerWidget.MediaPlayer s \<noteq> None \<Longrightarrow> bIsPlaying (TogglePlayPause s) = (\<not> bIsPlaying s)"
  by (simp_all add: TogglePlayPause_def Play_def Pause_def)

lemma ToggleMute_fields:
  "SoundComponent s = Some c \<Longrightarrow>
     bIsMuted (ToggleMute s) = (\<not> bIsMuted s) \<and>
     SoundComponent (ToggleMute s) = Some (c\<lparr> VolumeMultiplier := (if bIsMuted s then 1 else 0) \<rparr>)"
  by (simp add: ToggleMute_def Let_def)

text \<open>
  C7.  With the media player object created, \<^verbatim>\<open>TogglePlayPause\<close> flips \<^verbatim>\<open>bIsPlaying\<close> and
  two calls restore it.  With the sound component set, \<^verbatim>\<open>ToggleMute\<close> flips \<^verbatim>\<open>bIsMuted\<close>
  and sets the volume multiplier to 0 when muted and to 1 when not; two calls restore
  \<^verbatim>\<open>bIsMuted\<close> and leave the multiplier that belongs to it, which is the original
  multiplier when that was 1 unmuted or 0 muted.
\<close>

theorem toggles_are_involutions:
  "(UMediaPlayerWidget.MediaPlayer s \<noteq> None \<longrightarrow>
      bIsPlaying (TogglePlayPause s) = (\<not> bIsPlaying s) \<and>
      bIsPlaying (TogglePlayPause (TogglePlayPause s)) = bIsPlaying s) \<and>
   (SoundComponent s \<noteq> None \<longrightarrow>
      bIsMuted (ToggleMute s) = (\<not> bIsMuted s) \<and>
      map_option VolumeMultiplier (SoundComponent (ToggleMute s)) =
        Some (if bIsMuted (ToggleMute s) then 0 else 1) \<and>
      bIsMuted (ToggleMute (ToggleMute s)) = bIsMuted s \<and>
      map_option VolumeMultiplier (SoundComponent (ToggleMute (ToggleMute s))) =
        Some (if bIsMuted s then 0 else 1) \<and>
      (map_option VolumeMultiplier (SoundComponent s) = Some (if bIsMuted s then 0 else 1) \<longrightarrow>
         SoundComponent (ToggleMute (ToggleMute s)) = SoundComponent s))"
proof (intro conjI impI)
  assume mp: "UMediaPlayerWidget.MediaPlayer s \<noteq> None"
  then show "bIsPlaying (TogglePlayPause s) = (\<not> bIsPlaying s)"
    by (rule TogglePlayPause_fields)
  from mp show "bIsPlaying (TogglePlayPause (TogglePlayPause s)) = bIsPlaying s"
    by (simp add: TogglePlayPause_fields)
next
  assume "SoundComponent s \<noteq> None"
  then obtain c where c: "SoundComponent s = Some c" by blast
  note one = ToggleMute_fields [OF c]
  from one have c1: "SoundComponent (ToggleMute s) =
                       Some (c\<lparr> VolumeMultiplier := (if bIsMuted s then 1 else 0) \<rparr>)" by simp
  note two = ToggleMute_fields [OF c1]
  show "bIsMuted (ToggleMute s) = (\<not> bIsMuted s)" using one by simp
  show "map_option VolumeMultiplier (SoundComponent (ToggleMute s)) =
        Some (if bIsMuted (ToggleMute s) then 0 else 1)" using one by simp
  show "bIsMuted (ToggleMute (ToggleMute s)) = bIsMuted s" using one two by simp
  show "map_option VolumeMultiplier (SoundComponent (ToggleMute (ToggleMute s))) =
        Some (if bIsMuted s then 0 else 1)" using one two by simp
  assume "map_option VolumeMultiplier (SoundComponent s) = Some (if bIsMuted s then 0 else 1)"
  then show "SoundComponent (ToggleMute (ToggleMute s)) = SoundComponent s"
    using one two c by (cases "bIsMuted s") auto
qed

theorem toggles_are_involutions_witness:
  "bIsPlaying (TogglePlayPause media_ready) \<and>
   \<not> bIsPlaying (TogglePlayPause (TogglePlayPause media_ready)) \<and>
   bIsMuted (ToggleMute media_ready) \<and>
   SoundComponent (ToggleMute media_ready) = Some \<lparr> VolumeMultiplier = 0 \<rparr> \<and>
   \<not> bIsMuted (ToggleMute (ToggleMute media_ready)) \<and>
   SoundComponent (ToggleMute (ToggleMute media_ready)) = Some \<lparr> VolumeMultiplier = 1 \<rparr>"
proof -
  have f: "UMediaPlayerWidget.MediaPlayer media_ready = Some 0"
    "SoundComponent media_ready = Some \<lparr> VolumeMultiplier = 1 \<rparr>"
    "\<not> bIsPlaying media_ready" "\<not> bIsMuted media_ready"
    by (simp_all add: media_ready_def InitializeMediaPlayer_def UMediaPlayerWidget_ctor_def Let_def)
  from toggles_are_involutions [of media_ready] f show ?thesis
    by (cases "SoundComponent (ToggleMute media_ready)") auto
qed

section \<open>Properties of the timeline feed\<close>

lemma femit_fields [simp]:
  "FeedEntries (femit e s) = FeedEntries s"
  "MaxEntries (femit e s) = MaxEntries s"
  "FeedScrollBox (femit e s) = FeedScrollBox s"
  "BadgeEntryClass (femit e s) = BadgeEntryClass s"
  "DefaultFeedEntryClass (femit e s) = DefaultFeedEntryClass s"
  by (simp_all add: femit_def)

lemma ScrollToLatest_fields [simp]:
  "FeedEntries (ScrollToLatest s) = FeedEntries s"
  "MaxEntries (ScrollToLatest s) = MaxEntries s"
  "FeedScrollBox (ScrollToLatest s) = FeedScrollBox s"
  by (simp_all add: ScrollToLatest_def)

lemma for_each_RemoveFromParent_at:
  "\<forall>i \<in> set js. i < length (FeedEntries s) \<Longrightarrow>
   \<exists>box. for_each RemoveFromParent_at js s = Inr (s\<lparr> FeedScrollBox := box \<rparr>) \<and>
         (box = None) = (FeedScrollBox s = None)"
proof (induction js arbitrary: s)
  case Nil
  show ?case by (rule exI [of _ "FeedScrollBox s"]) simp
next
  case (Cons j js)
  let ?b1 = "map_option (\<lambda>box. box\<lparr> Children := removeAll (FeedEntries s ! j) (Children box) \<rparr>)
               (FeedScrollBox s)"
  let ?s1 = "s\<lparr> FeedScrollBox := ?b1 \<rparr>"
  from Cons.prems have step: "RemoveFromParent_at j s = Inr ?s1"
    by (simp add: RemoveFromParent_at_def)
  from Cons.prems have "\<forall>i \<in> set js. i < length (FeedEntries ?s1)" by simp
  from Cons.IH [OF this] obtain box where
    ih: "for_each RemoveFromParent_at js ?s1 = Inr (?s1\<lparr> FeedScrollBox := box \<rparr>) \<and>
         (box = None) = (FeedScrollBox ?s1 = None)" by (rule exE)
  then show ?case
    by (intro exI [of _ box]) (simp add: step)
qed

lemma TrimOldEntries_returns:
  assumes "0 \<le> MaxEntries s"
  shows "\<exists>box. TrimOldEntries s =
                 Inr (s\<lparr> FeedScrollBox := box,
                         FeedEntries := drop (nat (int (length (FeedEntries s)) - MaxEntries s))
                                          (FeedEntries s) \<rparr>) \<and>
               (box = None) = (FeedScrollBox s = None)"
proof (cases "int (length (FeedEntries s)) > MaxEntries s")
  case False
  then show ?thesis
    by (intro exI [of _ "FeedScrollBox s"]) (simp add: TrimOldEntries_def)
next
  case True
  let ?n = "nat (int (length (FeedEntries s)) - MaxEntries s)"
  from assms have le: "?n \<le> length (FeedEntries s)" by linarith
  then have "\<forall>i \<in> set [0 ..< ?n]. i < length (FeedEntries s)" by simp
  from for_each_RemoveFromParent_at [OF this] obtain box where
    lb: "for_each RemoveFromParent_at [0 ..< ?n] s = Inr (s\<lparr> FeedScrollBox := box \<rparr>) \<and>
         (box = None) = (FeedScrollBox s = None)" by (rule exE)
  show ?thesis
    using True lb le
    by (intro exI [of _ box]) (simp add: TrimOldEntries_def RemoveAt_front_def Let_def)
qed

lemma for_each_RemoveFromParent_at_crash:
  "length (FeedEntries s) \<in> set js \<Longrightarrow> for_each RemoveFromParent_at js s = Inl IndexOutOfRange"
proof (induction js arbitrary: s)
  case Nil
  then show ?case by simp
next
  case (Cons j js)
  show ?case
  proof (cases "j < length (FeedEntries s)")
    case False
    then show ?thesis by (simp add: RemoveFromParent_at_def)
  next
    case True
    with Cons.prems have "length (FeedEntries s) \<in> set js" by auto
    with True Cons.IH show ?thesis by (simp add: RemoveFromParent_at_def)
  qed
qed

lemma TrimOldEntries_negative:
  assumes "MaxEntries s < 0"
  shows "TrimOldEntries s = Inl IndexOutOfRange"
proof -
  let ?n = "nat (int (length (FeedEntries s)) - MaxEntries s)"
  from assms have "length (FeedEntries s) < ?n" by linarith
  then have "length (FeedEntries s) \<in> set [0 ..< ?n]" by simp
  from for_each_RemoveFromParent_at_crash [OF this] assms show ?thesis
    by (simp add: TrimOldEntries_def Let_def)
qed

lemma CreateFeedEntryWidget_Inr:
  "CreateFeedEntryWidget Entry nw b s = Inr (r, s1) \<Longrightarrow>
     FeedEntries s1 = FeedEntries s \<and> MaxEntries s1 = MaxEntries s \<and>
     FeedScrollBox s1 = FeedScrollBox s \<and>
     BadgeEntryClass s1 = BadgeEntryClass s \<and>
     DefaultFeedEntryClass s1 = DefaultFeedEntryClass s \<and>
     r = (if (if FString_eq (EntryType Entry) ''badge'' then BadgeEntryClass s
              else DefaultFeedEntryClass s) = None
          then None else nw)"
  by (auto simp: CreateFeedEntryWidget_def Let_def split: option.splits if_splits)

lemma CreateFeedEntryWidget_returns:
  "nw \<noteq> None \<Longrightarrow> \<exists>r s1. CreateFeedEntryWidget Entry nw b s = Inr (r, s1)"
  by (auto simp: CreateFeedEntryWidget_def Let_def split: option.splits)

lemma AddFeedEntry_Inr:
  assumes max: "0 \<le> MaxEntries s" and r: "AddFeedEntry Entry nw b s = Inr s'"
  shows "MaxEntries s' = MaxEntries s \<and> (FeedScrollBox s' = None) = (FeedScrollBox s = None) \<and>
         BadgeEntryClass s' = BadgeEntryClass s \<and>
         DefaultFeedEntryClass s' = DefaultFeedEntryClass s \<and>
         FeedEntries s' =
           (case nw of
              None \<Rightarrow> FeedEntries s
            | Some w \<Rightarrow>
                if FeedScrollBox s \<noteq> None \<and>
                   (if FString_eq (EntryType Entry) ''badge'' then BadgeEntryClass s
                    else DefaultFeedEntryClass s) \<noteq> None
                then drop (nat (int (length (FeedEntries s)) + 1 - MaxEntries s))
                       (FeedEntries s @ [w])
                else FeedEntries s)"
proof (cases "FeedScrollBox s")
  case None
  with r show ?thesis by (simp add: AddFeedEntry_def split: option.split)
next
  case (Some box0)
  from r Some obtain cr s1 where c: "CreateFeedEntryWidget Entry nw b s = Inr (cr, s1)"
    by (auto simp: AddFeedEntry_def split: sum.splits)
  note f = CreateFeedEntryWidget_Inr [OF c]
  show ?thesis
  proof (cases cr)
    case None
    with r Some c have "s' = s1" by (simp add: AddFeedEntry_def)
    with f None Some show ?thesis by (auto split: option.split if_splits)
  next
    case (Some w)
    with f have nw: "nw = Some w"
      and cls: "(if FString_eq (EntryType Entry) ''badge'' then BadgeEntryClass s
                 else DefaultFeedEntryClass s) \<noteq> None"
      by (auto split: if_splits)
    let ?s3 = "s1\<lparr> FeedScrollBox :=
                     map_option (\<lambda>box. box\<lparr> Children := Children box @ [w] \<rparr>) (FeedScrollBox s1),
                   FeedEntries := FeedEntries s1 @ [w] \<rparr>"
    from max f have "0 \<le> MaxEntries ?s3" by simp
    from TrimOldEntries_returns [OF this] obtain box where
      tb: "TrimOldEntries ?s3 =
            Inr (?s3\<lparr> FeedScrollBox := box,
                      FeedEntries := drop (nat (int (length (FeedEntries ?s3)) - MaxEntries ?s3))
                                       (FeedEntries ?s3) \<rparr>) \<and>
           (box = None) = (FeedScrollBox ?s3 = None)" by (rule exE)
    then have t: "TrimOldEntries ?s3 =
            Inr (?s3\<lparr> FeedScrollBox := box,
                      FeedEntries := drop (nat (int (length (FeedEntries ?s3)) - MaxEntries ?s3))
                                       (FeedEntries ?s3) \<rparr>)"
      and b: "(box = None) = (FeedScrollBox ?s3 = None)" by simp_all
    from r \<open>FeedScrollBox s = Some box0\<close> c Some t
    have s': "s' = femit (OnNewEntryAdded Entry)
                    (ScrollToLatest
                      (?s3\<lparr> FeedScrollBox := box,
                            FeedEntries := drop (nat (int (length (FeedEntries ?s3)) - MaxEntries ?s3))
                                             (FeedEntries ?s3) \<rparr>))"
      by (simp add: AddFeedEntry_def Let_def)
    have k: "int (length (FeedEntries s)) + 1 - MaxEntries s =
             int (length (FeedEntries ?s3)) - MaxEntries ?s3"
      using f by simp
    have fields: "MaxEntries s' = MaxEntries s" "(FeedScrollBox s' = None) = (FeedScrollBox s = None)"
      "BadgeEntryClass s' = BadgeEntryClass s" "DefaultFeedEntryClass s' = DefaultFeedEntryClass s"
      "FeedEntries s' = drop (nat (int (length (FeedEntries s)) + 1 - MaxEntries s))
                          (FeedEntries s @ [w])"
      using f b \<open>FeedScrollBox s = Some box0\<close>
      by (simp_all add: s' k ScrollToLatest_def femit_def)
    from cls have "(if FeedScrollBox s \<noteq> None \<and>
                      (if FString_eq (EntryType Entry) ''badge'' then BadgeEntryClass s
                       else DefaultFeedEntryClass s) \<noteq> None
                    then drop (nat (int (length (FeedEntries s)) + 1 - MaxEntries s))
                           (FeedEntries s @ [w])
                    else FeedEntries s) =
                   drop (nat (int (length (FeedEntries s)) + 1 - MaxEntries s))
                     (FeedEntries s @ [w])"
      using \<open>FeedScrollBox s = Some box0\<close> by simp
    with fields show ?thesis by (simp add: nw)
  qed
qed

lemma AddFeedEntry_returns:
  assumes "0 \<le> MaxEntries s" and "nw \<noteq> None"
  shows "\<exists>s'. AddFeedEntry Entry nw b s = Inr s'"
proof (cases "FeedScrollBox s")
  case None
  then show ?thesis by (simp add: AddFeedEntry_def)
next
  case (Some box0)
  from CreateFeedEntryWidget_returns [OF assms(2)] obtain cr s1 where
    c: "CreateFeedEntryWidget Entry nw b s = Inr (cr, s1)" by blast
  note f = CreateFeedEntryWidget_Inr [OF c]
  show ?thesis
  proof (cases cr)
    case None
    with Some c show ?thesis by (simp add: AddFeedEntry_def)
  next
    case (Some w)
    let ?s3 = "s1\<lparr> FeedScrollBox :=
                     map_option (\<lambda>box. box\<lparr> Children := Children box @ [w] \<rparr>) (FeedScrollBox s1),
                   FeedEntries := FeedEntries s1 @ [w] \<rparr>"
    from assms(1) f have "0 \<le> MaxEntries ?s3" by simp
    from TrimOldEntries_returns [OF this] obtain s4 where "TrimOldEntries ?s3 = Inr s4" by auto
    with \<open>FeedScrollBox s = Some box0\<close> c Some show ?thesis
      by (simp add: AddFeedEntry_def Let_def)
  qed
qed

lemma badge_is_badge: "FString_eq ''badge'' ''badge''"
  by (simp add: FString_eq_def)

lemma AddBadgeEntry_Inr:
  assumes "0 \<le> MaxEntries s" and "AddBadgeEntry Badge now nw b s = Inr s'"
  shows "MaxEntries s' = MaxEntries s \<and> (FeedScrollBox s' = None) = (FeedScrollBox s = None) \<and>
         BadgeEntryClass s' = BadgeEntryClass s \<and>
         DefaultFeedEntryClass s' = DefaultFeedEntryClass s \<and>
         FeedEntries s' =
           (case nw of
              None \<Rightarrow> FeedEntries s
            | Some w \<Rightarrow>
                if FeedScrollBox s \<noteq> None \<and> BadgeEntryClass s \<noteq> None
                then drop (nat (int (length (FeedEntries s)) + 1 - MaxEntries s))
                       (FeedEntries s @ [w])
                else FeedEntries s)"
proof (cases "BadgeEntryClass s = None")
  case True
  with assms(2) show ?thesis by (simp add: AddBadgeEntry_def split: option.split)
next
  case False
  let ?Entry = "\<lparr> FFeedEntry.Title = FBadgeData.Name Badge, Subtitle = FBadgeData.Description Badge,
                  Icon = FBadgeData.Icon Badge, Timestamp = now, EntryType = ''badge'',
                  BadgeData = Badge \<rparr>"
  from False assms(2) have "AddFeedEntry ?Entry nw b s = Inr s'"
    by (auto simp: AddBadgeEntry_def Let_def)
  from AddFeedEntry_Inr [OF assms(1) this] show ?thesis
    by (simp add: badge_is_badge)
qed

lemma AddBadgeEntry_returns:
  assumes "0 \<le> MaxEntries s" and "nw \<noteq> None"
  shows "\<exists>s'. AddBadgeEntry Badge now nw b s = Inr s'"
  using AddFeedEntry_returns [OF assms]
  by (simp add: AddBadgeEntry_def Let_def)

lemma ClearFeed_fields:
  "MaxEntries (ClearFeed s) = MaxEntries s"
  "(FeedScrollBox (ClearFeed s) = None) = (FeedScrollBox s = None)"
  "BadgeEntryClass (ClearFeed s) = BadgeEntryClass s"
  "DefaultFeedEntryClass (ClearFeed s) = DefaultFeedEntryClass s"
  "FeedScrollBox s \<noteq> None \<Longrightarrow> FeedEntries (ClearFeed s) = []"
  "FeedScrollBox s = None \<Longrightarrow> ClearFeed s = s"
  by (auto simp: ClearFeed_def Let_def split: option.splits)

lemma drop_excess_bound:
  assumes "0 \<le> M" and "int (length xs) \<le> M"
  shows "int (length (drop (nat (int (length xs) + 1 - M)) (xs @ [w]))) \<le> M"
  using assms by simp

lemma feed_step_keeps_bound:
  assumes "0 \<le> MaxEntries s" and "int (length (FeedEntries s)) \<le> MaxEntries s"
      and "FeedScrollBox s = None \<longrightarrow> FeedEntries s = []"
      and "feed_step c s = Inr s'"
  shows "MaxEntries s' = MaxEntries s \<and> int (length (FeedEntries s')) \<le> MaxEntries s' \<and>
         (FeedScrollBox s' = None \<longrightarrow> FeedEntries s' = []) \<and>
         (FeedScrollBox s' = None \<longleftrightarrow> FeedScrollBox s = None)"
proof (cases c)
  case (CallAddFeedEntry Entry nw b)
  with assms(4) have "AddFeedEntry Entry nw b s = Inr s'" by simp
  from AddFeedEntry_Inr [OF assms(1) this] assms(1,2,3) drop_excess_bound [OF assms(1,2)]
  show ?thesis by (auto split: option.splits if_splits)
next
  case (CallAddBadgeEntry Badge now nw b)
  with assms(4) have "AddBadgeEntry Badge now nw b s = Inr s'" by simp
  from AddBadgeEntry_Inr [OF assms(1) this] assms(1,2,3) drop_excess_bound [OF assms(1,2)]
  show ?thesis by (auto split: option.splits if_splits)
next
  case CallClearFeed
  with assms(4) have "s' = ClearFeed s" by simp
  with assms(1,2,3) show ?thesis
    by (cases "FeedScrollBox s = None") (auto simp: ClearFeed_fields)
qed

lemma feed_step_classes:
  assumes "0 \<le> MaxEntries s" and "feed_step c s = Inr s'"
  shows "BadgeEntryClass s' = BadgeEntryClass s \<and>
         DefaultFeedEntryClass s' = DefaultFeedEntryClass s"
proof (cases c)
  case (CallAddFeedEntry Entry nw b)
  with assms(2) have "AddFeedEntry Entry nw b s = Inr s'" by simp
  from AddFeedEntry_Inr [OF assms(1) this] show ?thesis by simp
next
  case (CallAddBadgeEntry Badge now nw b)
  with assms(2) have "AddBadgeEntry Badge now nw b s = Inr s'" by simp
  from AddBadgeEntry_Inr [OF assms(1) this] show ?thesis by simp
next
  case CallClearFeed
  with assms(2) show ?thesis by (auto simp: ClearFeed_fields)
qed

lemma feed_step_returns:
  assumes "0 \<le> MaxEntries s" and "creates_widget c"
  shows "\<exists>s'. feed_step c s = Inr s'"
  using assms AddFeedEntry_returns AddBadgeEntry_returns
  by (cases c) simp_all

lemma feed_run_keeps_bound:
  assumes "0 \<le> MaxEntries s" and "int (length (FeedEntries s)) \<le> MaxEntries s"
      and "FeedScrollBox s = None \<longrightarrow> FeedEntries s = []"
      and "feed_run cs s = Inr s'"
  shows "MaxEntries s' = MaxEntries s \<and> int (length (FeedEntries s')) \<le> MaxEntries s' \<and>
         (FeedScrollBox s' = None \<longrightarrow> FeedEntries s' = []) \<and>
         (FeedScrollBox s' = None \<longleftrightarrow> FeedScrollBox s = None) \<and>
         BadgeEntryClass s' = BadgeEntryClass s \<and>
         DefaultFeedEntryClass s' = DefaultFeedEntryClass s"
  using assms unfolding feed_run_def
proof (induction cs arbitrary: s)
  case Nil
  then show ?case by simp
next
  case (Cons c cs)
  from Cons.prems(4) obtain s1 where c: "feed_step c s = Inr s1"
      and rest: "for_each feed_step cs s1 = Inr s'"
    by (auto split: sum.splits)
  note k = feed_step_keeps_bound [OF Cons.prems(1,2,3) c]
  note cl = feed_step_classes [OF Cons.prems(1) c]
  from k Cons.prems(1)
  have "MaxEntries s' = MaxEntries s1 \<and> int (length (FeedEntries s')) \<le> MaxEntries s' \<and>
        (FeedScrollBox s' = None \<longrightarrow> FeedEntries s' = []) \<and>
        (FeedScrollBox s' = None \<longleftrightarrow> FeedScrollBox s1 = None) \<and>
        BadgeEntryClass s' = BadgeEntryClass s1 \<and>
        DefaultFeedEntryClass s' = DefaultFeedEntryClass s1"
    by (intro Cons.IH [OF _ _ _ rest]) simp_all
  with k cl show ?case by simp
qed

lemma feed_run_returns:
  assumes "0 \<le> MaxEntries s" and "int (length (FeedEntries s)) \<le> MaxEntries s"
      and "FeedScrollBox s = None \<longrightarrow> FeedEntries s = []"
      and "\<forall>c \<in> set cs. creates_widget c"
  shows "\<exists>s'. feed_run cs s = Inr s'"
  using assms unfolding feed_run_def
proof (induction cs arbitrary: s)
  case Nil
  then show ?case by simp
next
  case (Cons c cs)
  from feed_step_returns [OF Cons.prems(1), of c] Cons.prems(4)
  obtain s1 where c: "feed_step c s = Inr s1" by auto
  note k = feed_step_keeps_bound [OF Cons.prems(1,2,3) c]
  from k Cons.prems(1,4) have "\<exists>s'. for_each feed_step cs s1 = Inr s'"
    by (intro Cons.IH) simp_all
  then show ?case by (simp add: c)
qed

text \<open>
  C9.  The feed is bounded and first-in-first-out, when \<^verbatim>\<open>MaxEntries\<close> is not negative.
  Take the widget as its constructor leaves it (empty list, any scroll box and widget
  classes), with \<^verbatim>\<open>MaxEntries\<close> set to any \<open>M\<close> that is not negative; 50 is the default.
  A sequence of \<^verbatim>\<open>AddFeedEntry\<close>, \<^verbatim>\<open>AddBadgeEntry\<close> and \<^verbatim>\<open>ClearFeed\<close> calls returns
  whenever \<^verbatim>\<open>CreateWidget\<close> never returns null.  After any such sequence that returns,
  \<^verbatim>\<open>MaxEntries\<close> is still \<open>M\<close> and the list has at most \<open>M\<close> widgets, and for the next call:
  \<^verbatim>\<open>ClearFeed\<close> leaves the list empty; \<^verbatim>\<open>AddFeedEntry\<close> and \<^verbatim>\<open>AddBadgeEntry\<close>, when they
  return, leave the list as it was unless the scroll box is bound, the widget class for
  the entry is set and \<^verbatim>\<open>CreateWidget\<close> returned a widget \<open>w\<close>, and then the new list is
  the old list with \<open>w\<close> at its end, less as many widgets at its front as it had more than
  \<open>M\<close>.
\<close>

theorem timeline_feed_bounded_fifo:
  "0 \<le> M \<longrightarrow>
   ((\<forall>c \<in> set cs. creates_widget c) \<longrightarrow>
      (\<exists>s1. feed_run cs ((UTimelineFeedWidget_ctor box entryClass badgeClass)
                          \<lparr> MaxEntries := M \<rparr>) = Inr s1)) \<and>
   (\<forall>s1. feed_run cs ((UTimelineFeedWidget_ctor box entryClass badgeClass)
                       \<lparr> MaxEntries := M \<rparr>) = Inr s1 \<longrightarrow>
      MaxEntries s1 = M \<and>
      int (length (FeedEntries s1)) \<le> M \<and>
      FeedEntries (ClearFeed s1) = [] \<and>
      (\<forall>Entry NewWidget bSetupFunc s2.
         AddFeedEntry Entry NewWidget bSetupFunc s1 = Inr s2 \<longrightarrow>
           FeedEntries s2 =
             (case NewWidget of
                None \<Rightarrow> FeedEntries s1
              | Some w \<Rightarrow>
                  if FeedScrollBox s1 \<noteq> None \<and>
                     (if FString_eq (EntryType Entry) ''badge'' then BadgeEntryClass s1
                      else DefaultFeedEntryClass s1) \<noteq> None
                  then drop (nat (int (length (FeedEntries s1)) + 1 - M)) (FeedEntries s1 @ [w])
                  else FeedEntries s1)) \<and>
      (\<forall>Badge now NewWidget bSetupFunc s2.
         AddBadgeEntry Badge now NewWidget bSetupFunc s1 = Inr s2 \<longrightarrow>
           FeedEntries s2 =
             (case NewWidget of
                None \<Rightarrow> FeedEntries s1
              | Some w \<Rightarrow>
                  if FeedScrollBox s1 \<noteq> None \<and> BadgeEntryClass s1 \<noteq> None
                  then drop (nat (int (length (FeedEntries s1)) + 1 - M)) (FeedEntries s1 @ [w])
                  else FeedEntries s1)))"
proof (intro impI)
  assume M: "0 \<le> M"
  let ?s = "(UTimelineFeedWidget_ctor box entryClass badgeClass)\<lparr> MaxEntries := M \<rparr>"
  from M have pre: "0 \<le> MaxEntries ?s" "int (length (FeedEntries ?s)) \<le> MaxEntries ?s"
    "FeedScrollBox ?s = None \<longrightarrow> FeedEntries ?s = []"
    by (simp_all add: UTimelineFeedWidget_ctor_def)
  have m: "MaxEntries ?s = M" by simp
  show "((\<forall>c \<in> set cs. creates_widget c) \<longrightarrow> (\<exists>s1. feed_run cs ?s = Inr s1)) \<and>
   (\<forall>s1. feed_run cs ?s = Inr s1 \<longrightarrow>
      MaxEntries s1 = M \<and>
      int (length (FeedEntries s1)) \<le> M \<and>
      FeedEntries (ClearFeed s1) = [] \<and>
      (\<forall>Entry NewWidget bSetupFunc s2.
         AddFeedEntry Entry NewWidget bSetupFunc s1 = Inr s2 \<longrightarrow>
           FeedEntries s2 =
             (case NewWidget of
                None \<Rightarrow> FeedEntries s1
              | Some w \<Rightarrow>
                  if FeedScrollBox s1 \<noteq> None \<and>
                     (if FString_eq (EntryType Entry) ''badge'' then BadgeEntryClass s1
                      else DefaultFeedEntryClass s1) \<noteq> None
                  then drop (nat (int (length (FeedEntries s1)) + 1 - M)) (FeedEntries s1 @ [w])
                  else FeedEntries s1)) \<and>
      (\<forall>Badge now NewWidget bSetupFunc s2.
         AddBadgeEntry Badge now NewWidget bSetupFunc s1 = Inr s2 \<longrightarrow>
           FeedEntries s2 =
             (case NewWidget of
                None \<Rightarrow> FeedEntries s1
              | Some w \<Rightarrow>
                  if FeedScrollBox s1 \<noteq> None \<and> BadgeEntryClass s1 \<noteq> None
                  then drop (nat (int (length (FeedEntries s1)) + 1 - M)) (FeedEntries s1 @ [w])
                  else FeedEntries s1)))"
  proof (intro conjI impI allI)
    assume "\<forall>c \<in> set cs. creates_widget c"
    with pre show "\<exists>s1. feed_run cs ?s = Inr s1" by (intro feed_run_returns)
  next
    fix s1
    assume r: "feed_run cs ?s = Inr s1"
    note inv = feed_run_keeps_bound [OF pre r]
    from inv m show m1: "MaxEntries s1 = M" by simp
    from inv m show "int (length (FeedEntries s1)) \<le> M" by simp
    from inv show "FeedEntries (ClearFeed s1) = []"
      by (cases "FeedScrollBox s1 = None") (simp_all add: ClearFeed_fields)
    from m1 M have max1: "0 \<le> MaxEntries s1" by simp
    {
      fix Entry NewWidget bSetupFunc s2
      assume "AddFeedEntry Entry NewWidget bSetupFunc s1 = Inr s2"
      from AddFeedEntry_Inr [OF max1 this, unfolded m1]
      show "FeedEntries s2 =
             (case NewWidget of
                None \<Rightarrow> FeedEntries s1
              | Some w \<Rightarrow>
                  if FeedScrollBox s1 \<noteq> None \<and>
                     (if FString_eq (EntryType Entry) ''badge'' then BadgeEntryClass s1
                      else DefaultFeedEntryClass s1) \<noteq> None
                  then drop (nat (int (length (FeedEntries s1)) + 1 - M)) (FeedEntries s1 @ [w])
                  else FeedEntries s1)"
        by (elim conjE)
    }
    {
      fix Badge now NewWidget bSetupFunc s2
      assume "AddBadgeEntry Badge now NewWidget bSetupFunc s1 = Inr s2"
      from AddBadgeEntry_Inr [OF max1 this, unfolded m1]
      show "FeedEntries s2 =
             (case NewWidget of
                None \<Rightarrow> FeedEntries s1
              | Some w \<Rightarrow>
                  if FeedScrollBox s1 \<noteq> None \<and> BadgeEntryClass s1 \<noteq> None
                  then drop (nat (int (length (FeedEntries s1)) + 1 - M)) (FeedEntries s1 @ [w])
                  else FeedEntries s1)"
        by (elim conjE)
    }
  qed
qed

lemma small_feed_run:
  "feed_run [CallAddFeedEntry demo_entry (Some 1) False,
             CallAddFeedEntry demo_entry (Some 2) True] small_feed = Inr s1 \<Longrightarrow>
   FeedEntries s1 = [1, 2] \<and> FeedScrollBox s1 \<noteq> None \<and> BadgeEntryClass s1 = Some 21"
  by (auto simp: feed_run_def small_feed_def UTimelineFeedWidget_ctor_def AddFeedEntry_def
        CreateFeedEntryWidget_def TrimOldEntries_def RemoveFromParent_at_def
        RemoveAt_front_def ScrollToLatest_def femit_def demo_entry_def demo_badge_def
        FString_eq_def ToLower_char_def Let_def)

text \<open>
  The feed with room for two: two entries go in, and the badge added next pushes the
  older of them out.
\<close>

theorem timeline_feed_bounded_fifo_witness:
  "\<exists>s1 s2. feed_run [CallAddFeedEntry demo_entry (Some 1) False,
                      CallAddFeedEntry demo_entry (Some 2) True] small_feed = Inr s1 \<and>
           FeedEntries s1 = [1, 2] \<and> MaxEntries s1 = 2 \<and> FeedEntries (ClearFeed s1) = [] \<and>
           AddBadgeEntry demo_badge 7 (Some 3) False s1 = Inr s2 \<and>
           FeedEntries s2 = [2, 3]"
proof -
  let ?cs = "[CallAddFeedEntry demo_entry (Some 1) False,
              CallAddFeedEntry demo_entry (Some 2) True]"
  have all: "\<forall>c \<in> set ?cs. creates_widget c" by simp
  note t = timeline_feed_bounded_fifo [of 2 ?cs "Some \<lparr> Children = [] \<rparr>" "Some 20" "Some 21",
             folded small_feed_def]
  from t all obtain s1 where r: "feed_run ?cs small_feed = Inr s1"
    by auto
  from t r have m: "MaxEntries s1 = 2" and c: "FeedEntries (ClearFeed s1) = []"
    and fifo: "\<forall>Badge now NewWidget bSetupFunc s2.
         AddBadgeEntry Badge now NewWidget bSetupFunc s1 = Inr s2 \<longrightarrow>
           FeedEntries s2 =
             (case NewWidget of
                None \<Rightarrow> FeedEntries s1
              | Some w \<Rightarrow>
                  if FeedScrollBox s1 \<noteq> None \<and> BadgeEntryClass s1 \<noteq> None
                  then drop (nat (int (length (FeedEntries s1)) + 1 - 2)) (FeedEntries s1 @ [w])
                  else FeedEntries s1)"
    by simp_all
  note e = small_feed_run [OF r]
  from m have "0 \<le> MaxEntries s1" by simp
  from AddBadgeEntry_returns [OF this, of "Some 3" demo_badge 7 False]
  obtain s2 where b: "AddBadgeEntry demo_badge 7 (Some 3) False s1 = Inr s2" by auto
  with fifo have "FeedEntries s2 =
             (case Some (3 :: nat) of
                None \<Rightarrow> FeedEntries s1
              | Some w \<Rightarrow>
                  if FeedScrollBox s1 \<noteq> None \<and> BadgeEntryClass s1 \<noteq> None
                  then drop (nat (int (length (FeedEntries s1)) + 1 - 2)) (FeedEntries s1 @ [w])
                  else FeedEntries s1)"
    by blast
  with e have "FeedEntries s2 = [2, 3]" by simp
  with r e m c b show ?thesis by blast
qed

text \<open>
  With a negative \<^verbatim>\<open>MaxEntries\<close> the feed is not bounded by it: after \<^verbatim>\<open>ClearFeed\<close> the
  empty list has more than \<open>- 1\<close> widgets, and the first insertion trims one widget more
  than the list has, which the range check of \<^verbatim>\<open>FeedEntries[i]\<close> stops.
\<close>

theorem timeline_feed_negative_bound:
  "MaxEntries negative_feed = - 1 \<and>
   feed_run [CallClearFeed] negative_feed = Inr negative_feed \<and>
   \<not> int (length (FeedEntries negative_feed)) \<le> MaxEntries negative_feed \<and>
   feed_run [CallAddFeedEntry demo_entry (Some 1) False] negative_feed = Inl IndexOutOfRange"
  by (simp add: negative_feed_def feed_run_def small_feed_def UTimelineFeedWidget_ctor_def
        ClearFeed_def AddFeedEntry_def CreateFeedEntryWidget_def TrimOldEntries_def
        RemoveFromParent_at_def demo_entry_def demo_badge_def FString_eq_def ToLower_char_def
        Let_def upt_rec)
section \<open>Properties of the challenge card\<close>

lemma FMath_Clamp_float_unit:
  "in_unit_interval (FMath_Clamp_float x (Finite 0) (Finite 1))"
  by (cases x) (simp_all add: FMath_Clamp_float_def)

lemma FMath_Clamp_float_zero_divisor:
  "FMath_Clamp_float (float_div x (Finite 0)) (Finite 0) (Finite 1) = Finite 0 \<or>
   FMath_Clamp_float (float_div x (Finite 0)) (Finite 0) (Finite 1) = Finite 1"
  by (cases x) (simp_all add: FMath_Clamp_float_def)

lemma percents_append [simp]: "percents (xs @ ys) = percents xs @ percents ys"
  by (induction xs rule: percents.induct) simp_all

lemma cemit_fields [simp]:
  "ProgressBar (cemit e s) = ProgressBar s"
  "ProgressText (cemit e s) = ProgressText s"
  "TargetProgress (cemit e s) = TargetProgress s"
  "ChallengeEffects (cemit e s) = ChallengeEffects s @ [e]"
  by (simp_all add: cemit_def)

text \<open>The argument \<^verbatim>\<open>SetPercent\<close> gets for a progress value and a target.\<close>

lemma UpdateProgress_percents:
  "ProgressBar (UpdateProgress p s) = ProgressBar s \<and>
   TargetProgress (UpdateProgress p s) = TargetProgress s \<and>
   percents (ChallengeEffects (UpdateProgress p s)) =
     percents (ChallengeEffects s) @
     (if ProgressBar s \<noteq> None
      then [FMath_Clamp_float (float_div p (float_of_int32 (TargetProgress s))) (Finite 0) (Finite 1)]
      else [])"
  by (simp add: UpdateProgress_def UpdateProgressDisplay_def Let_def)

lemma fold_UpdateProgress_percents:
  "ProgressBar (fold UpdateProgress ps s) = ProgressBar s \<and>
   TargetProgress (fold UpdateProgress ps s) = TargetProgress s \<and>
   percents (ChallengeEffects (fold UpdateProgress ps s)) =
     percents (ChallengeEffects s) @
     (if ProgressBar s \<noteq> None
      then map (\<lambda>p. FMath_Clamp_float (float_div p (float_of_int32 (TargetProgress s)))
                     (Finite 0) (Finite 1)) ps
      else [])"
proof (induction ps arbitrary: s)
  case Nil
  then show ?case by simp
next
  case (Cons p ps)
  show ?case
    using Cons.IH [of "UpdateProgress p s"] UpdateProgress_percents [of p s]
    by simp
qed

lemma SetDifficultyColor_fields [simp]:
  "ProgressBar (SetDifficultyColor a s) = ProgressBar s"
  "TargetProgress (SetDifficultyColor a s) = TargetProgress s"
  "percents (ChallengeEffects (SetDifficultyColor a s)) = percents (ChallengeEffects s)"
  by (simp_all add: SetDifficultyColor_def Let_def split: option.split)

lemma SetCategoryIcon_fields [simp]:
  "ProgressBar (SetCategoryIcon a s) = ProgressBar s"
  "TargetProgress (SetCategoryIcon a s) = TargetProgress s"
  "percents (ChallengeEffects (SetCategoryIcon a s)) = percents (ChallengeEffects s)"
  by (simp_all add: SetCategoryIcon_def split: option.split)

lemma SetupChallenge_percents:
  "ProgressBar (SetupChallenge d s) = ProgressBar s \<and>
   TargetProgress (SetupChallenge d s) = Target d \<and>
   percents (ChallengeEffects (SetupChallenge d s)) =
     percents (ChallengeEffects s) @
     (if ProgressBar s \<noteq> None
      then [FMath_Clamp_float (float_div (float_of_int32 (CurrentProgress d)) (float_of_int32 (Target d)))
              (Finite 0) (Finite 1)]
      else [])"
  by (simp add: SetupChallenge_def Let_def UpdateProgress_percents)

text \<open>
  C10.  For every card, every challenge handed to \<^verbatim>\<open>SetupChallenge\<close> and every sequence
  of \<^verbatim>\<open>UpdateProgress\<close> calls after it, with any floats whatever: each value these calls
  pass to \<^verbatim>\<open>SetPercent\<close> lies in \<open>[0, 1]\<close>.  With a progress bar bound there is one such
  value per call, the clamped quotient of the progress by the target.  The quotient is
  defined for a target of 0 as well (an infinity or a NaN), and the value passed is then 0
  or 1.
\<close>

theorem progress_percent_in_unit_interval:
  "\<exists>new. percents (ChallengeEffects (fold UpdateProgress ps (SetupChallenge d s))) =
            percents (ChallengeEffects s) @ new \<and>
         (\<forall>v \<in> set new. in_unit_interval v \<and> (Target d = 0 \<longrightarrow> v = Finite 0 \<or> v = Finite 1)) \<and>
         (ProgressBar s \<noteq> None \<longrightarrow>
            new = map (\<lambda>p. FMath_Clamp_float (float_div p (float_of_int32 (Target d)))
                            (Finite 0) (Finite 1))
                      (float_of_int32 (CurrentProgress d) # ps))"
proof -
  let ?ratio = "\<lambda>p. FMath_Clamp_float (float_div p (float_of_int32 (Target d))) (Finite 0) (Finite 1)"
  let ?new = "if ProgressBar s \<noteq> None then map ?ratio (float_of_int32 (CurrentProgress d) # ps) else []"
  have eq: "percents (ChallengeEffects (fold UpdateProgress ps (SetupChallenge d s))) =
              percents (ChallengeEffects s) @ ?new"
    using fold_UpdateProgress_percents [of ps "SetupChallenge d s"] SetupChallenge_percents [of d s]
    by simp
  have unit: "\<forall>v \<in> set ?new. in_unit_interval v"
    by (auto simp: FMath_Clamp_float_unit)
  have zero: "Target d = 0 \<longrightarrow> (\<forall>v \<in> set ?new. v = Finite 0 \<or> v = Finite 1)"
  proof (intro impI ballI)
    fix v
    assume t: "Target d = 0" and v: "v \<in> set ?new"
    from t have "float_of_int32 (Target d) = Finite 0" by (simp add: float_of_int32_def)
    with v obtain p where "v = FMath_Clamp_float (float_div p (Finite 0)) (Finite 0) (Finite 1)"
      by (auto split: if_splits)
    with FMath_Clamp_float_zero_divisor [of p] show "v = Finite 0 \<or> v = Finite 1" by simp
  qed
  from eq unit zero show ?thesis
    by (intro exI [of _ ?new]) auto
qed

theorem progress_percent_in_unit_interval_witness:
  "percents (ChallengeEffects
     (fold UpdateProgress [Finite 0, Finite (- 2), NaN, PlusInfinity]
        (SetupChallenge zero_target_challenge (UChallengeCardWidget_ctor (Some 0))))) =
   [Finite 1, Finite 1, Finite 0, Finite 1, Finite 1]"
proof -
  from progress_percent_in_unit_interval
         [of "[Finite 0, Finite (- 2), NaN, PlusInfinity]" zero_target_challenge
             "UChallengeCardWidget_ctor (Some 0)"]
  obtain new where
    e: "percents (ChallengeEffects
          (fold UpdateProgress [Finite 0, Finite (- 2), NaN, PlusInfinity]
             (SetupChallenge zero_target_challenge (UChallengeCardWidget_ctor (Some 0))))) =
        percents (ChallengeEffects (UChallengeCardWidget_ctor (Some 0))) @ new"
    and n: "ProgressBar (UChallengeCardWidget_ctor (Some 0)) \<noteq> None \<longrightarrow>
            new = map (\<lambda>p. FMath_Clamp_float
                              (float_div p (float_of_int32 (Target zero_target_challenge)))
                              (Finite 0) (Finite 1))
                      (float_of_int32 (CurrentProgress zero_target_challenge) #
                       [Finite 0, Finite (- 2), NaN, PlusInfinity])"
    by blast
  from n have "new = [Finite 1, Finite 1, Finite 0, Finite 1, Finite 1]"
    by (simp add: UChallengeCardWidget_ctor_def zero_target_challenge_def float_of_int32_def
          FMath_Clamp_float_def)
  with e show ?thesis by (simp add: UChallengeCardWidget_ctor_def)
qed

end
